theory Spec2Isabelle
  imports Complex_Main
begin

section \<open>Relion 3.1 star-file conversion: an embedding of the converter\<close>

text \<open>
  The development follows \<^verbatim>\<open>relion/convert/convert_utils.py\<close> and
  \<^verbatim>\<open>relion/convert/convert31.py\<close>. Python integers are \<^typ>\<open>int\<close>, strings are
  \<^typ>\<open>string\<close>, numpy floats are idealised as \<^typ>\<open>real\<close>, an ordered dictionary is an
  association list in insertion order, and every exception the code can raise is a value
  of the type \<open>error\<close> on the left of a sum.
\<close>

datatype error =
    ValueError
  | TypeError
  | KeyError
  | IndexError
  | AttributeError
  | StopIteration
  | LinAlgError
  | SchemaError
  | PyException string

subsection \<open>Python string primitives\<close>

text \<open>
  \<open>str_nat\<close> is the decimal numeral of a natural number and \<open>py_fmt_d w\<close> is the
  conversion \<^verbatim>\<open>"%0wd" % i\<close>: the digits are padded with zeros on the left up to a
  minimum width \<open>w\<close>, the sign of a negative number counts towards the width, and a
  number with more digits than \<open>w\<close> is printed in full.
\<close>

fun str_nat :: "nat \<Rightarrow> string" where
  "str_nat n = (if n < 10 then [char_of (48 + n)] else str_nat (n div 10) @ [char_of (48 + n mod 10)])"

declare str_nat.simps [simp del]

definition py_fmt_d :: "nat \<Rightarrow> int \<Rightarrow> string" where
  "py_fmt_d width i =
     (let s = str_nat (nat \<bar>i\<bar>) in
      if i < 0 then CHR ''-'' # replicate (width - 1 - length s) CHR ''0'' @ s
      else replicate (width - length s) CHR ''0'' @ s)"

text \<open>
  \<open>py_int\<close> is \<^verbatim>\<open>int(s)\<close> on a string (Python 3): surrounding white space is
  stripped, one sign is accepted, and the rest must be decimal digits, where single
  underscores may separate digits. Anything else raises \<^verbatim>\<open>ValueError\<close>.
\<close>

definition is_digit :: "char \<Rightarrow> bool" where
  "is_digit c = (48 \<le> (of_char c :: nat) \<and> (of_char c :: nat) \<le> 57)"

definition digit_val :: "char \<Rightarrow> nat" where
  "digit_val c = of_char c - 48"

fun nat_of_digits :: "nat \<Rightarrow> string \<Rightarrow> nat" where
  "nat_of_digits acc [] = acc"
| "nat_of_digits acc (c # cs) = nat_of_digits (10 * acc + digit_val c) cs"

definition py_isspace :: "char \<Rightarrow> bool" where
  "py_isspace c = ((of_char c :: nat) \<in> {9, 10, 11, 12, 13, 28, 29, 30, 31, 32, 133, 160})"

definition py_strip :: "string \<Rightarrow> string" where
  "py_strip s = rev (dropWhile py_isspace (rev (dropWhile py_isspace s)))"

fun no_double_underscore :: "string \<Rightarrow> bool" where
  "no_double_underscore (a # b # cs) =
     (\<not> (a = CHR ''_'' \<and> b = CHR ''_'') \<and> no_double_underscore (b # cs))"
| "no_double_underscore _ = True"

definition valid_int_body :: "string \<Rightarrow> bool" where
  "valid_int_body b =
     (b \<noteq> [] \<and> is_digit (hd b) \<and> is_digit (last b) \<and>
      list_all (\<lambda>c. is_digit c \<or> c = CHR ''_'') b \<and> no_double_underscore b)"

definition py_int :: "string \<Rightarrow> error + int" where
  "py_int s =
     (let t = py_strip s;
          neg = (t \<noteq> [] \<and> hd t = CHR ''-'');
          b = (if t \<noteq> [] \<and> (hd t = CHR ''-'' \<or> hd t = CHR ''+'') then tl t else t)
      in if valid_int_body b
         then Inr ((if neg then - 1 else 1) * int (nat_of_digits 0 (filter is_digit b)))
         else Inl ValueError)"


subsection \<open>Locations (\<^verbatim>\<open>convert_utils.py\<close>)\<close>

text \<open>
  \<^verbatim>\<open>pwem.NO_INDEX\<close> is a constant of an external package; the two functions take it
  as their first argument. \<^verbatim>\<open>relionToLocation\<close> unpacks the result of the split into
  exactly two names, which raises \<^verbatim>\<open>ValueError\<close> for any other number of parts.
\<close>

definition locationToRelion :: "int \<Rightarrow> int \<Rightarrow> string \<Rightarrow> string" where
  "locationToRelion NO_INDEX index filename =
     (if index \<noteq> NO_INDEX then py_fmt_d 6 index @ ''@'' @ filename
      else filename)"


text \<open>An auxiliary abbreviation for the proofs about padded numerals.\<close>

definition zpad :: "nat \<Rightarrow> string \<Rightarrow> string" where
  "zpad k s = replicate k CHR ''0'' @ s"

subsection \<open>Python values and ordered dictionaries\<close>

text \<open>
  The values that rows, attributes and optics entries hold. \<open>truthy\<close> is Python's truth
  test and \<open>py_or a b\<close> is the expression \<^verbatim>\<open>a or b\<close>.
\<close>

datatype pyval = PNone | PInt int | PFloat real | PStr string

definition truthy :: "pyval \<Rightarrow> bool" where
  "truthy v = (case v of PNone \<Rightarrow> False | PInt i \<Rightarrow> i \<noteq> 0
                 | PFloat x \<Rightarrow> x \<noteq> 0 | PStr s \<Rightarrow> s \<noteq> [])"

definition py_or :: "pyval \<Rightarrow> pyval \<Rightarrow> pyval" where
  "py_or a b = (if truthy a then a else b)"

definition of_float :: "real option \<Rightarrow> pyval" where
  "of_float x = (case x of None \<Rightarrow> PNone | Some r \<Rightarrow> PFloat r)"

definition of_str :: "string option \<Rightarrow> pyval" where
  "of_str x = (case x of None \<Rightarrow> PNone | Some s \<Rightarrow> PStr s)"

text \<open>
  An \<^verbatim>\<open>OrderedDict\<close> (and a \<^verbatim>\<open>dict\<close>, which keeps insertion order as well) is an
  association list: \<open>od_set\<close> replaces the value of a key that is present, in place, and
  appends a new key at the end. \<open>od_of_list\<close> is a dictionary display: a key written
  twice keeps its first position and its last value.
\<close>

type_synonym ('k, 'v) odict = "('k \<times> 'v) list"

fun od_set :: "'k \<Rightarrow> 'v \<Rightarrow> ('k, 'v) odict \<Rightarrow> ('k, 'v) odict" where
  "od_set k v [] = [(k, v)]"
| "od_set k v ((k', v') # r) = (if k' = k then (k, v) # r else (k', v') # od_set k v r)"

definition od_get :: "('k, 'v) odict \<Rightarrow> 'k \<Rightarrow> 'v option" where
  "od_get d k = map_of d k"

definition od_keys :: "('k, 'v) odict \<Rightarrow> 'k list" where
  "od_keys d = map fst d"

definition od_values :: "('k, 'v) odict \<Rightarrow> 'v list" where
  "od_values d = map snd d"

definition od_of_list :: "('k \<times> 'v) list \<Rightarrow> ('k, 'v) odict" where
  "od_of_list kvs = foldl (\<lambda>d (k, v). od_set k v d) [] kvs"

type_synonym row = "(string, pyval) odict"

text \<open>
  An object with dynamic attributes is the map from the names of the attributes it has
  to their values: \<^verbatim>\<open>hasattr(obj, name)\<close> is \<open>obj name \<noteq> None\<close> and
  \<^verbatim>\<open>obj.getAttributeValue(name)\<close> is the value.
\<close>

type_synonym pyobject = "string \<rightharpoonup> pyval"

text \<open>
  \<open>py_str_list xs\<close> is \<^verbatim>\<open>str(xs)\<close> for a list of strings, which is also what
  \<^verbatim>\<open>'%s' % xs\<close> prints: the \<^verbatim>\<open>repr\<close> of every element, separated by a comma
  and a space, in square brackets. \<^verbatim>\<open>repr\<close> quotes with an apostrophe, or with a
  double quote when the string has an apostrophe and no double quote, and escapes the
  backslash, the quote in use and the control characters.
\<close>

definition hex_digit :: "nat \<Rightarrow> char" where
  "hex_digit n = ''0123456789abcdef'' ! (n mod 16)"

definition py_repr_char :: "char \<Rightarrow> char \<Rightarrow> string" where
  "py_repr_char quote c =
     (let n = (of_char c :: nat) in
      if c = quote \<or> c = CHR 0x5C then [CHR 0x5C, c]
      else if n = 9 then [CHR 0x5C, CHR ''t'']
      else if n = 10 then [CHR 0x5C, CHR ''n'']
      else if n = 13 then [CHR 0x5C, CHR ''r'']
      else if n < 32 \<or> n = 127 then [CHR 0x5C, CHR ''x'', hex_digit (n div 16), hex_digit n]
      else [c])"

definition py_repr_str :: "string \<Rightarrow> string" where
  "py_repr_str s =
     (let quote = (if CHR 0x27 \<in> set s \<and> CHR 0x22 \<notin> set s then CHR 0x22 else CHR 0x27)
      in quote # concat (map (py_repr_char quote) s) @ [quote])"

fun py_join :: "string \<Rightarrow> string list \<Rightarrow> string" where
  "py_join sep [] = []"
| "py_join sep [x] = x"
| "py_join sep (x # y # r) = x @ sep @ py_join sep (y # r)"

definition py_str_list :: "string list \<Rightarrow> string" where
  "py_str_list xs = ''['' @ py_join '', '' (map py_repr_str xs) @ '']''"

text \<open>\<^verbatim>\<open>s.endswith(suf)\<close> and the substring test \<^verbatim>\<open>a in b\<close>.\<close>

definition py_endswith :: "string \<Rightarrow> string \<Rightarrow> bool" where
  "py_endswith s suf = (length suf \<le> length s \<and> drop (length s - length suf) s = suf)"

definition py_in_str :: "string \<Rightarrow> string \<Rightarrow> bool" where
  "py_in_str a b = list_ex (\<lambda>i. take (length a) (drop i b) = a) [0 ..< Suc (length b)]"

subsection \<open>The records of the domain\<close>

text \<open>
  The domain objects are external; the records hold what the converter reads from them,
  one field for each accessor. A value object that may be unset is an option.
\<close>

record acquisition =
  opticsGroupName :: "string option"
  getVoltage :: "real option"
  getSphericalAberration :: "real option"
  getAmplitudeContrast :: "real option"
  beamTiltX :: "real option"
  beamTiltY :: "real option"
  mtfFile :: "string option"

record coordinate =
  getPosition :: "pyval \<times> pyval"
  coord_attributes :: pyobject
  getMicName :: "string option"
  getMicId :: "int option"

text \<open>
  A rigid transform is a matrix of four rows of four numbers; \<open>elem M i j\<close> is
  \<^verbatim>\<open>M[i, j]\<close>.
\<close>

type_synonym row4 = "real \<times> real \<times> real \<times> real"
type_synonym matrix = "row4 \<times> row4 \<times> row4 \<times> row4"
type_synonym vec3 = "real \<times> real \<times> real"

fun row4_at :: "row4 \<Rightarrow> nat \<Rightarrow> real" where
  "row4_at (a, b, c, d) j = (if j = 0 then a else if j = 1 then b else if j = 2 then c else d)"

fun matrix_row :: "matrix \<Rightarrow> nat \<Rightarrow> row4" where
  "matrix_row (r0, r1, r2, r3) i =
     (if i = 0 then r0 else if i = 1 then r1 else if i = 2 then r2 else r3)"

definition elem :: "matrix \<Rightarrow> nat \<Rightarrow> nat \<Rightarrow> real" where
  "elem M i j = row4_at (matrix_row M i) j"

datatype alignType = ALIGN_NONE | ALIGN_2D | ALIGN_3D | ALIGN_PROJ | ALIGN_OTHER

record image =
  getObjId :: pyval
  getLocation :: "int \<times> string"
  getXDim :: pyval
  getSamplingRate :: "real option"
  getAcquisition :: acquisition
  dyn_attributes :: pyobject
  getCoordinate :: "coordinate option"
  getCTF :: "pyobject option"
  getTransform :: "matrix option"

record imageSet =
  items :: "image list"
  set_getAcquisition :: acquisition
  set_getAlignment :: alignType
  getFiles :: "string list"

subsection \<open>Rigid transforms\<close>

text \<open>
  \<open>translation_from_matrix M\<close> is \<^verbatim>\<open>M[:3, 3]\<close>, \<open>set_translation M v\<close> is the
  assignment \<^verbatim>\<open>M[:3, 3] = v\<close>, and the two conversions of numpy between radians and
  degrees are taken over the real numbers.
\<close>

definition translation_from_matrix :: "matrix \<Rightarrow> vec3" where
  "translation_from_matrix M = (elem M 0 3, elem M 1 3, elem M 2 3)"

fun set_translation :: "matrix \<Rightarrow> vec3 \<Rightarrow> matrix" where
  "set_translation ((a0, a1, a2, a3), (b0, b1, b2, b3), (c0, c1, c2, c3), r3) (x, y, z) =
     ((a0, a1, a2, x), (b0, b1, b2, y), (c0, c1, c2, z), r3)"

definition rad2deg :: "real \<Rightarrow> real" where
  "rad2deg x = x * 180 / pi"

definition deg2rad :: "real \<Rightarrow> real" where
  "deg2rad x = x * pi / 180"

fun vec_neg :: "vec3 \<Rightarrow> vec3" where
  "vec_neg (x, y, z) = (- x, - y, - z)"

fun vec_scale :: "vec3 \<Rightarrow> real \<Rightarrow> vec3" where
  "vec_scale (x, y, z) s = (x * s, y * s, z * s)"

fun vec_map :: "(real \<Rightarrow> real) \<Rightarrow> vec3 \<Rightarrow> vec3" where
  "vec_map f (x, y, z) = (f x, f y, f z)"

text \<open>
  The Euler angles of a matrix are computed by the external module
  \<^verbatim>\<open>pwem.convert.transformations\<close>; the converter takes that function, the function
  building a matrix from three angles and the matrix inverse of numpy as parameters.
  For the examples, \<open>euler_from_matrix_szyz\<close> is the algorithm of that module for the
  axes \<^verbatim>\<open>'szyz'\<close> (first axis 2, parity 1, repetition 1, static frame, hence
  \<open>i = 2\<close>, \<open>j = 1\<close>, \<open>k = 0\<close>), with \<^verbatim>\<open>math.atan2\<close> and the threshold
  \<^verbatim>\<open>_EPS = 4 * finfo(float).eps\<close>, and \<open>rigid_inv\<close> is the inverse of a rigid
  matrix: the transposed rotation and the translation rotated back and negated.
  \<open>atan2\<close> is taken over the real numbers, which have no signed zero: for a negative
  \<open>x\<close>, \<open>atan2 0 x\<close> is \<open>pi\<close>, where \<^verbatim>\<open>math.atan2(-0.0, x)\<close> is \<open>- pi\<close>; the two
  angles give the same rotation.
\<close>

definition atan2 :: "real \<Rightarrow> real \<Rightarrow> real" where
  "atan2 y x =
     (if 0 < x then arctan (y / x)
      else if x < 0 \<and> 0 \<le> y then arctan (y / x) + pi
      else if x < 0 \<and> y < 0 then arctan (y / x) - pi
      else if 0 < y then pi / 2
      else if y < 0 then - pi / 2
      else 0)"

definition EPS :: real where
  "EPS = 4 / 2 ^ 52"

definition euler_from_matrix_szyz :: "matrix \<Rightarrow> vec3" where
  "euler_from_matrix_szyz M =
     (let i = 2; j = 1; k = 0;
          sy = sqrt (elem M i j * elem M i j + elem M i k * elem M i k);
          a = (if sy > EPS
               then (atan2 (elem M i j) (elem M i k), atan2 sy (elem M i i),
                     atan2 (elem M j i) (- elem M k i))
               else (atan2 (- elem M j k) (elem M j j), atan2 sy (elem M i i), 0))
      in vec_neg a)"

definition rigid_inv :: "matrix \<Rightarrow> matrix" where
  "rigid_inv M =
     (let tx = elem M 0 3; ty = elem M 1 3; tz = elem M 2 3 in
      ((elem M 0 0, elem M 1 0, elem M 2 0, - (elem M 0 0 * tx + elem M 1 0 * ty + elem M 2 0 * tz)),
       (elem M 0 1, elem M 1 1, elem M 2 1, - (elem M 0 1 * tx + elem M 1 1 * ty + elem M 2 1 * tz)),
       (elem M 0 2, elem M 1 2, elem M 2 2, - (elem M 0 2 * tx + elem M 1 2 * ty + elem M 2 2 * tz)),
       (0, 0, 0, 1)))"

subsection \<open>Binary files (\<^verbatim>\<open>convertBinaryFiles\<close>)\<close>

text \<open>
  The path functions of \<^verbatim>\<open>os.path\<close> and \<^verbatim>\<open>pyworkflow.utils\<close> and
  \<^verbatim>\<open>str.replace\<close> are parameters, collected in one record. The file system is the set
  of paths for which \<^verbatim>\<open>os.path.exists\<close> holds, with the list of the actions done on
  it: a link or a converted stack exists once it is made, and \<^verbatim>\<open>makePath\<close> makes a
  directory exist.
\<close>

record ospath =
  path_join :: "string \<Rightarrow> string \<Rightarrow> string"
  path_relpath :: "string \<Rightarrow> string \<Rightarrow> string"
  path_dirname :: "string \<Rightarrow> string"
  path_basename :: "string \<Rightarrow> string"
  getExt :: "string \<Rightarrow> string"
  commonPath :: "string list \<Rightarrow> string"
  replaceBaseExt :: "string \<Rightarrow> string \<Rightarrow> string"
  removeExt :: "string \<Rightarrow> string"
  str_replace :: "string \<Rightarrow> string \<Rightarrow> string \<Rightarrow> string"

datatype fs_action =
    Symlink string string
  | CreateLink string string
  | ConvertStack string string
  | ConvertImage int string

record filesys =
  fs_exists :: "string set"
  fs_log :: "fs_action list"

text \<open>
  The loop of \<^verbatim>\<open>getUniqueFileName\<close>: while the name is a value of the dictionary,
  the counter is incremented and the name becomes
  \<^verbatim>\<open>'%s_%05d.%s' % (newRoot, counter, extension)\<close>.
\<close>

definition suffixed_name :: "string \<Rightarrow> int \<Rightarrow> string \<Rightarrow> string" where
  "suffixed_name newRoot counter extension =
     newRoot @ ''_'' @ py_fmt_d 5 counter @ ''.'' @ extension"

function getUniqueFileName_loop :: "string list \<Rightarrow> string \<Rightarrow> string \<Rightarrow> int \<Rightarrow> string \<Rightarrow> string" where
  "getUniqueFileName_loop vals newRoot extension counter newFn =
     (if newFn \<in> set vals
      then getUniqueFileName_loop vals newRoot extension (counter + 1)
             (suffixed_name newRoot (counter + 1) extension)
      else newFn)"
  by pat_completeness auto

definition getUniqueFileName ::
  "ospath \<Rightarrow> string \<Rightarrow> (string, string) odict \<Rightarrow> string \<Rightarrow> string \<Rightarrow> string" where
  "getUniqueFileName os outputRoot filesDict fn extension =
     (let newFn = path_join os outputRoot (replaceBaseExt os fn extension);
          newRoot = removeExt os newFn;
          vals = od_values filesDict
      in getUniqueFileName_loop vals newRoot extension 1 newFn)"

definition createBinaryLink ::
  "ospath \<Rightarrow> string \<Rightarrow> string \<Rightarrow> (string, string) odict \<Rightarrow> filesys \<Rightarrow> string
     \<Rightarrow> string \<times> filesys" where
  "createBinaryLink os outputRoot extension filesDict fs fn =
     (let newFn = getUniqueFileName os outputRoot filesDict fn extension
      in if newFn \<notin> fs_exists fs
         then (newFn, fs\<lparr>fs_exists := insert newFn (fs_exists fs),
                          fs_log := fs_log fs @ [CreateLink fn newFn]\<rparr>)
         else (newFn, fs))"

definition convertStack ::
  "ospath \<Rightarrow> string \<Rightarrow> (string, string) odict \<Rightarrow> filesys \<Rightarrow> string \<Rightarrow> string \<times> filesys" where
  "convertStack os outputRoot filesDict fs fn =
     (let newFn = getUniqueFileName os outputRoot filesDict fn ''mrcs''
      in (newFn, fs\<lparr>fs_exists := insert newFn (fs_exists fs),
                       fs_log := fs_log fs @ [ConvertStack fn newFn]\<rparr>))"

definition replaceRoot :: "ospath \<Rightarrow> string \<Rightarrow> string \<Rightarrow> string \<Rightarrow> string" where
  "replaceRoot os rootDir outputRoot fn = str_replace os fn rootDir outputRoot"

datatype mapFunc = MapConvertStack | MapReplaceRoot | MapCreateBinaryLink

definition apply_mapFunc ::
  "ospath \<Rightarrow> mapFunc \<Rightarrow> string \<Rightarrow> string \<Rightarrow> string \<Rightarrow> (string, string) odict \<Rightarrow> filesys
     \<Rightarrow> string \<Rightarrow> string \<times> filesys" where
  "apply_mapFunc os mf outputRoot rootDir extension filesDict fs fn =
     (case mf of
        MapConvertStack \<Rightarrow> convertStack os outputRoot filesDict fs fn
      | MapReplaceRoot \<Rightarrow> (replaceRoot os rootDir outputRoot fn, fs)
      | MapCreateBinaryLink \<Rightarrow> createBinaryLink os outputRoot extension filesDict fs fn)"

text \<open>The loop \<^verbatim>\<open>for fn in stackFiles\<close>, over the files in their iteration order.\<close>

fun map_files ::
  "ospath \<Rightarrow> mapFunc \<Rightarrow> string \<Rightarrow> string \<Rightarrow> string \<Rightarrow> (string, string) odict \<Rightarrow> filesys
     \<Rightarrow> string list \<Rightarrow> (string, string) odict \<times> filesys" where
  "map_files os mf outputRoot rootDir extension filesDict fs [] = (filesDict, fs)"
| "map_files os mf outputRoot rootDir extension filesDict fs (fn # fns) =
     (case apply_mapFunc os mf outputRoot rootDir extension filesDict fs fn of
        (newFn, fs') \<Rightarrow>
          map_files os mf outputRoot rootDir extension (od_set fn newFn filesDict) fs' fns)"

definition makePath :: "string \<Rightarrow> filesys \<Rightarrow> filesys" where
  "makePath p fs = fs\<lparr>fs_exists := insert p (fs_exists fs)\<rparr>"

text \<open>
  \<^verbatim>\<open>convertBinaryFiles\<close> iterates \<^verbatim>\<open>imgSet.getFiles()\<close>, a Python set of file names.
  The argument \<open>stackFiles\<close> is the sequence in which one invocation iterates that set
  (\<^verbatim>\<open>next(iter(stackFiles))\<close> is its head). The language does not fix this order: it
  follows the hashes of the strings, which change from one interpreter run to the next,
  so two invocations on the same set may be given two different lists with the same
  elements.
\<close>

definition convertBinaryFiles ::
  "ospath \<Rightarrow> filesys \<Rightarrow> string list \<Rightarrow> string \<Rightarrow> string \<Rightarrow> bool
     \<Rightarrow> error + ((string, string) odict \<times> filesys)" where
  "convertBinaryFiles os fs stackFiles outputDir extension forceConvert =
     (case stackFiles of
        [] \<Rightarrow> Inl StopIteration
      | first # _ \<Rightarrow>
         (let outputRoot = (if forceConvert then outputDir else path_join os outputDir ''input'');
              ext = tl (getExt os first);
              rootDir = commonPath os stackFiles;
              run = (\<lambda>mf fs. Inr (map_files os mf outputRoot rootDir extension []
                                     (makePath outputRoot fs) stackFiles))
          in if forceConvert then run MapConvertStack fs
             else if ext = extension then
               (let relativeOutput =
                      (if py_in_str rootDir outputRoot
                       then path_join os (path_relpath os rootDir outputRoot)
                                         (path_basename os rootDir)
                       else path_relpath os rootDir (path_dirname os outputRoot))
                in run MapReplaceRoot
                     (if outputRoot \<notin> fs_exists fs
                      then fs\<lparr>fs_exists := insert outputRoot (fs_exists fs),
                               fs_log := fs_log fs @ [Symlink relativeOutput outputRoot]\<rparr>
                      else fs))
             else if ext = ''mrc'' \<and> extension = ''mrcs'' then run MapCreateBinaryLink fs
             else if py_endswith ext ''hdf'' then run MapConvertStack fs
             else Inr ([], fs)))"

subsection \<open>Tables and star files\<close>

text \<open>
  Modelled from the spec: the module \<^verbatim>\<open>relion/convert/metadata.py\<close> (the class
  \<^verbatim>\<open>Table\<close> and its streaming writer) is not among the sources. A table is its frozen
  columns and its rows; \<^verbatim>\<open>addRow\<close> fails when the row has a label that is not a
  column; \<^verbatim>\<open>writeStar\<close> writes the block name, the labels and one line of values for
  each row, in the order of the columns, an absent label giving the empty string. What is
  written to the file is a list of items.
\<close>

datatype star_item =
    Text string
  | TableName string
  | Header "string list"
  | RowValues "pyval list"

record table =
  getColumns :: "string list"
  getRows :: "row list"

definition createTableFromDict :: "row \<Rightarrow> table" where
  "createTableFromDict d = \<lparr>getColumns = od_keys d, getRows = []\<rparr>"

definition addRow :: "table \<Rightarrow> row \<Rightarrow> error + table" where
  "addRow t r =
     (if list_all (\<lambda>k. k \<in> set (getColumns t)) (od_keys r)
      then Inr (t\<lparr>getRows := getRows t @ [r]\<rparr>)
      else Inl SchemaError)"

definition writeStar :: "table \<Rightarrow> string \<Rightarrow> star_item list" where
  "writeStar t tableName =
     [TableName tableName, Header (getColumns t)] @
     map (\<lambda>r. RowValues (map (\<lambda>c. case od_get r c of Some v \<Rightarrow> v | None \<Rightarrow> PStr [])
                               (getColumns t)))
         (getRows t)"

fun addRows :: "table \<Rightarrow> row list \<Rightarrow> error + table" where
  "addRows t [] = Inr t"
| "addRows t (r # rs) = (case addRow t r of Inl e \<Rightarrow> Inl e | Inr t' \<Rightarrow> addRows t' rs)"

subsection \<open>The writer (\<^verbatim>\<open>convert31.Writer\<close>)\<close>

text \<open>
  The state of a writer is the record of its attributes, with the file system it acts
  on. The keyword arguments are options: \<open>None\<close> is an argument that was not given.
  The methods inherited from \<^verbatim>\<open>WriterBase\<close> (\<^verbatim>\<open>relion/convert/convert_base.py\<close>,
  not among the sources) and the external numeric functions are the fields of the record
  \<open>externals\<close>.
\<close>

datatype align_method = Align2DToRow | AlignProjToRow

record kwargs =
  kw_forceConvert :: "bool option"
  kw_fillRandomSubset :: "bool option"
  kw_writeCtf :: "bool option"
  kw_alignType :: "alignType option"
  kw_extraLabels :: "string list option"
  kw_postprocessImageRow :: "(image \<Rightarrow> row \<Rightarrow> row) option"

record writer =
  self_optics :: "(string, row) odict"
  self_imgLabelName :: string
  self_imgLabelPixelSize :: string
  self_prefix :: string
  self_dimensionality :: pyval
  self_imageSize :: pyval
  self_extraLabels :: "string list"
  self_postprocessImageRow :: "(image \<Rightarrow> row \<Rightarrow> row) option"
  self_rootDir :: "string option"
  self_outputDir :: "string option"
  self_outputStack :: "string option"
  self_relOutputStack :: string
  self_filesDict :: "(string, string) odict"
  self_setRandomSubset :: bool
  self_setCtf :: bool
  self_setAlign :: "align_method option"
  self_pixelSize :: real
  self_counter :: int
  self_fs :: filesys

record externals =
  os_path :: ospath
  pwem_NO_INDEX :: int
  WriterBase_update :: "kwargs \<Rightarrow> writer \<Rightarrow> writer"
  WriterBase_micToRow :: "image \<Rightarrow> row \<Rightarrow> row"
  WriterBase_ctfToRow :: "pyobject option \<Rightarrow> row \<Rightarrow> error + row"
  WriterBase_convert :: "image \<Rightarrow> pyval"
  linalg_inv :: "matrix \<Rightarrow> matrix option"
  euler_from_matrix :: "matrix \<Rightarrow> vec3"

definition bind_err :: "error + 'a \<Rightarrow> ('a \<Rightarrow> error + 'b) \<Rightarrow> error + 'b" where
  "bind_err m f = (case m of Inl e \<Rightarrow> Inl e | Inr a \<Rightarrow> f a)"

definition ogName_of :: "image \<Rightarrow> string" where
  "ogName_of img =
     (case py_or (of_str (opticsGroupName (getAcquisition img))) (PStr ''DefaultOpticsGroup'') of
        PStr s \<Rightarrow> s | _ \<Rightarrow> ''DefaultOpticsGroup'')"

definition new_optics_entry :: "writer \<Rightarrow> image \<Rightarrow> string \<Rightarrow> pyval \<Rightarrow> row" where
  "new_optics_entry w img ogName ogNumber =
     (let acq = getAcquisition img;
          ps = of_float (getSamplingRate img);
          d = od_of_list
                [(''rlnOpticsGroupName'', PStr ogName),
                 (''rlnOpticsGroup'', ogNumber),
                 (''rlnMicrographOriginalPixelSize'', ps),
                 (self_imgLabelPixelSize w, ps),
                 (''rlnVoltage'', of_float (getVoltage acq)),
                 (''rlnSphericalAberration'', of_float (getSphericalAberration acq)),
                 (''rlnAmplitudeContrast'', of_float (getAmplitudeContrast acq)),
                 (''rlnBeamTiltX'', py_or (of_float (beamTiltX acq)) (PFloat 0)),
                 (''rlnBeamTiltY'', py_or (of_float (beamTiltY acq)) (PFloat 0)),
                 (''rlnImageDimensionality'', self_dimensionality w),
                 (''rlnImageSize'', self_imageSize w)]
      in (case mtfFile acq of
            None \<Rightarrow> d
          | Some mtf \<Rightarrow> od_set ''rlnMtfFileName'' (PStr mtf) d))"

definition Writer_getOpticsGroupNumber :: "writer \<Rightarrow> image \<Rightarrow> error + (pyval \<times> writer)" where
  "Writer_getOpticsGroupNumber w img =
     (let ogName = ogName_of img in
      if ogName \<notin> set (od_keys (self_optics w)) then
        (let ogNumber = PInt (int (length (self_optics w)) + 1)
         in Inr (ogNumber,
                 w\<lparr>self_optics := od_set ogName (new_optics_entry w img ogName ogNumber)
                                        (self_optics w)\<rparr>))
      else
        (case od_get (self_optics w) ogName of
           None \<Rightarrow> Inl KeyError
         | Some entry \<Rightarrow>
             (case od_get entry ''rlnOpticsGroup'' of
                None \<Rightarrow> Inl KeyError
              | Some ogNumber \<Rightarrow> Inr (ogNumber, w))))"

text \<open>
  Successive calls of \<^verbatim>\<open>_getOpticsGroupNumber\<close> for a list of records, in order, with
  the numbers they return. A pass of \<^verbatim>\<open>writeSetOfParticles\<close> makes these calls for its
  first particle under the acquisition of the set and then for every particle of the set;
  a pass of \<^verbatim>\<open>_writeSetOfMoviesOrMics\<close> makes them for its first record and then for
  every record. The passes themselves are \<open>Writer_writeSetOfParticles\<close> and
  \<open>Writer_writeSetOfMoviesOrMics\<close> below.
\<close>

fun resolve_records :: "writer \<Rightarrow> image list \<Rightarrow> error + (pyval list \<times> writer)" where
  "resolve_records w [] = Inr ([], w)"
| "resolve_records w (img # imgs) =
     (case Writer_getOpticsGroupNumber w img of
        Inl e \<Rightarrow> Inl e
      | Inr (n, w') \<Rightarrow>
          (case resolve_records w' imgs of
             Inl e \<Rightarrow> Inl e
           | Inr (ns, w'') \<Rightarrow> Inr (n # ns, w'')))"

text \<open>
  \<^verbatim>\<open>_setAttributes\<close>: the label looked up on the object is formatted from the whole
  list \<^verbatim>\<open>attributes\<close>, as the source has it, at every turn of the loop.
\<close>

definition Writer_setAttributes :: "pyobject \<Rightarrow> row \<Rightarrow> string list \<Rightarrow> row" where
  "Writer_setAttributes obj row attributes =
     foldl (\<lambda>row attr.
              let attrLabel = ''_'' @ py_str_list attributes
              in (case obj attrLabel of Some v \<Rightarrow> od_set attr v row | None \<Rightarrow> row))
           row attributes"

text \<open>
  What the specification says of the extra labels, for comparison: the label looked up is
  formatted from the attribute of the turn.
\<close>

definition setAttributes_spec :: "pyobject \<Rightarrow> row \<Rightarrow> string list \<Rightarrow> row" where
  "setAttributes_spec obj row attributes =
     foldl (\<lambda>row attr.
              (case obj (''_'' @ attr) of Some v \<Rightarrow> od_set attr v row | None \<Rightarrow> row))
           row attributes"

definition Writer_micToRow :: "externals \<Rightarrow> writer \<Rightarrow> image \<Rightarrow> row \<Rightarrow> error + (row \<times> writer)" where
  "Writer_micToRow ext w mic row =
     (let row1 = WriterBase_micToRow ext mic row;
          row2 = Writer_setAttributes (dyn_attributes mic) row1 (self_extraLabels w)
      in bind_err (Writer_getOpticsGroupNumber w mic)
           (\<lambda>(n, w'). Inr (od_set ''rlnOpticsGroup'' n row2, w')))"

definition Writer_align2DToRow ::
  "(matrix \<Rightarrow> vec3) \<Rightarrow> writer \<Rightarrow> matrix option \<Rightarrow> row \<Rightarrow> error + row" where
  "Writer_align2DToRow efm w alignment row =
     (case alignment of
        None \<Rightarrow> Inl AttributeError
      | Some matrix \<Rightarrow>
         (let shifts = translation_from_matrix matrix;
              shifts = vec_scale shifts (self_pixelSize w);
              angles = vec_neg (vec_map rad2deg (efm matrix))
          in (case (shifts, angles) of
                ((s0, s1, s2), (a0, a1, a2)) \<Rightarrow>
                  Inr (od_set ''rlnAnglePsi'' (PFloat (- (a0 + a2)))
                        (od_set ''rlnOriginYAngst'' (PFloat s1)
                          (od_set ''rlnOriginXAngst'' (PFloat s0) row))))))"

definition Writer_alignProjToRow ::
  "(matrix \<Rightarrow> matrix option) \<Rightarrow> (matrix \<Rightarrow> vec3) \<Rightarrow> writer \<Rightarrow> matrix option \<Rightarrow> row
     \<Rightarrow> error + row" where
  "Writer_alignProjToRow linv efm w alignment row =
     (case alignment of
        None \<Rightarrow> Inl AttributeError
      | Some m \<Rightarrow>
         (case linv m of
            None \<Rightarrow> Inl LinAlgError
          | Some matrix \<Rightarrow>
             (let shifts = vec_neg (translation_from_matrix matrix);
                  shifts = vec_scale shifts (self_pixelSize w);
                  angles = vec_neg (vec_map rad2deg (efm matrix))
              in (case (shifts, angles) of
                    ((s0, s1, s2), (a0, a1, a2)) \<Rightarrow>
                      Inr (od_set ''rlnAnglePsi'' (PFloat a2)
                            (od_set ''rlnAngleTilt'' (PFloat a1)
                              (od_set ''rlnAngleRot'' (PFloat a0)
                                (od_set ''rlnOriginZAngst'' (PFloat s2)
                                  (od_set ''rlnOriginYAngst'' (PFloat s1)
                                    (od_set ''rlnOriginXAngst'' (PFloat s0) row))))))))))"

definition py_str_int :: "int \<Rightarrow> string" where
  "py_str_int i = py_fmt_d 0 i"

definition coordToRow :: "coordinate option \<Rightarrow> row \<Rightarrow> row" where
  "coordToRow c row =
     (case c of
        None \<Rightarrow> row
      | Some coord \<Rightarrow>
         (let row1 = od_set ''rlnCoordinateX'' (fst (getPosition coord)) row;
              row2 = od_set ''rlnCoordinateY'' (snd (getPosition coord)) row1;
              row3 = Writer_setAttributes (coord_attributes coord) row2
                       [''rlnClassNumber'', ''rlnAutopickFigureOfMerit'', ''rlnAnglePsi'']
          in (case getMicName coord of
                Some (c # cs) \<Rightarrow>
                  od_set ''rlnMicrographName'' (PStr (filter (\<lambda>x. x \<noteq> CHR '' '') (c # cs))) row3
              | _ \<Rightarrow>
                 (case getMicId coord of
                    Some i \<Rightarrow>
                      (if i \<noteq> 0 then od_set ''rlnMicrographName'' (PStr (py_str_int i)) row3
                       else row3)
                  | None \<Rightarrow> row3))))"

definition is_set :: "string option \<Rightarrow> bool" where
  "is_set s = (case s of None \<Rightarrow> False | Some x \<Rightarrow> x \<noteq> [])"

definition Writer_partToRow ::
  "externals \<Rightarrow> writer \<Rightarrow> image \<Rightarrow> row \<Rightarrow> error + (row \<times> writer)" where
  "Writer_partToRow ext w part row =
     (let row1 = od_set ''rlnImageId'' (getObjId part) row;
          row2 = coordToRow (getCoordinate part) row1;
          index = fst (getLocation part);
          fn = snd (getLocation part);
          row3 = (if is_set (self_outputStack w)
                  then od_set ''rlnOriginalParticleName''
                         (PStr (locationToRelion (pwem_NO_INDEX ext) index fn)) row2
                  else row2);
          index' = (if is_set (self_outputStack w) then self_counter w else index);
          fn' = (if is_set (self_outputStack w) then self_relOutputStack w
                 else if self_outputDir w \<noteq> None
                 then (case od_get (self_filesDict w) fn of Some f \<Rightarrow> f | None \<Rightarrow> fn)
                 else fn);
          fs' = (if is_set (self_outputStack w) \<and> self_counter w > 0
                 then (self_fs w)\<lparr>fs_log := fs_log (self_fs w) @
                        [ConvertImage index' (the (self_outputStack w))]\<rparr>
                 else self_fs w);
          row4 = od_set ''rlnImageName'' (PStr (locationToRelion (pwem_NO_INDEX ext) index' fn')) row3
      in bind_err
           (if self_setRandomSubset w
            then (case dyn_attributes part ''_rlnRandomSubset'' of
                    None \<Rightarrow> Inl AttributeError
                  | Some v \<Rightarrow> Inr (od_set ''rlnRandomSubset'' v row4))
            else Inr row4)
        (\<lambda>row5. bind_err
           (if self_setCtf w then WriterBase_ctfToRow ext (getCTF part) row5 else Inr row5)
        (\<lambda>row6. bind_err
           (case self_setAlign w of
              None \<Rightarrow> Inr row6
            | Some Align2DToRow \<Rightarrow>
                Writer_align2DToRow (euler_from_matrix ext) w (getTransform part) row6
            | Some AlignProjToRow \<Rightarrow>
                Writer_alignProjToRow (linalg_inv ext) (euler_from_matrix ext) w
                  (getTransform part) row6)
        (\<lambda>row7. bind_err
           (Writer_getOpticsGroupNumber (w\<lparr>self_fs := fs'\<rparr>) part)
        (\<lambda>(n, w').
           Inr (od_set ''rlnOpticsGroup'' n
                  (Writer_setAttributes (dyn_attributes part) row7 (self_extraLabels w)),
                w'\<lparr>self_counter := self_counter w + 1\<rparr>))))))"

definition postprocess :: "writer \<Rightarrow> image \<Rightarrow> row \<Rightarrow> row" where
  "postprocess w img row =
     (case self_postprocessImageRow w of None \<Rightarrow> row | Some f \<Rightarrow> f img row)"

text \<open>
  The loop \<^verbatim>\<open>for part in partsSet\<close> of \<^verbatim>\<open>writeSetOfParticles\<close>: each particle is
  converted into the one row dictionary and the values of the row are written at once.
\<close>

fun write_particle_rows ::
  "externals \<Rightarrow> writer \<Rightarrow> row \<Rightarrow> image list \<Rightarrow> error + (star_item list \<times> row \<times> writer)" where
  "write_particle_rows ext w partRow [] = Inr ([], partRow, w)"
| "write_particle_rows ext w partRow (part # parts) =
     bind_err (Writer_partToRow ext w part partRow)
       (\<lambda>(row, w').
          let row' = postprocess w' part row
          in bind_err (write_particle_rows ext w' row' parts)
               (\<lambda>(out, r, w''). Inr (RowValues (od_values row') # out, r, w'')))"

definition setAlign_of :: "alignType \<Rightarrow> error + align_method option" where
  "setAlign_of alignType =
     (case alignType of
        ALIGN_2D \<Rightarrow> Inr (Some Align2DToRow)
      | ALIGN_PROJ \<Rightarrow> Inr (Some AlignProjToRow)
      | ALIGN_3D \<Rightarrow> Inl (PyException ''3D alignment conversion for Relion not implemented.'')
      | ALIGN_NONE \<Rightarrow> Inr None
      | ALIGN_OTHER \<Rightarrow> Inl (PyException ''Invalid value for alignType''))"

definition first_optics_table :: "writer \<Rightarrow> error + table" where
  "first_optics_table w =
     (case od_values (self_optics w) of
        [] \<Rightarrow> Inl IndexError
      | d # _ \<Rightarrow> Inr (createTableFromDict d))"

definition Writer_writeSetOfParticles ::
  "externals \<Rightarrow> writer \<Rightarrow> imageSet \<Rightarrow> string \<Rightarrow> kwargs \<Rightarrow> error + (star_item list \<times> writer)" where
  "Writer_writeSetOfParticles ext w0 partsSet starFile kw =
     (let w1 = WriterBase_update ext kw (w0\<lparr>self_imgLabelPixelSize := ''rlnImagePixelSize''\<rparr>);
          w2 = w1\<lparr>self_optics := []\<rparr>;
          partRow = [];
          w3 = (if is_set (self_outputStack w2)
                then w2\<lparr>self_relOutputStack :=
                          path_relpath (os_path ext) (the (self_outputStack w2))
                            (path_dirname (os_path ext) starFile)\<rparr>
                else w2)
      in bind_err
           (case self_outputDir w3 of
              None \<Rightarrow> Inr w3
            | Some outputDir \<Rightarrow>
                bind_err (convertBinaryFiles (os_path ext) (self_fs w3) (getFiles partsSet) outputDir
                            ''mrcs'' (case kw_forceConvert kw of None \<Rightarrow> False | Some b \<Rightarrow> b))
                  (\<lambda>(d, fs). Inr (w3\<lparr>self_filesDict := d, self_fs := fs\<rparr>)))
        (\<lambda>w4.
           bind_err
             (if kw_fillRandomSubset kw = Some True
              then (case items partsSet of
                      [] \<Rightarrow> Inl AttributeError
                    | first # _ \<Rightarrow> Inr (dyn_attributes first ''_rlnRandomSubset'' \<noteq> None))
              else Inr False)
        (\<lambda>setRandomSubset.
           bind_err
             (if kw_writeCtf kw \<noteq> Some False
              then (case items partsSet of
                      [] \<Rightarrow> Inl AttributeError
                    | first # _ \<Rightarrow> Inr (getCTF first \<noteq> None))
              else Inr False)
        (\<lambda>setCtf.
           bind_err
             (setAlign_of (case kw_alignType kw of
                             None \<Rightarrow> set_getAlignment partsSet | Some a \<Rightarrow> a))
        (\<lambda>sa.
           (case items partsSet of
              [] \<Rightarrow> Inl AttributeError
            | first # _ \<Rightarrow>
               (let w6 = w4\<lparr>self_setRandomSubset := setRandomSubset,
                            self_setCtf := setCtf,
                            self_setAlign := sa,
                            self_extraLabels :=
                              (case kw_extraLabels kw of None \<Rightarrow> [] | Some l \<Rightarrow> l) @
                              [''rlnParticleSelectZScore'', ''rlnMovieFrameNumber''],
                            self_postprocessImageRow := kw_postprocessImageRow kw,
                            self_imageSize := getXDim first,
                            self_pixelSize :=
                              (case getSamplingRate first of
                                 None \<Rightarrow> 1 | Some ps \<Rightarrow> if ps \<noteq> 0 then ps else 1),
                            self_counter := 0\<rparr>;
                    firstPart = first\<lparr>getAcquisition := set_getAcquisition partsSet\<rparr>
                   in bind_err (Writer_partToRow ext w6 firstPart partRow)
                   (\<lambda>(row, w7).
                      let row' = postprocess w7 firstPart row
                      in bind_err (first_optics_table w7)
                      (\<lambda>opticsTable. bind_err (addRow (createTableFromDict row') row')
                      (\<lambda>partsTable. bind_err (write_particle_rows ext w7 row' (items partsSet))
                      (\<lambda>(rows, r, w8). bind_err (addRows opticsTable (od_values (self_optics w8)))
                      (\<lambda>opticsTable'.
                         Inr ([Text ''# Star file generated with Scipion\<newline>'',
                               Text ''# version 30001\<newline>'',
                               TableName ''particles'',
                               Header (getColumns partsTable)] @
                              rows @
                              [Text ''\<newline># version 30001\<newline>''] @
                              writeStar opticsTable' ''optics'',
                              w8)))))))))))))"

text \<open>
  The loop \<^verbatim>\<open>while mic is not None\<close> of \<^verbatim>\<open>_writeSetOfMoviesOrMics\<close>: every row
  is added to the table of micrographs.
\<close>

fun add_mic_rows ::
  "externals \<Rightarrow> writer \<Rightarrow> string \<Rightarrow> row \<Rightarrow> table \<Rightarrow> image list \<Rightarrow> error + (table \<times> writer)" where
  "add_mic_rows ext w imgLabelName micRow micsTable [] = Inr (micsTable, w)"
| "add_mic_rows ext w imgLabelName micRow micsTable (mic # mics) =
     (let row1 = od_set imgLabelName (WriterBase_convert ext mic) micRow
      in bind_err (Writer_micToRow ext w mic row1)
           (\<lambda>(row2, w').
              let row3 = postprocess w' mic row2
              in bind_err (addRow micsTable row3)
                   (\<lambda>t. add_mic_rows ext w' imgLabelName row3 t mics)))"

definition Writer_writeSetOfMoviesOrMics ::
  "externals \<Rightarrow> writer \<Rightarrow> image list \<Rightarrow> string \<Rightarrow> string \<Rightarrow> string \<Rightarrow> kwargs
     \<Rightarrow> error + (star_item list \<times> writer)" where
  "Writer_writeSetOfMoviesOrMics ext w0 imgIterable starFile tableName imgLabelName kw =
     (let w1 = w0\<lparr>self_imgLabelName := imgLabelName,
                 self_imgLabelPixelSize := ''rlnMicrographPixelSize'',
                 self_extraLabels := (case kw_extraLabels kw of None \<Rightarrow> [] | Some l \<Rightarrow> l),
                 self_postprocessImageRow := kw_postprocessImageRow kw,
                 self_prefix := take 3 tableName,
                 self_optics := []\<rparr>;
          micRow = od_set imgLabelName (PStr []) []
      in (case imgIterable of
            [] \<Rightarrow> Inl StopIteration
          | mic # _ \<Rightarrow>
             (let w2 = w1\<lparr>self_imageSize := getXDim mic\<rparr>
              in bind_err (Writer_micToRow ext w2 mic micRow)
              (\<lambda>(row, w3).
                 let row' = postprocess w3 mic row
                 in bind_err (first_optics_table w3)
                 (\<lambda>opticsTable.
                    bind_err (add_mic_rows ext w3 imgLabelName row' (createTableFromDict row')
                                imgIterable)
                 (\<lambda>(micsTable, w4). bind_err (addRows opticsTable (od_values (self_optics w4)))
                 (\<lambda>opticsTable'.
                    Inr ([Text ''# Star file generated with Scipion\<newline>'',
                          Text ''# version 30001\<newline>''] @
                         writeStar opticsTable' ''optics'' @
                         [Text ''# version 30001\<newline>''] @
                         writeStar micsTable tableName,
                         w4))))))))"

definition Writer_writeSetOfMovies ::
  "externals \<Rightarrow> writer \<Rightarrow> image list \<Rightarrow> string \<Rightarrow> kwargs \<Rightarrow> error + (star_item list \<times> writer)" where
  "Writer_writeSetOfMovies ext w moviesIterable starFile kw =
     Writer_writeSetOfMoviesOrMics ext w moviesIterable starFile
       ''movies'' ''rlnMicrographMovieName'' kw"

definition Writer_writeSetOfMicrographs ::
  "externals \<Rightarrow> writer \<Rightarrow> image list \<Rightarrow> string \<Rightarrow> kwargs \<Rightarrow> error + (star_item list \<times> writer)" where
  "Writer_writeSetOfMicrographs ext w micsIterable starFile kw =
     Writer_writeSetOfMoviesOrMics ext w micsIterable starFile
       ''micrographs'' ''rlnMicrographName'' kw"

subsection \<open>The reader (\<^verbatim>\<open>convert31.Reader\<close>)\<close>

text \<open>
  The reader keeps two arrays of three numbers, made of zeros when the first row is read
  and written into at every row, and the inverse of the pixel size. \<open>row_get\<close> is the
  local function \<^verbatim>\<open>_get\<close>: \<^verbatim>\<open>float(getattr(row, label, 0.))\<close>, where the conversion
  of a string by \<^verbatim>\<open>float\<close> is the parameter \<open>sf\<close>. The function building a matrix
  from three angles (\<^verbatim>\<open>tfs.euler_matrix\<close> with the axes \<^verbatim>\<open>'szyz'\<close>) and the matrix
  inverse are parameters.
\<close>

record reader =
  self_angles :: vec3
  self_shifts :: vec3
  self_invPixelSize :: real

definition py_float :: "(string \<Rightarrow> real option) \<Rightarrow> pyval \<Rightarrow> error + real" where
  "py_float sf v =
     (case v of
        PNone \<Rightarrow> Inl TypeError
      | PInt i \<Rightarrow> Inr (of_int i)
      | PFloat x \<Rightarrow> Inr x
      | PStr s \<Rightarrow> (case sf s of None \<Rightarrow> Inl ValueError | Some x \<Rightarrow> Inr x))"

definition row_get :: "(string \<Rightarrow> real option) \<Rightarrow> row \<Rightarrow> string \<Rightarrow> error + real" where
  "row_get sf row label =
     py_float sf (case od_get row label of None \<Rightarrow> PFloat 0 | Some v \<Rightarrow> v)"

definition Reader_setParticleTransform2D ::
  "(real \<Rightarrow> real \<Rightarrow> real \<Rightarrow> matrix) \<Rightarrow> (string \<Rightarrow> real option) \<Rightarrow> reader \<Rightarrow> row
     \<Rightarrow> error + (matrix \<times> reader)" where
  "Reader_setParticleTransform2D em sf r row =
     (case (self_angles r, self_shifts r) of
        ((a0, a1, a2), (s0, s1, s2)) \<Rightarrow>
          (let ips = self_invPixelSize r in
           bind_err (row_get sf row ''rlnOriginXAngst'') (\<lambda>x.
           bind_err (row_get sf row ''rlnOriginYAngst'') (\<lambda>y.
           bind_err (row_get sf row ''rlnAnglePsi'') (\<lambda>psi.
             let shifts = (x * ips, y * ips, s2);
                 angles = (a0, a1, - psi);
                 radAngles = vec_neg (vec_map deg2rad angles);
                 M = (case radAngles of (r0, r1, r2) \<Rightarrow> em r0 r1 r2)
             in Inr (set_translation M shifts,
                     r\<lparr>self_angles := angles, self_shifts := shifts\<rparr>))))))"

definition Reader_setParticleTransformProj ::
  "(matrix \<Rightarrow> matrix option) \<Rightarrow> (real \<Rightarrow> real \<Rightarrow> real \<Rightarrow> matrix) \<Rightarrow> (string \<Rightarrow> real option)
     \<Rightarrow> reader \<Rightarrow> row \<Rightarrow> error + (matrix \<times> reader)" where
  "Reader_setParticleTransformProj linv em sf r row =
     (let ips = self_invPixelSize r in
      bind_err (row_get sf row ''rlnOriginXAngst'') (\<lambda>x.
      bind_err (row_get sf row ''rlnOriginYAngst'') (\<lambda>y.
      bind_err (row_get sf row ''rlnOriginZAngst'') (\<lambda>z.
      bind_err (row_get sf row ''rlnAngleRot'') (\<lambda>rot.
      bind_err (row_get sf row ''rlnAngleTilt'') (\<lambda>tilt.
      bind_err (row_get sf row ''rlnAnglePsi'') (\<lambda>psi.
        let shifts = (x * ips, y * ips, z * ips);
            angles = (rot, tilt, psi);
            radAngles = vec_neg (vec_map deg2rad angles);
            M = (case radAngles of (r0, r1, r2) \<Rightarrow> em r0 r1 r2);
            M' = set_translation M (vec_neg shifts)
        in (case linv M' of
              None \<Rightarrow> Inl LinAlgError
            | Some Mi \<Rightarrow> Inr (Mi, r\<lparr>self_angles := angles, self_shifts := shifts\<rparr>)))))))))"

text \<open>
  The projection mode in the words of the specification, for comparison. On writing: the
  matrix is inverted first, the translation of the inverse is negated and scaled by the
  pixel size, and the three Euler angles of the inverse are negated (and given in
  degrees). On reading: the three stored angles are negated and converted, the stored
  translation is negated and scaled by the inverse pixel size and put in the translation
  slot, and the matrix so assembled is inverted.
\<close>

definition alignProj_write_spec ::
  "(matrix \<Rightarrow> matrix option) \<Rightarrow> (matrix \<Rightarrow> vec3) \<Rightarrow> real \<Rightarrow> matrix \<Rightarrow> (vec3 \<times> vec3) option" where
  "alignProj_write_spec linv efm pixelSize m =
     (case linv m of
        None \<Rightarrow> None
      | Some mi \<Rightarrow>
          Some (vec_scale (vec_neg (translation_from_matrix mi)) pixelSize,
                vec_neg (vec_map rad2deg (efm mi))))"

definition alignProj_read_spec ::
  "(matrix \<Rightarrow> matrix option) \<Rightarrow> (real \<Rightarrow> real \<Rightarrow> real \<Rightarrow> matrix) \<Rightarrow> real \<Rightarrow> vec3 \<Rightarrow> vec3
     \<Rightarrow> matrix option" where
  "alignProj_read_spec linv em invPixelSize shifts angles =
     (case (shifts, angles) of
        ((x, y, z), (rot, tilt, psi)) \<Rightarrow>
          linv (set_translation
                 (em (deg2rad (- rot)) (deg2rad (- tilt)) (deg2rad (- psi)))
                 (- x * invPixelSize, - y * invPixelSize, - z * invPixelSize)))"

subsection \<open>Auxiliary notions for the optics groups\<close>

text \<open>
  \<open>first_seen acc xs\<close> adds to \<open>acc\<close> the elements of \<open>xs\<close> that are new, in the
  order of their first appearance, and \<open>index_of x xs\<close> is the position of the first
  \<open>x\<close> in \<open>xs\<close>. \<open>fingerprint\<close> collects the acquisition parameters that the
  specification takes as the identity of an optics group. The writer gives the pixel-size
  column one of two names (\<open>pixel_label_ok\<close>), and in the dictionary of a pass the
  group numbers are the positions of the entries, counted from 1 (\<open>optics_inv\<close>).
\<close>

fun first_seen :: "'a list \<Rightarrow> 'a list \<Rightarrow> 'a list" where
  "first_seen acc [] = acc"
| "first_seen acc (x # xs) = first_seen (if x \<in> set acc then acc else acc @ [x]) xs"

fun index_of :: "'a \<Rightarrow> 'a list \<Rightarrow> nat" where
  "index_of x [] = 0"
| "index_of x (y # ys) = (if x = y then 0 else Suc (index_of x ys))"

definition fingerprint ::
  "image \<Rightarrow> real option \<times> real option \<times> real option \<times> real option \<times> string option" where
  "fingerprint img =
     (getVoltage (getAcquisition img), getSphericalAberration (getAcquisition img),
      getAmplitudeContrast (getAcquisition img), getSamplingRate img,
      opticsGroupName (getAcquisition img))"

definition pixel_label_ok :: "writer \<Rightarrow> bool" where
  "pixel_label_ok w =
     (self_imgLabelPixelSize w = ''rlnImagePixelSize'' \<or>
      self_imgLabelPixelSize w = ''rlnMicrographPixelSize'')"

definition optics_inv :: "(string, row) odict \<Rightarrow> bool" where
  "optics_inv d =
     (distinct (od_keys d) \<and>
      (\<forall>i < length d. od_get (snd (d ! i)) ''rlnOpticsGroup'' = Some (PInt (int i + 1))))"

text \<open>
  Before its loop, \<^verbatim>\<open>writeSetOfParticles\<close> converts the first particle of the set
  once, after giving it the acquisition of the set
  (\<^verbatim>\<open>firstPart.setAcquisition(partsSet.getAcquisition())\<close>): \<open>particle_seed\<close> is that
  record. The first optics group of the pass is made for it.
\<close>

definition particle_seed :: "imageSet \<Rightarrow> image" where
  "particle_seed partsSet = (hd (items partsSet))\<lparr>getAcquisition := set_getAcquisition partsSet\<rparr>"

subsection \<open>Example records\<close>

definition example_acquisition :: acquisition where
  "example_acquisition =
     \<lparr>opticsGroupName = None, getVoltage = Some 300, getSphericalAberration = Some (27 / 10),
      getAmplitudeContrast = Some (1 / 10), beamTiltX = None, beamTiltY = None,
      mtfFile = None\<rparr>"

definition example_particle :: image where
  "example_particle =
     \<lparr>getObjId = PInt 1, getLocation = (1, ''stack.mrcs''), getXDim = PInt 64,
      getSamplingRate = Some 1, getAcquisition = example_acquisition,
      dyn_attributes = Map.empty, getCoordinate = None, getCTF = None,
      getTransform = None\<rparr>"

definition example_filesys :: filesys where
  "example_filesys = \<lparr>fs_exists = {}, fs_log = []\<rparr>"

definition example_writer :: writer where
  "example_writer =
     \<lparr>self_optics = [], self_imgLabelName = [], self_imgLabelPixelSize = ''rlnImagePixelSize'',
      self_prefix = [], self_dimensionality = PInt 2, self_imageSize = PInt 64,
      self_extraLabels = [], self_postprocessImageRow = None, self_rootDir = None,
      self_outputDir = None, self_outputStack = None, self_relOutputStack = [],
      self_filesDict = [], self_setRandomSubset = False, self_setCtf = False,
      self_setAlign = None, self_pixelSize = 1, self_counter = 0,
      self_fs = example_filesys\<rparr>"

definition example_particle_200kV :: image where
  "example_particle_200kV =
     example_particle\<lparr>getSamplingRate := Some 2,
       getAcquisition := example_acquisition\<lparr>getVoltage := Some 200\<rparr>\<rparr>"

definition example_particle_og2 :: image where
  "example_particle_og2 =
     example_particle\<lparr>getAcquisition := example_acquisition\<lparr>opticsGroupName := Some ''og2''\<rparr>\<rparr>"

subsection \<open>Auxiliary notions for the binary files\<close>

text \<open>
  \<open>later_names\<close> are the values of the dictionary that the loop of
  \<^verbatim>\<open>getUniqueFileName\<close> can still meet after a counter; their number is the measure of
  its termination. A dictionary is injective when no two keys share a value.
  \<open>plan_mode\<close> is the function that \<^verbatim>\<open>convertBinaryFiles\<close> chooses for its files
  (\<open>None\<close> when it does nothing), \<open>outputRoot_of\<close> its output root and \<open>relocate\<close>
  the link of the root directory that it makes before replacing roots. The link actions
  of a file system are the links recorded in its list of actions.
\<close>

definition later_names :: "string list \<Rightarrow> string \<Rightarrow> string \<Rightarrow> int \<Rightarrow> string set" where
  "later_names vals r e c = {v \<in> set vals. \<exists>c' > c. v = suffixed_name r c' e}"

definition injective_dict :: "(string, string) odict \<Rightarrow> bool" where
  "injective_dict d = (distinct (od_keys d) \<and> distinct (od_values d))"

definition is_link_action :: "fs_action \<Rightarrow> bool" where
  "is_link_action a = (case a of Symlink _ _ \<Rightarrow> True | CreateLink _ _ \<Rightarrow> True | _ \<Rightarrow> False)"

definition link_actions :: "filesys \<Rightarrow> fs_action list" where
  "link_actions fs = filter is_link_action (fs_log fs)"

definition outputRoot_of :: "ospath \<Rightarrow> string \<Rightarrow> bool \<Rightarrow> string" where
  "outputRoot_of os outputDir forceConvert =
     (if forceConvert then outputDir else path_join os outputDir ''input'')"

definition plan_mode :: "ospath \<Rightarrow> string list \<Rightarrow> string \<Rightarrow> bool \<Rightarrow> mapFunc option" where
  "plan_mode os stackFiles extension forceConvert =
     (let ext = tl (getExt os (hd stackFiles)) in
      if forceConvert then Some MapConvertStack
      else if ext = extension then Some MapReplaceRoot
      else if ext = ''mrc'' \<and> extension = ''mrcs'' then Some MapCreateBinaryLink
      else if py_endswith ext ''hdf'' then Some MapConvertStack
      else None)"

definition relocate :: "ospath \<Rightarrow> filesys \<Rightarrow> string \<Rightarrow> string \<Rightarrow> filesys" where
  "relocate os fs rootDir outputRoot =
     (if outputRoot \<notin> fs_exists fs
      then fs\<lparr>fs_exists := insert outputRoot (fs_exists fs),
               fs_log := fs_log fs @
                 [Symlink (if py_in_str rootDir outputRoot
                           then path_join os (path_relpath os rootDir outputRoot)
                                             (path_basename os rootDir)
                           else path_relpath os rootDir (path_dirname os outputRoot))
                          outputRoot]\<rparr>
      else fs)"

text \<open>
  A simple instance of the path functions, for the examples: paths are joined with a
  slash, the extension starts at the last dot of the base name, and the functions that
  the examples do not reach are constant.
\<close>

definition example_basename :: "string \<Rightarrow> string" where
  "example_basename p = rev (takeWhile (\<lambda>c. c \<noteq> CHR ''/'') (rev p))"

definition example_dirname :: "string \<Rightarrow> string" where
  "example_dirname p = rev (tl (dropWhile (\<lambda>c. c \<noteq> CHR ''/'') (rev p)))"

definition example_removeExt :: "string \<Rightarrow> string" where
  "example_removeExt p =
     (if CHR ''.'' \<in> set (example_basename p)
      then rev (tl (dropWhile (\<lambda>c. c \<noteq> CHR ''.'') (rev p))) else p)"

definition example_getExt :: "string \<Rightarrow> string" where
  "example_getExt p =
     (if CHR ''.'' \<in> set (example_basename p)
      then CHR ''.'' # rev (takeWhile (\<lambda>c. c \<noteq> CHR ''.'') (rev p)) else [])"

definition example_ospath :: ospath where
  "example_ospath =
     \<lparr>path_join = (\<lambda>a b. a @ ''/'' @ b),
      path_relpath = (\<lambda>p start. p),
      path_dirname = example_dirname,
      path_basename = example_basename,
      getExt = example_getExt,
      commonPath = (\<lambda>files. []),
      replaceBaseExt = (\<lambda>fn ext. example_removeExt (example_basename fn) @ ''.'' @ ext),
      removeExt = example_removeExt,
      str_replace = (\<lambda>s old new. s)\<rparr>"

subsection \<open>Auxiliary notions for the written file\<close>

text \<open>
  \<open>block_names\<close> are the names of the blocks of a written file, in the order in which
  they were written, and \<open>is_row_values\<close> holds of a line of values.
\<close>

definition block_names :: "star_item list \<Rightarrow> string list" where
  "block_names out = concat (map (\<lambda>i. case i of TableName n \<Rightarrow> [n] | _ \<Rightarrow> []) out)"

definition is_row_values :: "star_item \<Rightarrow> bool" where
  "is_row_values i = (case i of RowValues _ \<Rightarrow> True | _ \<Rightarrow> False)"

text \<open>
  An instance of the external functions, for the examples: the inherited methods put the
  identifier of a micrograph on its row, leave the row of a particle without CTF columns
  and name a micrograph by its file; the matrix inverse is the one of rigid matrices.
\<close>

definition example_externals :: externals where
  "example_externals =
     \<lparr>os_path = example_ospath,
      pwem_NO_INDEX = 0,
      WriterBase_update = (\<lambda>kw w. w),
      WriterBase_micToRow = (\<lambda>mic row. od_set ''rlnImageId'' (getObjId mic) row),
      WriterBase_ctfToRow = (\<lambda>ctf row. Inr row),
      WriterBase_convert = (\<lambda>img. PStr (snd (getLocation img))),
      linalg_inv = (\<lambda>m. Some (rigid_inv m)),
      euler_from_matrix = euler_from_matrix_szyz\<rparr>"

definition example_kwargs :: kwargs where
  "example_kwargs =
     \<lparr>kw_forceConvert = None, kw_fillRandomSubset = None, kw_writeCtf = None,
      kw_alignType = None, kw_extraLabels = None, kw_postprocessImageRow = None\<rparr>"

definition example_set :: imageSet where
  "example_set =
     \<lparr>items = [example_particle, example_particle_200kV],
      set_getAcquisition = example_acquisition,
      set_getAlignment = ALIGN_NONE,
      getFiles = [''stack.mrcs'']\<rparr>"

text \<open>
  A set of three particles of the group \<open>og2\<close>, whose own acquisition names no group.
\<close>

definition example_set_og2 :: imageSet where
  "example_set_og2 =
     \<lparr>items = [example_particle_og2, example_particle_og2, example_particle_og2],
      set_getAcquisition = example_acquisition,
      set_getAlignment = ALIGN_NONE,
      getFiles = [''stack.mrcs'']\<rparr>"

subsection \<open>Example transforms\<close>

text \<open>
  \<open>euler_matrix_szyz\<close> is the algorithm of the external module for
  \<^verbatim>\<open>euler_matrix(ai, aj, ak, 'szyz')\<close>: the three angles are negated (parity 1), and the
  entries of the rotation are the products of their sines and cosines for the axes
  \<open>i = 2\<close>, \<open>j = 1\<close>, \<open>k = 0\<close> with a repeated first axis. \<open>inplane_matrix a x y\<close>
  is the rotation by \<open>a\<close> degrees about the third axis with the shift \<open>(x, y)\<close>: it
  is the matrix that \<open>euler_matrix_szyz\<close> builds from the angles \<open>(0, 0, a)\<close>, with the
  shift in its last column. \<open>translation_matrix\<close> has no rotation.
\<close>

definition euler_matrix_szyz :: "real \<Rightarrow> real \<Rightarrow> real \<Rightarrow> matrix" where
  "euler_matrix_szyz ai aj ak =
     (let si = sin (- ai); sj = sin (- aj); sk = sin (- ak);
          ci = cos (- ai); cj = cos (- aj); ck = cos (- ak);
          cc = ci * ck; cs = ci * sk; sc = si * ck; ss = si * sk
      in ((cj * cc - ss, cj * sc + cs, - sj * ck, 0),
          (- cj * cs - sc, - cj * ss + cc, sj * sk, 0),
          (sj * ci, sj * si, cj, 0),
          (0, 0, 0, 1)))"

definition inplane_matrix :: "real \<Rightarrow> real \<Rightarrow> real \<Rightarrow> matrix" where
  "inplane_matrix degrees x y =
     ((cos (deg2rad degrees), - sin (deg2rad degrees), 0, x),
      (sin (deg2rad degrees), cos (deg2rad degrees), 0, y),
      (0, 0, 1, 0),
      (0, 0, 0, 1))"

definition translation_matrix :: "real \<Rightarrow> real \<Rightarrow> real \<Rightarrow> matrix" where
  "translation_matrix x y z = ((1, 0, 0, x), (0, 1, 0, y), (0, 0, 1, z), (0, 0, 0, 1))"

definition example_reader :: reader where
  "example_reader = \<lparr>self_angles = (0, 0, 0), self_shifts = (0, 0, 0), self_invPixelSize = 1\<rparr>"

section \<open>Properties\<close>

subsection \<open>Decimal numerals\<close>

lemma dig1: "is_digit (char_of (48 + (n::nat) mod 10))"
  by (simp add: is_digit_def) 
lemma dig2: "n < 10 \<Longrightarrow> is_digit (char_of (48 + (n::nat)))"
  by (simp add: is_digit_def) 
lemma dv1: "digit_val (char_of (48 + (n::nat) mod 10)) = n mod 10"
  by (simp add: digit_val_def)
lemma dv2: "n < 10 \<Longrightarrow> digit_val (char_of (48 + (n::nat))) = n"
  by (simp add: digit_val_def)

lemma nat_of_digits_append: "nat_of_digits acc (xs @ ys) = nat_of_digits (nat_of_digits acc xs) ys"
  by (induction xs arbitrary: acc) auto

lemma nat_of_digits_acc: "nat_of_digits acc xs = acc * 10 ^ length xs + nat_of_digits 0 xs"
proof (induction xs arbitrary: acc)
  case Nil then show ?case by simp
next
  case (Cons c cs)
  show ?case using Cons[of "10 * acc + digit_val c"] Cons[of "digit_val c"] by (simp add: algebra_simps)
qed

lemma str_nat_digits: "\<forall>c \<in> set (str_nat n). is_digit c"
proof (induction n rule: str_nat.induct)
  case (1 n)
  show ?case
  proof (cases "n < 10")
    case True then show ?thesis by (simp add: str_nat.simps[of n] dig2)
  next
    case False
    with 1 show ?thesis by (simp add: str_nat.simps[of n] dig1)
  qed
qed

lemma str_nat_val: "nat_of_digits 0 (str_nat n) = n"
proof (induction n rule: str_nat.induct)
  case (1 n)
  show ?case
  proof (cases "n < 10")
    case True then show ?thesis by (simp add: str_nat.simps[of n] dv2)
  next
    case False
    with 1 show ?thesis by (simp add: str_nat.simps[of n] dv1 nat_of_digits_append)
  qed
qed

lemma str_nat_nonempty: "str_nat n \<noteq> []"
  by (subst str_nat.simps) simp

lemma nat_of_digits_zeros: "nat_of_digits acc (replicate k CHR ''0'' @ s) = nat_of_digits (acc * 10 ^ k) s"
  by (induction k arbitrary: acc) (auto simp: digit_val_def algebra_simps)



lemma is_digit_not_space: "is_digit c \<Longrightarrow> \<not> py_isspace c"
  by (auto simp: is_digit_def py_isspace_def)

lemma py_strip_id:
  assumes "s \<noteq> []" "\<not> py_isspace (hd s)" "\<not> py_isspace (last s)"
  shows "py_strip s = s"
proof -
  from assms have a: "dropWhile py_isspace s = s" by (cases s) auto
  from assms have "rev s \<noteq> []" "\<not> py_isspace (hd (rev s))" by (auto simp: hd_rev)
  then have "dropWhile py_isspace (rev s) = rev s" by (cases "rev s") auto
  with a show ?thesis by (simp add: py_strip_def)
qed

lemma no_double_underscore_digits:
  "list_all is_digit s \<Longrightarrow> no_double_underscore s"
  by (induction s rule: no_double_underscore.induct) (auto simp: is_digit_def)

lemma valid_int_body_digits:
  assumes "s \<noteq> []" "list_all is_digit s"
  shows "valid_int_body s"
proof -
  from assms have "is_digit (hd s)" "is_digit (last s)"
    by (auto simp: list_all_iff)
  moreover from assms have "list_all (\<lambda>c. is_digit c \<or> c = CHR ''_'') s"
    by (auto simp: list_all_iff)
  ultimately show ?thesis using assms
    by (simp add: valid_int_body_def no_double_underscore_digits)
qed

lemma zpad_digits: "list_all is_digit (zpad k (str_nat n))"
  using str_nat_digits[of n] by (auto simp: zpad_def list_all_iff is_digit_def)

lemma zpad_nonempty: "zpad k (str_nat n) \<noteq> []"
  by (simp add: zpad_def str_nat_nonempty)

lemma zpad_val: "nat_of_digits 0 (zpad k (str_nat n)) = n"
  by (simp add: zpad_def nat_of_digits_zeros str_nat_val)

lemma filter_digits_id: "list_all is_digit s \<Longrightarrow> filter is_digit s = s"
  by (induction s) auto

lemma py_int_digits:
  assumes "s \<noteq> []" "list_all is_digit s"
  shows "py_int s = Inr (int (nat_of_digits 0 s))"
proof -
  from assms have h: "is_digit (hd s)" "is_digit (last s)" by (auto simp: list_all_iff)
  then have st: "py_strip s = s" using assms py_strip_id is_digit_not_space by blast
  from h have ns: "hd s \<noteq> CHR ''-''" "hd s \<noteq> CHR ''+''" by (auto simp: is_digit_def)
  show ?thesis
    using st ns assms by (simp add: py_int_def valid_int_body_digits filter_digits_id)
qed

lemma py_int_neg_digits:
  assumes "s \<noteq> []" "list_all is_digit s"
  shows "py_int (CHR ''-'' # s) = Inr (- int (nat_of_digits 0 s))"
proof -
  from assms have h: "is_digit (last s)" by (auto simp: list_all_iff)
  have "\<not> py_isspace (CHR ''-'')" by (simp add: py_isspace_def)
  moreover have "\<not> py_isspace (last (CHR ''-'' # s))" using h assms is_digit_not_space by simp
  ultimately have st: "py_strip (CHR ''-'' # s) = CHR ''-'' # s"
    using py_strip_id[of "CHR ''-'' # s"] by simp
  show ?thesis
    using st assms by (simp add: py_int_def valid_int_body_digits filter_digits_id)
qed



lemma py_int_py_fmt_d: "py_int (py_fmt_d w i) = Inr i"
proof (cases "i < 0")
  case True
  have "py_fmt_d w i = CHR ''-'' # zpad (w - 1 - length (str_nat (nat \<bar>i\<bar>))) (str_nat (nat \<bar>i\<bar>))"
    using True by (simp add: py_fmt_d_def zpad_def Let_def)
  then show ?thesis using True
    by (simp add: py_int_neg_digits zpad_digits zpad_nonempty zpad_val)
next
  case False
  have "py_fmt_d w i = zpad (w - length (str_nat (nat \<bar>i\<bar>))) (str_nat (nat \<bar>i\<bar>))"
    using False by (simp add: py_fmt_d_def zpad_def Let_def)
  then show ?thesis using False
    by (simp add: py_int_digits zpad_digits zpad_nonempty zpad_val)
qed






subsection \<open>Ordered dictionaries and optics groups\<close>

lemma od_get_od_set: "od_get (od_set k v d) k' = (if k' = k then Some v else od_get d k')"
  by (induction d) (auto simp: od_get_def)

lemma od_keys_od_set:
  "od_keys (od_set k v d) = (if k \<in> set (od_keys d) then od_keys d else od_keys d @ [k])"
  by (induction d) (force simp: od_keys_def)+

lemma od_set_new: "k \<notin> set (od_keys d) \<Longrightarrow> od_set k v d = d @ [(k, v)]"
  by (induction d) (auto simp: od_keys_def)

lemma od_get_od_set_other: "k' \<noteq> k \<Longrightarrow> od_get (od_set k v d) k' = od_get d k'"
  by (simp add: od_get_od_set)


lemma od_get_foldl_od_set:
  "od_get (foldl (\<lambda>d (k, v). od_set k v d) d0 kvs) k =
     (case map_of (rev kvs) k of Some v \<Rightarrow> Some v | None \<Rightarrow> od_get d0 k)"
proof (induction kvs arbitrary: d0)
  case Nil
  then show ?case by simp
next
  case (Cons kv kvs)
  obtain k' v' where kv: "kv = (k', v')" by (cases kv)
  show ?case
    by (simp add: kv Cons od_get_od_set map_add_def split: option.splits)
qed

lemma od_get_od_of_list: "od_get (od_of_list kvs) k = map_of (rev kvs) k"
  using od_get_foldl_od_set[of "[]" kvs k]
  by (simp add: od_of_list_def od_get_def split: option.splits)

lemma new_entry_group:
  assumes "pixel_label_ok w"
  shows "od_get (new_optics_entry w img nm n) ''rlnOpticsGroup'' = Some n"
proof -
  from assms consider "self_imgLabelPixelSize w = ''rlnImagePixelSize''"
    | "self_imgLabelPixelSize w = ''rlnMicrographPixelSize''"
    by (auto simp: pixel_label_ok_def)
  then show ?thesis
  proof cases
    case 1
    then show ?thesis
      by (simp add: new_optics_entry_def Let_def od_get_od_set od_get_od_of_list
               split: option.splits)
  next
    case 2
    then show ?thesis
      by (simp add: new_optics_entry_def Let_def od_get_od_set od_get_od_of_list
               split: option.splits)
  qed
qed

lemma new_entry_pixel:
  assumes "pixel_label_ok w"
  shows "od_get (new_optics_entry w img nm n) (self_imgLabelPixelSize w)
           = Some (of_float (getSamplingRate img))"
proof -
  from assms consider "self_imgLabelPixelSize w = ''rlnImagePixelSize''"
    | "self_imgLabelPixelSize w = ''rlnMicrographPixelSize''"
    by (auto simp: pixel_label_ok_def)
  then show ?thesis
  proof cases
    case 1
    then show ?thesis
      by (simp add: new_optics_entry_def Let_def od_get_od_set od_get_od_of_list
               split: option.splits)
  next
    case 2
    then show ?thesis
      by (simp add: new_optics_entry_def Let_def od_get_od_set od_get_od_of_list
               split: option.splits)
  qed
qed

lemma index_of_append_new: "x \<notin> set xs \<Longrightarrow> index_of x (xs @ [x]) = length xs"
  by (induction xs) auto

lemma index_of_append_old: "x \<in> set xs \<Longrightarrow> index_of x (xs @ ys) = index_of x xs"
  by (induction xs) auto

lemma index_of_less: "x \<in> set xs \<Longrightarrow> index_of x xs < length xs"
  by (induction xs) auto

lemma nth_index_of: "x \<in> set xs \<Longrightarrow> xs ! index_of x xs = x"
  by (induction xs) auto

lemma od_get_nth:
  "distinct (od_keys d) \<Longrightarrow> k \<in> set (od_keys d) \<Longrightarrow>
   od_get d k = Some (snd (d ! index_of k (od_keys d)))"
  by (induction d) (auto simp: od_get_def od_keys_def)

lemma optics_step_miss:
  assumes "ogName_of img \<notin> set (od_keys (self_optics w))"
  shows "Writer_getOpticsGroupNumber w img =
           Inr (PInt (int (length (self_optics w)) + 1),
                w\<lparr>self_optics := self_optics w @
                   [(ogName_of img,
                     new_optics_entry w img (ogName_of img) (PInt (int (length (self_optics w)) + 1)))]\<rparr>)"
  using assms by (simp add: Writer_getOpticsGroupNumber_def Let_def od_set_new)

lemma optics_step_hit:
  assumes "od_get (self_optics w) (ogName_of img) = Some entry"
      and "od_get entry ''rlnOpticsGroup'' = Some n"
  shows "Writer_getOpticsGroupNumber w img = Inr (n, w)"
proof -
  from assms(1) have "ogName_of img \<in> set (od_keys (self_optics w))"
    by (auto simp: od_get_def od_keys_def dest: map_of_SomeD intro: rev_image_eqI)
  with assms show ?thesis by (simp add: Writer_getOpticsGroupNumber_def Let_def)
qed

lemma optics_inv_step:
  assumes "optics_inv (self_optics w)" "pixel_label_ok w"
  shows "\<exists>w'. Writer_getOpticsGroupNumber w img =
                 Inr (PInt (int (index_of (ogName_of img) (od_keys (self_optics w'))) + 1), w')
             \<and> optics_inv (self_optics w') \<and> pixel_label_ok w'
             \<and> od_keys (self_optics w') =
                 (if ogName_of img \<in> set (od_keys (self_optics w)) then od_keys (self_optics w)
                  else od_keys (self_optics w) @ [ogName_of img])"
proof (cases "ogName_of img \<in> set (od_keys (self_optics w))")
  case True
  let ?d = "self_optics w" and ?k = "ogName_of img"
  from assms have dist: "distinct (od_keys ?d)" by (simp add: optics_inv_def)
  have lt: "index_of ?k (od_keys ?d) < length ?d"
    using index_of_less[OF True] by (simp add: od_keys_def)
  have g: "od_get ?d ?k = Some (snd (?d ! index_of ?k (od_keys ?d)))"
    using od_get_nth[OF dist True] .
  have n: "od_get (snd (?d ! index_of ?k (od_keys ?d))) ''rlnOpticsGroup''
             = Some (PInt (int (index_of ?k (od_keys ?d)) + 1))"
    using assms(1) lt by (simp add: optics_inv_def)
  have "Writer_getOpticsGroupNumber w img
          = Inr (PInt (int (index_of ?k (od_keys ?d)) + 1), w)"
    using optics_step_hit[OF g n] .
  with True assms show ?thesis by auto
next
  case False
  let ?d = "self_optics w" and ?k = "ogName_of img"
  let ?n = "PInt (int (length ?d) + 1)"
  let ?w' = "w\<lparr>self_optics := ?d @ [(?k, new_optics_entry w img ?k ?n)]\<rparr>"
  have st: "Writer_getOpticsGroupNumber w img = Inr (?n, ?w')"
    using optics_step_miss[OF False] .
  have keys: "od_keys (self_optics ?w') = od_keys ?d @ [?k]" by (simp add: od_keys_def)
  have idx: "index_of ?k (od_keys (self_optics ?w')) = length ?d"
    using index_of_append_new[OF False] by (simp add: keys) (simp add: od_keys_def)
  have inv: "optics_inv (self_optics ?w')"
    using assms False
    by (auto simp: optics_inv_def od_keys_def nth_append new_entry_group less_Suc_eq)
  have pl: "pixel_label_ok ?w'" using assms(2) by (simp add: pixel_label_ok_def)
  show ?thesis using st keys idx inv pl False by auto
qed

lemma first_seen_mono: "set acc \<subseteq> set (first_seen acc xs)"
  by (induction xs arbitrary: acc) (auto, force)

lemma first_seen_prefix: "\<exists>r. first_seen acc xs = acc @ r"
proof (induction xs arbitrary: acc)
  case Nil then show ?case by simp
next
  case (Cons x xs)
  from Cons[of "if x \<in> set acc then acc else acc @ [x]"] show ?case by auto
qed

lemma index_of_first_seen:
  assumes "x \<in> set acc"
  shows "index_of x (first_seen acc xs) = index_of x acc"
proof -
  obtain r where "first_seen acc xs = acc @ r" using first_seen_prefix by blast
  then show ?thesis using assms by (simp add: index_of_append_old)
qed

lemma resolve_records_inv:
  assumes "optics_inv (self_optics w)" "pixel_label_ok w"
  shows "\<exists>w'. resolve_records w imgs =
                 Inr (map (\<lambda>img. PInt (int (index_of (ogName_of img) (od_keys (self_optics w'))) + 1)) imgs, w')
             \<and> optics_inv (self_optics w') \<and> pixel_label_ok w'
             \<and> od_keys (self_optics w') = first_seen (od_keys (self_optics w)) (map ogName_of imgs)"
  using assms
proof (induction imgs arbitrary: w)
  case Nil
  then show ?case by simp
next
  case (Cons img imgs)
  from optics_inv_step[OF Cons.prems, of img] obtain w1 where
    s1: "Writer_getOpticsGroupNumber w img =
           Inr (PInt (int (index_of (ogName_of img) (od_keys (self_optics w1))) + 1), w1)"
    and i1: "optics_inv (self_optics w1)" and p1: "pixel_label_ok w1"
    and k1: "od_keys (self_optics w1) =
              (if ogName_of img \<in> set (od_keys (self_optics w)) then od_keys (self_optics w)
               else od_keys (self_optics w) @ [ogName_of img])"
    by blast
  from Cons.IH[OF i1 p1] obtain w2 where
    s2: "resolve_records w1 imgs =
           Inr (map (\<lambda>img. PInt (int (index_of (ogName_of img) (od_keys (self_optics w2))) + 1)) imgs, w2)"
    and i2: "optics_inv (self_optics w2)" and p2: "pixel_label_ok w2"
    and k2: "od_keys (self_optics w2) = first_seen (od_keys (self_optics w1)) (map ogName_of imgs)"
    by blast
  have mem: "ogName_of img \<in> set (od_keys (self_optics w1))" using k1 by auto
  have idx: "index_of (ogName_of img) (od_keys (self_optics w2))
               = index_of (ogName_of img) (od_keys (self_optics w1))"
    using k2 index_of_first_seen[OF mem] by simp
  have k: "od_keys (self_optics w2) = first_seen (od_keys (self_optics w)) (map ogName_of (img # imgs))"
    using k1 k2 by simp
  show ?case using s1 s2 i2 p2 k idx by auto
qed



lemma foldl_unchanged: "(\<And>r a. f r a = r) \<Longrightarrow> foldl f r xs = r"
  by (induction xs) auto

lemma setAttributes_no_bracket_attribute:
  assumes "\<forall>n \<in> dom obj. take 2 n \<noteq> ''_[''"
  shows "Writer_setAttributes obj row attributes = row"
proof -
  have "obj (''_'' @ py_str_list attributes) = None"
  proof (rule ccontr)
    assume "obj (''_'' @ py_str_list attributes) \<noteq> None"
    then have "''_'' @ py_str_list attributes \<in> dom obj" by auto
    with assms have "take 2 (''_'' @ py_str_list attributes) \<noteq> ''_[''" by blast
    then show False by (simp add: py_str_list_def)
  qed
  then show ?thesis
    by (simp add: Writer_setAttributes_def foldl_unchanged)
qed

text \<open>
  Claim C7. A record carries the attribute \<^verbatim>\<open>_rlnParticleSelectZScore\<close>, and the label
  \<^verbatim>\<open>rlnParticleSelectZScore\<close> is among the declared extra labels (the particle
  writer adds it to every list). The writer looks up the attribute named
  \<^verbatim>\<open>_['rlnParticleSelectZScore', 'rlnMovieFrameNumber']\<close>, finds none and leaves the
  row as it was; copying as the specification describes it adds the label with the value
  of the record.
\<close>

theorem setAttributes_drops_declared_label:
  "Writer_setAttributes [''_rlnParticleSelectZScore'' \<mapsto> PFloat (3 / 2)]
     [(''rlnImageId'', PInt 1)] [''rlnParticleSelectZScore'', ''rlnMovieFrameNumber'']
     = [(''rlnImageId'', PInt 1)]
   \<and> setAttributes_spec [''_rlnParticleSelectZScore'' \<mapsto> PFloat (3 / 2)]
     [(''rlnImageId'', PInt 1)] [''rlnParticleSelectZScore'', ''rlnMovieFrameNumber'']
     = [(''rlnImageId'', PInt 1), (''rlnParticleSelectZScore'', PFloat (3 / 2))]"
  by (simp add: Writer_setAttributes_def setAttributes_spec_def py_str_list_def
        py_repr_str_def py_repr_char_def)

lemma optics_inv_Nil: "optics_inv []"
  by (simp add: optics_inv_def od_keys_def)

lemma first_seen_all_same:
  "xs \<noteq> [] \<Longrightarrow> \<forall>x \<in> set xs. x = g \<Longrightarrow> first_seen [] xs = [g]"
proof -
  have a: "\<And>ys. \<forall>x \<in> set ys. x = g \<Longrightarrow> first_seen [g] ys = [g]"
  proof -
    fix ys :: "'a list" show "\<forall>x \<in> set ys. x = g \<Longrightarrow> first_seen [g] ys = [g]"
      by (induction ys) auto
  qed
  assume "xs \<noteq> []" "\<forall>x \<in> set xs. x = g"
  then show ?thesis using a by (cases xs) auto
qed

lemma optics_entry_kept_step:
  assumes "od_get (self_optics w) k = Some e"
      and "Writer_getOpticsGroupNumber w img = Inr (n, w')"
  shows "od_get (self_optics w') k = Some e"
proof (cases "ogName_of img \<in> set (od_keys (self_optics w))")
  case True
  with assms(2) have "w' = w"
    by (auto simp: Writer_getOpticsGroupNumber_def Let_def split: option.splits)
  with assms(1) show ?thesis by simp
next
  case False
  from assms(1) have "k \<in> set (od_keys (self_optics w))"
    by (auto simp: od_get_def od_keys_def dest: map_of_SomeD intro: rev_image_eqI)
  with False have ne: "k \<noteq> ogName_of img" by auto
  from False assms(2) have "self_optics w' =
      od_set (ogName_of img)
        (new_optics_entry w img (ogName_of img) (PInt (int (length (self_optics w)) + 1)))
        (self_optics w)"
    by (auto simp: Writer_getOpticsGroupNumber_def Let_def)
  with ne assms(1) show ?thesis by (simp add: od_get_od_set)
qed

lemma optics_entry_kept:
  assumes "od_get (self_optics w) k = Some e"
      and "resolve_records w imgs = Inr (ns, w')"
  shows "od_get (self_optics w') k = Some e"
  using assms
proof (induction imgs arbitrary: w ns)
  case Nil
  then show ?case by simp
next
  case (Cons img imgs)
  from Cons.prems(2) obtain n w1 ns' where
    s: "Writer_getOpticsGroupNumber w img = Inr (n, w1)"
    and r: "resolve_records w1 imgs = Inr (ns', w')"
    by (auto split: sum.splits prod.splits)
  from optics_entry_kept_step[OF Cons.prems(1) s] have "od_get (self_optics w1) k = Some e" .
  from Cons.IH[OF this r] show ?case .
qed

lemma ogName_example [simp]:
  "ogName_of example_particle = ''DefaultOpticsGroup''"
  "ogName_of example_particle_200kV = ''DefaultOpticsGroup''"
  "ogName_of example_particle_og2 = ''og2''"
  by (simp_all add: ogName_of_def example_particle_def example_particle_200kV_def
        example_particle_og2_def example_acquisition_def of_str_def py_or_def truthy_def)

lemma example_writer_ok [simp]:
  "self_optics example_writer = []" "pixel_label_ok example_writer"
  "self_imgLabelPixelSize example_writer = ''rlnImagePixelSize''"
  by (simp_all add: example_writer_def pixel_label_ok_def)

text \<open>
  Claim C5. When the group name of a record is in the dictionary, the number stored in
  its entry is returned and the writer is left as it was. In a pass that starts with no
  group, the entry made for the first record is still the entry of its name after any
  further records, whatever their pixel sizes: the stored pixel size is the one of the
  first record.
\<close>

theorem optics_first_seen_wins:
  "(od_get (self_optics w) (ogName_of img) = Some entry
      \<and> od_get entry ''rlnOpticsGroup'' = Some n
     \<longrightarrow> Writer_getOpticsGroupNumber w img = Inr (n, w))
   \<and> (self_optics w = [] \<and> pixel_label_ok w \<longrightarrow>
        (\<exists>ns w'. resolve_records w (img # imgs) = Inr (PInt 1 # ns, w')
           \<and> od_get (self_optics w') (ogName_of img)
               = Some (new_optics_entry w img (ogName_of img) (PInt 1))
           \<and> od_get (new_optics_entry w img (ogName_of img) (PInt 1)) (self_imgLabelPixelSize w)
               = Some (of_float (getSamplingRate img))))"
proof (intro conjI impI)
  assume "od_get (self_optics w) (ogName_of img) = Some entry
            \<and> od_get entry ''rlnOpticsGroup'' = Some n"
  then show "Writer_getOpticsGroupNumber w img = Inr (n, w)"
    using optics_step_hit by blast
next
  assume h: "self_optics w = [] \<and> pixel_label_ok w"
  let ?e = "new_optics_entry w img (ogName_of img) (PInt 1)"
  let ?w1 = "w\<lparr>self_optics := [(ogName_of img, ?e)]\<rparr>"
  have miss: "ogName_of img \<notin> set (od_keys (self_optics w))"
    using h by (simp add: od_keys_def)
  have s1: "Writer_getOpticsGroupNumber w img = Inr (PInt 1, ?w1)"
    using optics_step_miss[OF miss] h by simp
  have inv1: "optics_inv (self_optics ?w1)"
    using h by (simp add: optics_inv_def od_keys_def new_entry_group)
  have pl1: "pixel_label_ok ?w1" using h by (simp add: pixel_label_ok_def)
  from resolve_records_inv[OF inv1 pl1, of imgs] obtain ns w' where
    r: "resolve_records ?w1 imgs = Inr (ns, w')" by blast
  have g1: "od_get (self_optics ?w1) (ogName_of img) = Some ?e"
    by (simp add: od_get_def)
  have kept: "od_get (self_optics w') (ogName_of img) = Some ?e"
    using optics_entry_kept[OF g1 r] .
  have px: "od_get ?e (self_imgLabelPixelSize w) = Some (of_float (getSamplingRate img))"
    using h new_entry_pixel by blast
  have "resolve_records w (img # imgs) = Inr (PInt 1 # ns, w')"
    using s1 r by simp
  with kept px show "\<exists>ns w'. resolve_records w (img # imgs) = Inr (PInt 1 # ns, w')
           \<and> od_get (self_optics w') (ogName_of img) = Some ?e
           \<and> od_get ?e (self_imgLabelPixelSize w) = Some (of_float (getSamplingRate img))"
    by blast
qed

text \<open>
  A second record with the same group name and the pixel size 2 leaves the stored pixel
  size at 1.
\<close>

theorem optics_first_seen_wins_witness:
  "self_optics example_writer = [] \<and> pixel_label_ok example_writer
   \<and> getSamplingRate example_particle = Some 1
   \<and> getSamplingRate example_particle_200kV = Some 2
   \<and> (\<exists>ns w' e. resolve_records example_writer [example_particle, example_particle_200kV]
                    = Inr (PInt 1 # ns, w')
         \<and> od_get (self_optics w') ''DefaultOpticsGroup'' = Some e
         \<and> od_get e ''rlnImagePixelSize'' = Some (PFloat 1))"
proof -
  have h: "self_optics example_writer = [] \<and> pixel_label_ok example_writer" by simp
  have s: "getSamplingRate example_particle = Some 1"
          "getSamplingRate example_particle_200kV = Some 2"
    by (simp_all add: example_particle_def example_particle_200kV_def)
  note t = optics_first_seen_wins
      [of example_writer example_particle "[]" PNone "[example_particle_200kV]"]
  from t h have "\<exists>ns w'. resolve_records example_writer (example_particle # [example_particle_200kV])
                    = Inr (PInt 1 # ns, w')
           \<and> od_get (self_optics w') (ogName_of example_particle)
               = Some (new_optics_entry example_writer example_particle
                         (ogName_of example_particle) (PInt 1))
           \<and> od_get (new_optics_entry example_writer example_particle
                         (ogName_of example_particle) (PInt 1))
                 (self_imgLabelPixelSize example_writer)
               = Some (of_float (getSamplingRate example_particle))"
    by blast
  then obtain ns w' where
    "resolve_records example_writer [example_particle, example_particle_200kV]
       = Inr (PInt 1 # ns, w')"
    "od_get (self_optics w') ''DefaultOpticsGroup''
       = Some (new_optics_entry example_writer example_particle ''DefaultOpticsGroup'' (PInt 1))"
    "od_get (new_optics_entry example_writer example_particle ''DefaultOpticsGroup'' (PInt 1))
       ''rlnImagePixelSize'' = Some (PFloat 1)"
    by (auto simp: s of_float_def simp del: resolve_records.simps)
  with h s show ?thesis by blast
qed

subsection \<open>Unique file names and the planning of binary files\<close>

lemma py_fmt_d_inj: "py_fmt_d w a = py_fmt_d w b \<Longrightarrow> a = b"
proof -
  assume "py_fmt_d w a = py_fmt_d w b"
  then have "py_int (py_fmt_d w a) = py_int (py_fmt_d w b)" by simp
  then show "a = b" by (simp add: py_int_py_fmt_d)
qed

lemma suffixed_name_inj:
  assumes "suffixed_name r a e = suffixed_name r b e"
  shows "a = b"
proof -
  from assms have "py_fmt_d 5 a @ (''.'' @ e) = py_fmt_d 5 b @ (''.'' @ e)"
    unfolding suffixed_name_def by (simp only: append_assoc same_append_eq)
  then have "py_fmt_d 5 a = py_fmt_d 5 b" by (simp only: append_same_eq)
  then show ?thesis by (rule py_fmt_d_inj)
qed

lemma later_names_finite: "finite (later_names vals r e c)"
  by (simp add: later_names_def)

lemma later_names_mono: "later_names vals r e (c + 1) \<subseteq> later_names vals r e c"
proof
  fix v assume "v \<in> later_names vals r e (c + 1)"
  then obtain c' where "v \<in> set vals" "c + 1 < c'" "v = suffixed_name r c' e"
    unfolding later_names_def by blast
  moreover then have "c < c'" by simp
  ultimately show "v \<in> later_names vals r e c" unfolding later_names_def by blast
qed

lemma later_names_strict:
  assumes "suffixed_name r (c + 1) e \<in> set vals"
  shows "later_names vals r e (c + 1) \<subset> later_names vals r e c"
proof -
  have "c < c + 1" by simp
  then have a: "suffixed_name r (c + 1) e \<in> later_names vals r e c"
    using assms unfolding later_names_def by blast
  have b: "suffixed_name r (c + 1) e \<notin> later_names vals r e (c + 1)"
  proof
    assume "suffixed_name r (c + 1) e \<in> later_names vals r e (c + 1)"
    then obtain c' where c': "c + 1 < c'" "suffixed_name r (c + 1) e = suffixed_name r c' e"
      unfolding later_names_def by blast
    from suffixed_name_inj[OF c'(2)] c'(1) show False by simp
  qed
  from a b later_names_mono[of vals r e c] show ?thesis by blast
qed

termination getUniqueFileName_loop
proof (relation "measure (\<lambda>(vals, r, e, c, fn).
          (if fn \<in> set vals then 1 else 0) + card (later_names vals r e c))")
  show "wf (measure (\<lambda>(vals, r, e, c, fn).
          (if fn \<in> set vals then 1 else 0) + card (later_names vals r e c)))"
    by simp
next
  fix vals :: "string list" and newRoot extension :: string and counter :: int and newFn :: string
  assume "newFn \<in> set vals"
  show "((vals, newRoot, extension, counter + 1, suffixed_name newRoot (counter + 1) extension),
         (vals, newRoot, extension, counter, newFn))
        \<in> measure (\<lambda>(vals, r, e, c, fn).
             (if fn \<in> set vals then 1 else 0) + card (later_names vals r e c))"
  proof (cases "suffixed_name newRoot (counter + 1) extension \<in> set vals")
    case True
    have "card (later_names vals newRoot extension (counter + 1))
            < card (later_names vals newRoot extension counter)"
      by (rule psubset_card_mono[OF later_names_finite later_names_strict[OF True]])
    then show ?thesis using True \<open>newFn \<in> set vals\<close> by simp
  next
    case False
    have "card (later_names vals newRoot extension (counter + 1))
            \<le> card (later_names vals newRoot extension counter)"
      by (rule card_mono[OF later_names_finite later_names_mono])
    then show ?thesis using False \<open>newFn \<in> set vals\<close> by simp
  qed
qed

declare getUniqueFileName_loop.simps [simp del]

lemma loop_fresh: "getUniqueFileName_loop vals r e c fn \<notin> set vals"
proof (induction vals r e c fn rule: getUniqueFileName_loop.induct)
  case (1 vals r e c fn)
  show ?case
  proof (cases "fn \<in> set vals")
    case True
    with 1 show ?thesis by (subst getUniqueFileName_loop.simps) simp
  next
    case False
    then show ?thesis by (subst getUniqueFileName_loop.simps) simp
  qed
qed

lemma loop_keeps_free: "fn \<notin> set vals \<Longrightarrow> getUniqueFileName_loop vals r e c fn = fn"
  by (subst getUniqueFileName_loop.simps) simp

lemma loop_suffixed:
  "fn \<in> set vals \<Longrightarrow>
   \<exists>c' > c. getUniqueFileName_loop vals r e c fn = suffixed_name r c' e
           \<and> (\<forall>k. c < k \<and> k < c' \<longrightarrow> suffixed_name r k e \<in> set vals)"
proof (induction vals r e c fn rule: getUniqueFileName_loop.induct)
  case (1 vals r e c fn)
  let ?n = "suffixed_name r (c + 1) e"
  have step: "getUniqueFileName_loop vals r e c fn = getUniqueFileName_loop vals r e (c + 1) ?n"
    using 1(2) by (subst getUniqueFileName_loop.simps) simp
  show ?case
  proof (cases "?n \<in> set vals")
    case False
    then have "getUniqueFileName_loop vals r e c fn = ?n"
      using step by (simp add: loop_keeps_free)
    then show ?thesis by (intro exI[of _ "c + 1"]) auto
  next
    case True
    from 1(1)[OF 1(2) True] obtain c' where c': "c + 1 < c'"
      "getUniqueFileName_loop vals r e (c + 1) ?n = suffixed_name r c' e"
      "\<forall>k. c + 1 < k \<and> k < c' \<longrightarrow> suffixed_name r k e \<in> set vals"
      by blast
    have "\<forall>k. c < k \<and> k < c' \<longrightarrow> suffixed_name r k e \<in> set vals"
    proof (intro allI impI)
      fix k assume "c < k \<and> k < c'"
      then have "k = c + 1 \<or> (c + 1 < k \<and> k < c')" by auto
      then show "suffixed_name r k e \<in> set vals" using True c'(3) by auto
    qed
    with c' step show ?thesis by (intro exI[of _ c']) auto
  qed
qed

lemma getUniqueFileName_fresh:
  "getUniqueFileName os outputRoot filesDict fn extension \<notin> set (od_values filesDict)"
  by (simp add: getUniqueFileName_def Let_def loop_fresh)

lemma od_values_od_set:
  "set (od_values (od_set k v d)) \<subseteq> insert v (set (od_values d))"
proof (induction d)
  case Nil
  then show ?case by (simp add: od_values_def)
next
  case (Cons a d)
  obtain k' v' where a: "a = (k', v')" by (cases a)
  from Cons show ?case
    by (cases "k' = k") (auto simp: a od_values_def)
qed

lemma distinct_keys_od_set: "distinct (od_keys d) \<Longrightarrow> distinct (od_keys (od_set k v d))"
  by (simp add: od_keys_od_set)

lemma distinct_values_od_set:
  "distinct (od_values d) \<Longrightarrow> v \<notin> set (od_values d) \<Longrightarrow> distinct (od_values (od_set k v d))"
proof (induction d)
  case Nil
  then show ?case by (simp add: od_values_def)
next
  case (Cons a d)
  obtain k' v' where a: "a = (k', v')" by (cases a)
  show ?case
  proof (cases "k' = k")
    case True
    with Cons.prems a show ?thesis by (simp add: od_values_def)
  next
    case False
    have d: "distinct (od_values d)" "v \<notin> set (od_values d)" "v' \<notin> set (od_values d)" "v \<noteq> v'"
      using Cons.prems a by (auto simp: od_values_def)
    have "v' \<notin> set (od_values (od_set k v d))"
      using od_values_od_set[of k v d] d by auto
    with Cons.IH[OF d(1,2)] False a show ?thesis by (simp add: od_values_def)
  qed
qed

lemma injective_dict_od_set:
  "injective_dict d \<Longrightarrow> v \<notin> set (od_values d) \<Longrightarrow> injective_dict (od_set k v d)"
  by (simp add: injective_dict_def distinct_keys_od_set distinct_values_od_set)

lemma apply_mapFunc_fresh:
  assumes "mf \<noteq> MapReplaceRoot"
  shows "fst (apply_mapFunc os mf outputRoot rootDir extension filesDict fs fn)
           \<notin> set (od_values filesDict)"
  using assms
  by (cases mf)
     (simp_all add: apply_mapFunc_def convertStack_def createBinaryLink_def Let_def
        getUniqueFileName_fresh)

lemma map_files_injective:
  assumes "mf \<noteq> MapReplaceRoot" "injective_dict filesDict"
  shows "injective_dict (fst (map_files os mf outputRoot rootDir extension filesDict fs files))"
  using assms(2)
proof (induction files arbitrary: filesDict fs)
  case Nil
  then show ?case by simp
next
  case (Cons fn fns)
  obtain newFn fs' where a:
    "apply_mapFunc os mf outputRoot rootDir extension filesDict fs fn = (newFn, fs')"
    by (cases "apply_mapFunc os mf outputRoot rootDir extension filesDict fs fn")
  have "newFn \<notin> set (od_values filesDict)"
    using apply_mapFunc_fresh[OF assms(1), of os outputRoot rootDir extension filesDict fs fn] a
    by simp
  then have "injective_dict (od_set fn newFn filesDict)"
    using Cons.prems injective_dict_od_set by blast
  from Cons.IH[OF this] a show ?case by simp
qed

lemma injective_dict_lookup:
  assumes "injective_dict d" "od_get d a = Some n" "od_get d b = Some n"
  shows "a = b"
proof -
  from assms(2,3) have "(a, n) \<in> set d" "(b, n) \<in> set d"
    by (auto simp: od_get_def dest: map_of_SomeD)
  then obtain i j where ij: "i < length d" "d ! i = (a, n)" "j < length d" "d ! j = (b, n)"
    by (auto simp: in_set_conv_nth)
  from assms(1) have "distinct (map snd d)" by (simp add: injective_dict_def od_values_def)
  with ij have "i = j"
    by (metis distinct_conv_nth length_map nth_map snd_conv)
  with ij show ?thesis by simp
qed

lemma apply_mapFunc_name:
  "fst (apply_mapFunc os mf oR rD ext d fsA fn) = fst (apply_mapFunc os mf oR rD ext d fsB fn)"
  by (cases mf) (simp_all add: apply_mapFunc_def convertStack_def createBinaryLink_def Let_def)

lemma apply_mapFunc_grows:
  "fs_exists fsA \<subseteq> fs_exists (snd (apply_mapFunc os mf oR rD ext d fsA fn))"
  by (cases mf) (auto simp: apply_mapFunc_def convertStack_def createBinaryLink_def Let_def)

lemma apply_mapFunc_exists:
  "mf \<noteq> MapReplaceRoot \<Longrightarrow>
   fst (apply_mapFunc os mf oR rD ext d fsA fn)
     \<in> fs_exists (snd (apply_mapFunc os mf oR rD ext d fsA fn))"
  by (cases mf) (auto simp: apply_mapFunc_def convertStack_def createBinaryLink_def Let_def)

lemma apply_mapFunc_again:
  assumes "mf = MapReplaceRoot \<or> fst (apply_mapFunc os mf oR rD ext d fsB fn) \<in> fs_exists fsB"
  shows "fs_exists (snd (apply_mapFunc os mf oR rD ext d fsB fn)) = fs_exists fsB
       \<and> link_actions (snd (apply_mapFunc os mf oR rD ext d fsB fn)) = link_actions fsB
       \<and> (mf \<noteq> MapConvertStack \<longrightarrow> snd (apply_mapFunc os mf oR rD ext d fsB fn) = fsB)"
  using assms
  by (cases mf)
     (auto simp: apply_mapFunc_def convertStack_def createBinaryLink_def Let_def
        link_actions_def is_link_action_def split: if_splits)

lemma map_files_name:
  "fst (map_files os mf oR rD ext d fsA files) = fst (map_files os mf oR rD ext d fsB files)"
proof (induction files arbitrary: d fsA fsB)
  case Nil
  then show ?case by simp
next
  case (Cons fn fns)
  obtain nA fsA1 where a: "apply_mapFunc os mf oR rD ext d fsA fn = (nA, fsA1)"
    by (cases "apply_mapFunc os mf oR rD ext d fsA fn")
  obtain nB fsB1 where b: "apply_mapFunc os mf oR rD ext d fsB fn = (nB, fsB1)"
    by (cases "apply_mapFunc os mf oR rD ext d fsB fn")
  have "nA = nB" using apply_mapFunc_name[of os mf oR rD ext d fsA fn fsB] a b by simp
  then show ?case using a b Cons[of "od_set fn nB d" fsA1 fsB1] by simp
qed

lemma map_files_grows:
  "fs_exists fsA \<subseteq> fs_exists (snd (map_files os mf oR rD ext d fsA files))"
proof (induction files arbitrary: d fsA)
  case Nil
  then show ?case by simp
next
  case (Cons fn fns)
  obtain nA fsA1 where a: "apply_mapFunc os mf oR rD ext d fsA fn = (nA, fsA1)"
    by (cases "apply_mapFunc os mf oR rD ext d fsA fn")
  have "fs_exists fsA \<subseteq> fs_exists fsA1"
    using apply_mapFunc_grows[of fsA os mf oR rD ext d fn] a by simp
  moreover have "fs_exists fsA1 \<subseteq> fs_exists (snd (map_files os mf oR rD ext (od_set fn nA d) fsA1 fns))"
    by (rule Cons)
  ultimately show ?case using a by auto
qed

lemma map_files_again:
  assumes "fs_exists (snd (map_files os mf oR rD ext d fsA files)) \<subseteq> fs_exists fsB"
  shows "fs_exists (snd (map_files os mf oR rD ext d fsB files)) = fs_exists fsB
       \<and> link_actions (snd (map_files os mf oR rD ext d fsB files)) = link_actions fsB
       \<and> (mf \<noteq> MapConvertStack \<longrightarrow> snd (map_files os mf oR rD ext d fsB files) = fsB)"
  using assms
proof (induction files arbitrary: d fsA fsB)
  case Nil
  then show ?case by simp
next
  case (Cons fn fns)
  obtain nA fsA1 where a: "apply_mapFunc os mf oR rD ext d fsA fn = (nA, fsA1)"
    by (cases "apply_mapFunc os mf oR rD ext d fsA fn")
  obtain nB fsB1 where b: "apply_mapFunc os mf oR rD ext d fsB fn = (nB, fsB1)"
    by (cases "apply_mapFunc os mf oR rD ext d fsB fn")
  have n: "nA = nB" using apply_mapFunc_name[of os mf oR rD ext d fsA fn fsB] a b by simp
  have sub: "fs_exists (snd (map_files os mf oR rD ext (od_set fn nB d) fsA1 fns)) \<subseteq> fs_exists fsB"
    using Cons.prems a n by simp
  have g: "fs_exists fsA1 \<subseteq> fs_exists (snd (map_files os mf oR rD ext (od_set fn nB d) fsA1 fns))"
    by (rule map_files_grows)
  have "mf = MapReplaceRoot \<or> nB \<in> fs_exists fsB"
  proof (cases "mf = MapReplaceRoot")
    case True then show ?thesis by simp
  next
    case False
    from apply_mapFunc_exists[OF False, of os oR rD ext d fsA fn] a n
    have "nB \<in> fs_exists fsA1" by simp
    with g sub show ?thesis by blast
  qed
  then have again: "fs_exists fsB1 = fs_exists fsB \<and> link_actions fsB1 = link_actions fsB
       \<and> (mf \<noteq> MapConvertStack \<longrightarrow> fsB1 = fsB)"
    using apply_mapFunc_again[of mf os oR rD ext d fsB fn] b by simp
  then have sub1: "fs_exists (snd (map_files os mf oR rD ext (od_set fn nB d) fsA1 fns)) \<subseteq> fs_exists fsB1"
    using sub by simp
  from Cons.IH[OF sub1] again b show ?case by auto
qed

lemma convertBinaryFiles_Nil:
  "convertBinaryFiles os fs [] outputDir extension forceConvert = Inl StopIteration"
  by (simp add: convertBinaryFiles_def)

lemma convertBinaryFiles_plan:
  assumes "stackFiles \<noteq> []"
  shows "convertBinaryFiles os fs stackFiles outputDir extension forceConvert =
     (case plan_mode os stackFiles extension forceConvert of
        None \<Rightarrow> Inr ([], fs)
      | Some mf \<Rightarrow>
          Inr (map_files os mf (outputRoot_of os outputDir forceConvert)
                 (commonPath os stackFiles) extension []
                 (makePath (outputRoot_of os outputDir forceConvert)
                    (if mf = MapReplaceRoot
                     then relocate os fs (commonPath os stackFiles)
                            (outputRoot_of os outputDir forceConvert)
                     else fs))
                 stackFiles))"
proof -
  from assms obtain first rest where s: "stackFiles = first # rest" by (cases stackFiles) auto
  show ?thesis
    unfolding s convertBinaryFiles_def plan_mode_def outputRoot_of_def relocate_def
    by (simp add: Let_def)
qed

lemma makePath_present: "p \<in> fs_exists fs \<Longrightarrow> makePath p fs = fs"
  by (simp add: makePath_def insert_absorb)

lemma relocate_present: "p \<in> fs_exists fs \<Longrightarrow> relocate os fs rootDir p = fs"
  by (simp add: relocate_def)

lemma makePath_exists: "p \<in> fs_exists (makePath p fs)"
  by (simp add: makePath_def)

lemma convertBinaryFiles_mapping:
  "map_sum id fst (convertBinaryFiles os fsA stackFiles outputDir extension forceConvert)
     = map_sum id fst (convertBinaryFiles os fsB stackFiles outputDir extension forceConvert)"
proof (cases "stackFiles = []")
  case True
  then show ?thesis by (simp add: convertBinaryFiles_Nil)
next
  case False
  show ?thesis
  proof (cases "plan_mode os stackFiles extension forceConvert")
    case None
    then show ?thesis by (simp add: convertBinaryFiles_plan[OF False])
  next
    case (Some mf)
    show ?thesis
      using map_files_name[of os mf "outputRoot_of os outputDir forceConvert"
          "commonPath os stackFiles" extension "[]" _ stackFiles]
      by (simp add: convertBinaryFiles_plan[OF False] Some)
  qed
qed

text \<open>
  Claim C10, as amended. When an invocation of \<^verbatim>\<open>convertBinaryFiles\<close> has returned a
  mapping, a second invocation that iterates the same files in the same order, with the
  same output directory, extension and flag, on the file system that the first one left,
  returns the same mapping, makes no path exist that did not, and adds no link; unless it
  converts the stacks (which it does again) it leaves the file system exactly as it was.
  For one order of the files the mapping does not depend on the file system at all.
\<close>

theorem planner_idempotent:
  assumes "convertBinaryFiles os fs stackFiles outputDir extension forceConvert = Inr (d, fs1)"
  shows "\<exists>fs2. convertBinaryFiles os fs1 stackFiles outputDir extension forceConvert = Inr (d, fs2)
           \<and> fs_exists fs2 = fs_exists fs1
           \<and> link_actions fs2 = link_actions fs1
           \<and> (plan_mode os stackFiles extension forceConvert \<noteq> Some MapConvertStack
                \<longrightarrow> fs2 = fs1)
           \<and> (\<forall>fs' d' fs''.
                 convertBinaryFiles os fs' stackFiles outputDir extension forceConvert
                   = Inr (d', fs'') \<longrightarrow> d' = d)"
proof -
  have ne: "stackFiles \<noteq> []"
    using assms by (cases stackFiles) (simp_all add: convertBinaryFiles_Nil)
  have indep: "\<forall>fs' d' fs''.
                 convertBinaryFiles os fs' stackFiles outputDir extension forceConvert
                   = Inr (d', fs'') \<longrightarrow> d' = d"
  proof (intro allI impI)
    fix fs' d' fs''
    assume r: "convertBinaryFiles os fs' stackFiles outputDir extension forceConvert = Inr (d', fs'')"
    have "map_sum id fst (convertBinaryFiles os fs' stackFiles outputDir extension forceConvert)
            = map_sum id fst (convertBinaryFiles os fs stackFiles outputDir extension forceConvert)"
      by (rule convertBinaryFiles_mapping)
    with r assms show "d' = d" by simp
  qed
  let ?oR = "outputRoot_of os outputDir forceConvert"
  let ?rD = "commonPath os stackFiles"
  show ?thesis
  proof (cases "plan_mode os stackFiles extension forceConvert")
    case None
    with assms have "d = []" "fs1 = fs" by (simp_all add: convertBinaryFiles_plan[OF ne])
    with None indep show ?thesis by (simp add: convertBinaryFiles_plan[OF ne])
  next
    case (Some mf)
    let ?pre = "\<lambda>f. makePath ?oR (if mf = MapReplaceRoot then relocate os f ?rD ?oR else f)"
    have r1: "map_files os mf ?oR ?rD extension [] (?pre fs) stackFiles = (d, fs1)"
      using assms Some by (simp add: convertBinaryFiles_plan[OF ne])
    have "?oR \<in> fs_exists (?pre fs)" by (rule makePath_exists)
    moreover have "fs_exists (?pre fs) \<subseteq> fs_exists (snd (map_files os mf ?oR ?rD extension [] (?pre fs) stackFiles))"
      by (rule map_files_grows)
    ultimately have oR: "?oR \<in> fs_exists fs1" using r1 by auto
    have pre1: "?pre fs1 = fs1"
      using oR by (simp add: makePath_present relocate_present)
    have sub: "fs_exists (snd (map_files os mf ?oR ?rD extension [] (?pre fs) stackFiles)) \<subseteq> fs_exists fs1"
      using r1 by simp
    note again = map_files_again[OF sub]
    have name: "fst (map_files os mf ?oR ?rD extension [] fs1 stackFiles) = d"
      using map_files_name[of os mf ?oR ?rD extension "[]" fs1 stackFiles "?pre fs"] r1 by simp
    have r2: "convertBinaryFiles os fs1 stackFiles outputDir extension forceConvert
                = Inr (map_files os mf ?oR ?rD extension [] fs1 stackFiles)"
      using Some pre1 by (simp add: convertBinaryFiles_plan[OF ne])
    have r2': "convertBinaryFiles os fs1 stackFiles outputDir extension forceConvert
                = Inr (d, snd (map_files os mf ?oR ?rD extension [] fs1 stackFiles))"
      using r2 name by (simp add: prod_eq_iff)
    show ?thesis using r2' again Some indep by auto
  qed
qed

text \<open>
  Claim C9. The name that \<^verbatim>\<open>getUniqueFileName\<close> returns is never a value of the
  mapping built so far: it is the candidate when the candidate is free, and otherwise the
  root of the candidate, an underscore, a counter above 1 printed with \<^verbatim>\<open>%05d\<close>, a dot
  and the extension. Hence in every pass that names its files with it (all but the
  replacement of the root directory) the finished mapping has no value twice: two distinct
  source files never receive the same name.
\<close>

theorem unique_file_names:
  "getUniqueFileName os outputRoot filesDict fn extension \<notin> set (od_values filesDict)
   \<and> (path_join os outputRoot (replaceBaseExt os fn extension) \<notin> set (od_values filesDict)
        \<longrightarrow> getUniqueFileName os outputRoot filesDict fn extension
              = path_join os outputRoot (replaceBaseExt os fn extension))
   \<and> (path_join os outputRoot (replaceBaseExt os fn extension) \<in> set (od_values filesDict)
        \<longrightarrow> (\<exists>c > 1. getUniqueFileName os outputRoot filesDict fn extension
                       = removeExt os (path_join os outputRoot (replaceBaseExt os fn extension))
                           @ ''_'' @ py_fmt_d 5 c @ ''.'' @ extension))
   \<and> (convertBinaryFiles os fs stackFiles outputDir extension forceConvert = Inr (d, fs1)
        \<and> plan_mode os stackFiles extension forceConvert \<noteq> Some MapReplaceRoot
        \<longrightarrow> distinct (od_values d)
            \<and> (\<forall>a b n. od_get d a = Some n \<and> od_get d b = Some n \<longrightarrow> a = b))"
proof -
  let ?cand = "path_join os outputRoot (replaceBaseExt os fn extension)"
  have A: "getUniqueFileName os outputRoot filesDict fn extension \<notin> set (od_values filesDict)"
    by (rule getUniqueFileName_fresh)
  have B: "?cand \<notin> set (od_values filesDict)
        \<longrightarrow> getUniqueFileName os outputRoot filesDict fn extension = ?cand"
    by (simp add: getUniqueFileName_def Let_def loop_keeps_free)
  have C: "?cand \<in> set (od_values filesDict)
        \<longrightarrow> (\<exists>c > 1. getUniqueFileName os outputRoot filesDict fn extension
                       = removeExt os ?cand @ ''_'' @ py_fmt_d 5 c @ ''.'' @ extension)"
  proof
    assume "?cand \<in> set (od_values filesDict)"
    from loop_suffixed[OF this, of 1 "removeExt os ?cand" extension]
    obtain c where "1 < c"
      "getUniqueFileName_loop (od_values filesDict) (removeExt os ?cand) extension 1 ?cand
         = suffixed_name (removeExt os ?cand) c extension"
      by blast
    then show "\<exists>c > 1. getUniqueFileName os outputRoot filesDict fn extension
                       = removeExt os ?cand @ ''_'' @ py_fmt_d 5 c @ ''.'' @ extension"
      by (auto simp: getUniqueFileName_def Let_def suffixed_name_def)
  qed
  have D: "convertBinaryFiles os fs stackFiles outputDir extension forceConvert = Inr (d, fs1)
        \<and> plan_mode os stackFiles extension forceConvert \<noteq> Some MapReplaceRoot
        \<longrightarrow> distinct (od_values d)
            \<and> (\<forall>a b n. od_get d a = Some n \<and> od_get d b = Some n \<longrightarrow> a = b)"
  proof
    assume h: "convertBinaryFiles os fs stackFiles outputDir extension forceConvert = Inr (d, fs1)
        \<and> plan_mode os stackFiles extension forceConvert \<noteq> Some MapReplaceRoot"
    have ne: "stackFiles \<noteq> []"
      using h by (cases stackFiles) (simp_all add: convertBinaryFiles_Nil)
    have inj: "injective_dict d"
    proof (cases "plan_mode os stackFiles extension forceConvert")
      case None
      with h have "d = []" by (simp add: convertBinaryFiles_plan[OF ne])
      then show ?thesis by (simp add: injective_dict_def od_keys_def od_values_def)
    next
      case (Some mf)
      with h have mf: "mf \<noteq> MapReplaceRoot" by simp
      have e: "injective_dict []" by (simp add: injective_dict_def od_keys_def od_values_def)
      from h Some mf have "d = fst (map_files os mf (outputRoot_of os outputDir forceConvert)
                   (commonPath os stackFiles) extension []
                   (makePath (outputRoot_of os outputDir forceConvert) fs) stackFiles)"
        by (simp add: convertBinaryFiles_plan[OF ne])
      then show ?thesis using map_files_injective[OF mf e] by simp
    qed
    have "\<forall>a b n. od_get d a = Some n \<and> od_get d b = Some n \<longrightarrow> a = b"
      using injective_dict_lookup[OF inj] by blast
    moreover have "distinct (od_values d)" using inj by (simp add: injective_dict_def)
    ultimately show "distinct (od_values d)
            \<and> (\<forall>a b n. od_get d a = Some n \<and> od_get d b = Some n \<longrightarrow> a = b)"
      by blast
  qed
  from A B C D show ?thesis by blast
qed

lemma example_plan:
  "convertBinaryFiles example_ospath example_filesys
     [''run1/particles.mrc'', ''run2/particles.mrc''] ''out'' ''mrcs'' False
   = Inr ([(''run1/particles.mrc'', ''out/input/particles.mrcs''),
           (''run2/particles.mrc'', ''out/input/particles_00002.mrcs'')],
          \<lparr>fs_exists = {''out/input'', ''out/input/particles.mrcs'',
                         ''out/input/particles_00002.mrcs''},
           fs_log = [CreateLink ''run1/particles.mrc'' ''out/input/particles.mrcs'',
                     CreateLink ''run2/particles.mrc'' ''out/input/particles_00002.mrcs'']\<rparr>)"
  by code_simp

lemma example_plan_mode:
  "plan_mode example_ospath [''run1/particles.mrc'', ''run2/particles.mrc''] ''mrcs'' False
     = Some MapCreateBinaryLink"
  by code_simp

text \<open>
  Two stacks named \<^verbatim>\<open>particles.mrc\<close> in two runs: the second is linked as
  \<^verbatim>\<open>particles_00002.mrcs\<close>.
\<close>

theorem unique_file_names_witness:
  "plan_mode example_ospath [''run1/particles.mrc'', ''run2/particles.mrc''] ''mrcs'' False
     = Some MapCreateBinaryLink
   \<and> map_sum id fst (convertBinaryFiles example_ospath example_filesys
        [''run1/particles.mrc'', ''run2/particles.mrc''] ''out'' ''mrcs'' False)
     = Inr [(''run1/particles.mrc'', ''out/input/particles.mrcs''),
            (''run2/particles.mrc'', ''out/input/particles_00002.mrcs'')]
   \<and> distinct (od_values [(''run1/particles.mrc'', ''out/input/particles.mrcs''),
                           (''run2/particles.mrc'', ''out/input/particles_00002.mrcs'')])
   \<and> getUniqueFileName example_ospath ''out/input''
        [(''run1/particles.mrc'', ''out/input/particles.mrcs'')] ''run2/particles.mrc'' ''mrcs''
       \<notin> set (od_values [(''run1/particles.mrc'', ''out/input/particles.mrcs'')])"
proof -
  note u = unique_file_names [where os = example_ospath and outputRoot = "''out/input''"
      and filesDict = "[(''run1/particles.mrc'', ''out/input/particles.mrcs'')]"
      and fn = "''run2/particles.mrc''" and extension = "''mrcs''"
      and fs = example_filesys
      and stackFiles = "[''run1/particles.mrc'', ''run2/particles.mrc'']"
      and outputDir = "''out''" and forceConvert = False
      and d = "[(''run1/particles.mrc'', ''out/input/particles.mrcs''),
                (''run2/particles.mrc'', ''out/input/particles_00002.mrcs'')]"
      and ?fs1.0 = "\<lparr>fs_exists = {''out/input'', ''out/input/particles.mrcs'',
                         ''out/input/particles_00002.mrcs''},
           fs_log = [CreateLink ''run1/particles.mrc'' ''out/input/particles.mrcs'',
                     CreateLink ''run2/particles.mrc'' ''out/input/particles_00002.mrcs'']\<rparr>"]
  have m: "plan_mode example_ospath [''run1/particles.mrc'', ''run2/particles.mrc''] ''mrcs'' False
     \<noteq> Some MapReplaceRoot"
    by (simp add: example_plan_mode)
  from u example_plan m
  have a: "distinct (od_values [(''run1/particles.mrc'', ''out/input/particles.mrcs''),
                           (''run2/particles.mrc'', ''out/input/particles_00002.mrcs'')])"
    by blast
  from u have b: "getUniqueFileName example_ospath ''out/input''
        [(''run1/particles.mrc'', ''out/input/particles.mrcs'')] ''run2/particles.mrc'' ''mrcs''
       \<notin> set (od_values [(''run1/particles.mrc'', ''out/input/particles.mrcs'')])"
    by blast
  have c: "map_sum id fst (convertBinaryFiles example_ospath example_filesys
        [''run1/particles.mrc'', ''run2/particles.mrc''] ''out'' ''mrcs'' False)
     = Inr [(''run1/particles.mrc'', ''out/input/particles.mrcs''),
            (''run2/particles.mrc'', ''out/input/particles_00002.mrcs'')]"
    by (simp only: example_plan map_sum.simps fst_conv)
  from example_plan_mode a b c show ?thesis by blast
qed

text \<open>
  The two stacks of the example, planned twice: the links are made once.
\<close>

theorem planner_idempotent_witness:
  "convertBinaryFiles example_ospath example_filesys
     [''run1/particles.mrc'', ''run2/particles.mrc''] ''out'' ''mrcs'' False
   = Inr ([(''run1/particles.mrc'', ''out/input/particles.mrcs''),
           (''run2/particles.mrc'', ''out/input/particles_00002.mrcs'')],
          \<lparr>fs_exists = {''out/input'', ''out/input/particles.mrcs'',
                         ''out/input/particles_00002.mrcs''},
           fs_log = [CreateLink ''run1/particles.mrc'' ''out/input/particles.mrcs'',
                     CreateLink ''run2/particles.mrc'' ''out/input/particles_00002.mrcs'']\<rparr>)
   \<and> convertBinaryFiles example_ospath
        \<lparr>fs_exists = {''out/input'', ''out/input/particles.mrcs'',
                       ''out/input/particles_00002.mrcs''},
         fs_log = [CreateLink ''run1/particles.mrc'' ''out/input/particles.mrcs'',
                   CreateLink ''run2/particles.mrc'' ''out/input/particles_00002.mrcs'']\<rparr>
        [''run1/particles.mrc'', ''run2/particles.mrc''] ''out'' ''mrcs'' False
   = Inr ([(''run1/particles.mrc'', ''out/input/particles.mrcs''),
           (''run2/particles.mrc'', ''out/input/particles_00002.mrcs'')],
          \<lparr>fs_exists = {''out/input'', ''out/input/particles.mrcs'',
                         ''out/input/particles_00002.mrcs''},
           fs_log = [CreateLink ''run1/particles.mrc'' ''out/input/particles.mrcs'',
                     CreateLink ''run2/particles.mrc'' ''out/input/particles_00002.mrcs'']\<rparr>)"
proof -
  have m: "plan_mode example_ospath [''run1/particles.mrc'', ''run2/particles.mrc''] ''mrcs'' False
     \<noteq> Some MapConvertStack"
    by (simp add: example_plan_mode)
  from planner_idempotent [OF example_plan] m example_plan show ?thesis by auto
qed

text \<open>
  Claim C10 as stated fails: the files are a set, and the names are given in the order
  in which it is iterated. Three stacks, two of them with one base name and the third
  named like the second name of that base: iterated in another order, the same set gets
  another mapping, and the second invocation makes a link that the first did not.
\<close>

theorem planner_order_counterexample:
  "set [''a/particles.mrc'', ''b/particles.mrc'', ''c/particles_00002.mrc'']
     = set [''c/particles_00002.mrc'', ''a/particles.mrc'', ''b/particles.mrc'']
   \<and> convertBinaryFiles example_ospath example_filesys
        [''a/particles.mrc'', ''b/particles.mrc'', ''c/particles_00002.mrc''] ''out'' ''mrcs'' False
     = Inr ([(''a/particles.mrc'', ''out/input/particles.mrcs''),
             (''b/particles.mrc'', ''out/input/particles_00002.mrcs''),
             (''c/particles_00002.mrc'', ''out/input/particles_00002_00002.mrcs'')],
            \<lparr>fs_exists = {''out/input'', ''out/input/particles.mrcs'',
                           ''out/input/particles_00002.mrcs'',
                           ''out/input/particles_00002_00002.mrcs''},
             fs_log = [CreateLink ''a/particles.mrc'' ''out/input/particles.mrcs'',
                       CreateLink ''b/particles.mrc'' ''out/input/particles_00002.mrcs'',
                       CreateLink ''c/particles_00002.mrc''
                         ''out/input/particles_00002_00002.mrcs'']\<rparr>)
   \<and> convertBinaryFiles example_ospath
        \<lparr>fs_exists = {''out/input'', ''out/input/particles.mrcs'',
                       ''out/input/particles_00002.mrcs'',
                       ''out/input/particles_00002_00002.mrcs''},
         fs_log = [CreateLink ''a/particles.mrc'' ''out/input/particles.mrcs'',
                   CreateLink ''b/particles.mrc'' ''out/input/particles_00002.mrcs'',
                   CreateLink ''c/particles_00002.mrc''
                     ''out/input/particles_00002_00002.mrcs'']\<rparr>
        [''c/particles_00002.mrc'', ''a/particles.mrc'', ''b/particles.mrc''] ''out'' ''mrcs'' False
     = Inr ([(''c/particles_00002.mrc'', ''out/input/particles_00002.mrcs''),
             (''a/particles.mrc'', ''out/input/particles.mrcs''),
             (''b/particles.mrc'', ''out/input/particles_00003.mrcs'')],
            \<lparr>fs_exists = {''out/input'', ''out/input/particles.mrcs'',
                           ''out/input/particles_00002.mrcs'',
                           ''out/input/particles_00002_00002.mrcs'',
                           ''out/input/particles_00003.mrcs''},
             fs_log = [CreateLink ''a/particles.mrc'' ''out/input/particles.mrcs'',
                       CreateLink ''b/particles.mrc'' ''out/input/particles_00002.mrcs'',
                       CreateLink ''c/particles_00002.mrc''
                         ''out/input/particles_00002_00002.mrcs'',
                       CreateLink ''b/particles.mrc'' ''out/input/particles_00003.mrcs'']\<rparr>)"
  by code_simp

subsection \<open>The written star file\<close>

lemma bind_err_Inr: "bind_err m f = Inr x \<longleftrightarrow> (\<exists>a. m = Inr a \<and> f a = Inr x)"
  by (cases m) (simp_all add: bind_err_def)

lemma addRow_Inr: "addRow t r = Inr t' \<Longrightarrow> getRows t' = getRows t @ [r] \<and> getColumns t' = getColumns t"
  by (auto simp: addRow_def split: if_splits)

lemma addRows_Inr:
  "addRows t rs = Inr t' \<Longrightarrow> getRows t' = getRows t @ rs \<and> getColumns t' = getColumns t"
proof (induction rs arbitrary: t)
  case Nil
  then show ?case by simp
next
  case (Cons r rs)
  from Cons.prems obtain t1 where a: "addRow t r = Inr t1" and b: "addRows t1 rs = Inr t'"
    by (auto split: sum.splits)
  from addRow_Inr[OF a] Cons.IH[OF b] show ?case by simp
qed

lemma first_optics_table_Inr: "first_optics_table w = Inr t \<Longrightarrow> getRows t = []"
  by (auto simp: first_optics_table_def createTableFromDict_def split: list.splits)

lemma write_particle_rows_Inr:
  "write_particle_rows ext w r parts = Inr (out, r', w') \<Longrightarrow>
   length out = length parts \<and> list_all is_row_values out"
proof (induction parts arbitrary: w r out r' w')
  case Nil
  then show ?case by simp
next
  case (Cons part parts)
  from Cons.prems obtain row w1 where
    a: "Writer_partToRow ext w part r = Inr (row, w1)"
    by (auto simp: bind_err_Inr)
  with Cons.prems obtain out1 r1 w2 where
    b: "write_particle_rows ext w1 (postprocess w1 part row) parts = Inr (out1, r1, w2)"
    and c: "out = RowValues (od_values (postprocess w1 part row)) # out1"
    by (auto simp: bind_err_Inr Let_def)
  from Cons.IH[OF b] c show ?case by (simp add: is_row_values_def)
qed

lemma add_mic_rows_Inr:
  "add_mic_rows ext w l r t mics = Inr (t', w') \<Longrightarrow>
   length (getRows t') = length (getRows t) + length mics \<and> getColumns t' = getColumns t"
proof (induction mics arbitrary: w r t)
  case Nil
  then show ?case by simp
next
  case (Cons mic mics)
  from Cons.prems obtain row2 w1 where
    a: "Writer_micToRow ext w mic (od_set l (WriterBase_convert ext mic) r) = Inr (row2, w1)"
    by (auto simp: bind_err_Inr Let_def)
  with Cons.prems obtain t1 where
    b: "addRow t (postprocess w1 mic row2) = Inr t1"
    and c: "add_mic_rows ext w1 l (postprocess w1 mic row2) t1 mics = Inr (t', w')"
    by (auto simp: bind_err_Inr Let_def)
  from addRow_Inr[OF b] Cons.IH[OF c] show ?case by simp
qed

lemma block_names_append: "block_names (a @ b) = block_names a @ block_names b"
  by (simp add: block_names_def)

lemma block_names_rows: "list_all is_row_values out \<Longrightarrow> block_names out = []"
  by (induction out) (auto simp: block_names_def is_row_values_def split: star_item.splits)

lemma block_names_writeStar: "block_names (writeStar t n) = [n]"
proof -
  have "list_all is_row_values
          (map (\<lambda>r. RowValues (map (\<lambda>c. case od_get r c of Some v \<Rightarrow> v | None \<Rightarrow> PStr [])
                               (getColumns t))) (getRows t))"
    by (simp add: list_all_iff is_row_values_def)
  from block_names_rows[OF this] show ?thesis
    by (simp add: writeStar_def block_names_append) (simp add: block_names_def)
qed

lemma particles_output:
  assumes "Writer_writeSetOfParticles ext w partsSet starFile kw = Inr (out, w')"
  shows "\<exists>cols rows opticsTable.
           out = [Text ''# Star file generated with Scipion\<newline>'',
                  Text ''# version 30001\<newline>'',
                  TableName ''particles'', Header cols] @ rows @
                 [Text ''\<newline># version 30001\<newline>''] @ writeStar opticsTable ''optics''
         \<and> length rows = length (items partsSet) \<and> list_all is_row_values rows
         \<and> getRows opticsTable = od_values (self_optics w')"
  using assms unfolding Writer_writeSetOfParticles_def
  apply (clarsimp simp: bind_err_Inr Let_def split: list.splits
        dest!: write_particle_rows_Inr addRows_Inr addRow_Inr first_optics_table_Inr)
  apply (intro exI conjI)
     apply (rule append_Cons[symmetric])
    apply (simp_all add: is_row_values_def)
  done

lemma mics_output:
  assumes "Writer_writeSetOfMoviesOrMics ext w imgIterable starFile tableName imgLabelName kw
             = Inr (out, w')"
  shows "\<exists>opticsTable micsTable.
           out = [Text ''# Star file generated with Scipion\<newline>'',
                  Text ''# version 30001\<newline>''] @ writeStar opticsTable ''optics'' @
                 [Text ''# version 30001\<newline>''] @ writeStar micsTable tableName
         \<and> length (getRows micsTable) = length imgIterable
         \<and> getRows opticsTable = od_values (self_optics w')"
  using assms unfolding Writer_writeSetOfMoviesOrMics_def
  apply (clarsimp simp: bind_err_Inr Let_def createTableFromDict_def split: list.splits
        dest!: add_mic_rows_Inr addRows_Inr addRow_Inr first_optics_table_Inr)
  apply (intro exI conjI)
    apply (rule refl)
   apply simp_all
  done

lemma example_particles_written:
  "\<not> isl (Writer_writeSetOfParticles example_externals example_writer example_set
             ''particles.star'' example_kwargs)"
  by (simp add: Writer_writeSetOfParticles_def example_externals_def example_writer_def
        example_set_def example_kwargs_def example_particle_def example_particle_200kV_def
        example_acquisition_def example_filesys_def bind_err_def Let_def is_set_def
        setAlign_of_def Writer_partToRow_def coordToRow_def locationToRelion_def
        Writer_setAttributes_def py_str_list_def py_repr_str_def py_repr_char_def
        Writer_getOpticsGroupNumber_def ogName_of_def of_str_def of_float_def py_or_def
        truthy_def od_keys_def od_get_def od_values_def new_optics_entry_def od_of_list_def
        postprocess_def first_optics_table_def createTableFromDict_def addRow_def)

lemma example_mics_written:
  "\<not> isl (Writer_writeSetOfMoviesOrMics example_externals example_writer
             [example_particle, example_particle_200kV] ''micrographs.star''
             ''micrographs'' ''rlnMicrographName'' example_kwargs)"
  by (simp add: Writer_writeSetOfMoviesOrMics_def example_externals_def example_writer_def
        example_kwargs_def example_particle_def example_particle_200kV_def
        example_acquisition_def example_filesys_def bind_err_def Let_def
        Writer_micToRow_def
        Writer_setAttributes_def py_str_list_def py_repr_str_def py_repr_char_def
        Writer_getOpticsGroupNumber_def ogName_of_def of_str_def of_float_def py_or_def
        truthy_def od_keys_def od_get_def od_values_def new_optics_entry_def od_of_list_def
        postprocess_def first_optics_table_def createTableFromDict_def addRow_def)

text \<open>
  Claim C6, as amended. When \<^verbatim>\<open>writeSetOfParticles\<close> returns, the file holds the two
  comment lines, the block \<open>particles\<close> with its header and one line of values for each
  particle of the set, written as the particles are converted, then a comment line and
  the block \<open>optics\<close> with the entries of the optics dictionary: the optics table comes
  after the main block. When \<^verbatim>\<open>_writeSetOfMoviesOrMics\<close> returns, the file holds the
  two comment lines, the block \<open>optics\<close>, a comment line and then the main block, whose
  rows were collected in a table first: the optics table comes before the main block.
\<close>

theorem optics_table_position:
  "(Writer_writeSetOfParticles ext w partsSet starFile kw = Inr (out, w') \<longrightarrow>
      (\<exists>cols rows opticsTable.
           out = [Text ''# Star file generated with Scipion\<newline>'',
                  Text ''# version 30001\<newline>'',
                  TableName ''particles'', Header cols] @ rows @
                 [Text ''\<newline># version 30001\<newline>''] @ writeStar opticsTable ''optics''
         \<and> length rows = length (items partsSet) \<and> list_all is_row_values rows
         \<and> getRows opticsTable = od_values (self_optics w'))
      \<and> block_names out = [''particles'', ''optics''])
   \<and> (Writer_writeSetOfMoviesOrMics ext w imgIterable starFile tableName imgLabelName kw
         = Inr (out2, w2) \<longrightarrow>
      (\<exists>opticsTable micsTable.
           out2 = [Text ''# Star file generated with Scipion\<newline>'',
                   Text ''# version 30001\<newline>''] @ writeStar opticsTable ''optics'' @
                  [Text ''# version 30001\<newline>''] @ writeStar micsTable tableName
         \<and> length (getRows micsTable) = length imgIterable
         \<and> getRows opticsTable = od_values (self_optics w2))
      \<and> block_names out2 = [''optics'', tableName])"
proof (intro conjI impI)
  assume a: "Writer_writeSetOfParticles ext w partsSet starFile kw = Inr (out, w')"
  from particles_output[OF a] show "\<exists>cols rows opticsTable.
           out = [Text ''# Star file generated with Scipion\<newline>'',
                  Text ''# version 30001\<newline>'',
                  TableName ''particles'', Header cols] @ rows @
                 [Text ''\<newline># version 30001\<newline>''] @ writeStar opticsTable ''optics''
         \<and> length rows = length (items partsSet) \<and> list_all is_row_values rows
         \<and> getRows opticsTable = od_values (self_optics w')" .
  from particles_output[OF a] obtain cols rows opticsTable where
    o: "out = [Text ''# Star file generated with Scipion\<newline>'',
                  Text ''# version 30001\<newline>'',
                  TableName ''particles'', Header cols] @ rows @
                 [Text ''\<newline># version 30001\<newline>''] @ writeStar opticsTable ''optics''"
    and r: "list_all is_row_values rows"
    by blast
  have "block_names out = block_names [Text ''# Star file generated with Scipion\<newline>'',
                  Text ''# version 30001\<newline>'',
                  TableName ''particles'', Header cols] @ block_names rows @
                 block_names [Text ''\<newline># version 30001\<newline>'']
                 @ block_names (writeStar opticsTable ''optics'')"
    unfolding o by (simp only: block_names_append)
  then show "block_names out = [''particles'', ''optics'']"
    by (simp add: block_names_rows[OF r] block_names_writeStar) (simp add: block_names_def)
next
  assume a: "Writer_writeSetOfMoviesOrMics ext w imgIterable starFile tableName imgLabelName kw
         = Inr (out2, w2)"
  from mics_output[OF a] show "\<exists>opticsTable micsTable.
           out2 = [Text ''# Star file generated with Scipion\<newline>'',
                   Text ''# version 30001\<newline>''] @ writeStar opticsTable ''optics'' @
                  [Text ''# version 30001\<newline>''] @ writeStar micsTable tableName
         \<and> length (getRows micsTable) = length imgIterable
         \<and> getRows opticsTable = od_values (self_optics w2)" .
  from mics_output[OF a] obtain opticsTable micsTable where
    o: "out2 = [Text ''# Star file generated with Scipion\<newline>'',
                   Text ''# version 30001\<newline>''] @ writeStar opticsTable ''optics'' @
                  [Text ''# version 30001\<newline>''] @ writeStar micsTable tableName"
    by blast
  have "block_names out2 = block_names [Text ''# Star file generated with Scipion\<newline>'',
                   Text ''# version 30001\<newline>''] @ block_names (writeStar opticsTable ''optics'') @
                  block_names [Text ''# version 30001\<newline>''] @ block_names (writeStar micsTable tableName)"
    unfolding o by (simp only: block_names_append)
  then show "block_names out2 = [''optics'', tableName]"
    by (simp add: block_names_writeStar) (simp add: block_names_def)
qed

text \<open>
  A set of two particles is written: the blocks are \<open>particles\<close>, then \<open>optics\<close>.
\<close>

theorem optics_table_position_witness:
  "\<not> isl (Writer_writeSetOfParticles example_externals example_writer example_set
             ''particles.star'' example_kwargs)
   \<and> map_sum id (\<lambda>r. block_names (fst r))
        (Writer_writeSetOfParticles example_externals example_writer example_set
             ''particles.star'' example_kwargs) = Inr [''particles'', ''optics'']"
proof -
  obtain out w' where
    r: "Writer_writeSetOfParticles example_externals example_writer example_set
             ''particles.star'' example_kwargs = Inr (out, w')"
    using example_particles_written
    by (cases "Writer_writeSetOfParticles example_externals example_writer example_set
             ''particles.star'' example_kwargs") auto
  from optics_table_position [of example_externals example_writer example_set
      "''particles.star''" example_kwargs out w' "[]" "[]" "[]" "[]" example_writer] r
  have "block_names out = [''particles'', ''optics'']" by blast
  with r example_particles_written show ?thesis by simp
qed

text \<open>
  Claim C6 as stated fails for micrographs: two micrographs are written, and the block
  \<open>optics\<close> is written before the block \<open>micrographs\<close>.
\<close>

theorem optics_table_first_for_micrographs:
  "\<not> isl (Writer_writeSetOfMicrographs example_externals example_writer
             [example_particle, example_particle_200kV] ''micrographs.star'' example_kwargs)
   \<and> map_sum id (\<lambda>r. block_names (fst r))
        (Writer_writeSetOfMicrographs example_externals example_writer
             [example_particle, example_particle_200kV] ''micrographs.star'' example_kwargs)
       = Inr [''optics'', ''micrographs'']"
proof -
  obtain out w' where
    r: "Writer_writeSetOfMoviesOrMics example_externals example_writer
             [example_particle, example_particle_200kV] ''micrographs.star''
             ''micrographs'' ''rlnMicrographName'' example_kwargs = Inr (out, w')"
    using example_mics_written
    by (cases "Writer_writeSetOfMoviesOrMics example_externals example_writer
             [example_particle, example_particle_200kV] ''micrographs.star''
             ''micrographs'' ''rlnMicrographName'' example_kwargs") auto
  from mics_output[OF r] obtain opticsTable micsTable where
    o: "out = [Text ''# Star file generated with Scipion\<newline>'',
                   Text ''# version 30001\<newline>''] @ writeStar opticsTable ''optics'' @
                  [Text ''# version 30001\<newline>''] @ writeStar micsTable ''micrographs''"
    by blast
  have "block_names out = block_names [Text ''# Star file generated with Scipion\<newline>'',
                   Text ''# version 30001\<newline>''] @ block_names (writeStar opticsTable ''optics'') @
                  block_names [Text ''# version 30001\<newline>'']
                  @ block_names (writeStar micsTable ''micrographs'')"
    unfolding o by (simp only: block_names_append)
  then have "block_names out = [''optics'', ''micrographs'']"
    by (simp add: block_names_writeStar) (simp add: block_names_def)
  with r show ?thesis by (simp add: Writer_writeSetOfMicrographs_def)
qed

subsection \<open>Optics groups of a write pass\<close>

text \<open>
  A conversion of a record changes nothing of the writer but its optics dictionary; it
  keeps the numbering of the entries, adds the name of the record when it is new, and
  leaves on the row the number of the entry of that name.
\<close>

lemma getOpticsGroupNumber_frame:
  assumes "Writer_getOpticsGroupNumber w img = Inr (n, w')"
  shows "w' = w\<lparr>self_optics := self_optics w'\<rparr>"
  using assms
  by (auto simp: Writer_getOpticsGroupNumber_def Let_def split: if_splits option.splits)

lemma partToRow_optics:
  assumes run: "Writer_partToRow ext w part row = Inr (row', w')"
      and inv: "optics_inv (self_optics w)" and pl: "pixel_label_ok w"
  shows "optics_inv (self_optics w') \<and> pixel_label_ok w'
       \<and> self_postprocessImageRow w' = self_postprocessImageRow w
       \<and> od_keys (self_optics w') =
             (if ogName_of part \<in> set (od_keys (self_optics w)) then od_keys (self_optics w)
              else od_keys (self_optics w) @ [ogName_of part])
       \<and> od_get row' ''rlnOpticsGroup''
             = Some (PInt (int (index_of (ogName_of part) (od_keys (self_optics w'))) + 1))"
proof -
  from run obtain fs' row7 n wz where
    g: "Writer_getOpticsGroupNumber (w\<lparr>self_fs := fs'\<rparr>) part = Inr (n, wz)"
    and r: "row' = od_set ''rlnOpticsGroup'' n row7"
    and w': "w' = wz\<lparr>self_counter := self_counter w + 1\<rparr>"
    unfolding Writer_partToRow_def Let_def
    by (auto simp: bind_err_Inr)
  let ?w = "w\<lparr>self_fs := fs'\<rparr>"
  have i0: "optics_inv (self_optics ?w)" using inv by simp
  have p0: "pixel_label_ok ?w" using pl by (simp add: pixel_label_ok_def)
  from optics_inv_step[OF i0 p0, of part] obtain wy where
    s: "Writer_getOpticsGroupNumber ?w part =
          Inr (PInt (int (index_of (ogName_of part) (od_keys (self_optics wy))) + 1), wy)"
    and i: "optics_inv (self_optics wy)" and p: "pixel_label_ok wy"
    and k: "od_keys (self_optics wy) =
              (if ogName_of part \<in> set (od_keys (self_optics ?w)) then od_keys (self_optics ?w)
               else od_keys (self_optics ?w) @ [ogName_of part])"
    by blast
  from s g have eq: "wz = wy" "n = PInt (int (index_of (ogName_of part) (od_keys (self_optics wy))) + 1)"
    by simp_all
  have fr: "wz = ?w\<lparr>self_optics := self_optics wz\<rparr>"
    using getOpticsGroupNumber_frame[OF g] .
  have "self_postprocessImageRow wz = self_postprocessImageRow w"
    by (subst fr) simp
  then have pp: "self_postprocessImageRow w' = self_postprocessImageRow w"
    using w' by simp
  have "pixel_label_ok w'" using p eq w' by (simp add: pixel_label_ok_def)
  moreover have "optics_inv (self_optics w')" using i eq w' by simp
  moreover have "od_keys (self_optics w') =
             (if ogName_of part \<in> set (od_keys (self_optics w)) then od_keys (self_optics w)
              else od_keys (self_optics w) @ [ogName_of part])"
    using k eq w' by simp
  moreover have "od_get row' ''rlnOpticsGroup''
             = Some (PInt (int (index_of (ogName_of part) (od_keys (self_optics w'))) + 1))"
    using r eq w' by (simp add: od_get_od_set)
  ultimately show ?thesis using pp by blast
qed

lemma micToRow_optics:
  assumes run: "Writer_micToRow ext w mic row = Inr (row', w')"
      and inv: "optics_inv (self_optics w)" and pl: "pixel_label_ok w"
  shows "optics_inv (self_optics w') \<and> pixel_label_ok w'
       \<and> self_postprocessImageRow w' = self_postprocessImageRow w
       \<and> od_keys (self_optics w') =
             (if ogName_of mic \<in> set (od_keys (self_optics w)) then od_keys (self_optics w)
              else od_keys (self_optics w) @ [ogName_of mic])
       \<and> od_get row' ''rlnOpticsGroup''
             = Some (PInt (int (index_of (ogName_of mic) (od_keys (self_optics w'))) + 1))"
proof -
  from run obtain row2 n where
    g: "Writer_getOpticsGroupNumber w mic = Inr (n, w')"
    and r: "row' = od_set ''rlnOpticsGroup'' n row2"
    unfolding Writer_micToRow_def Let_def
    by (auto simp: bind_err_Inr)
  from optics_inv_step[OF inv pl, of mic] obtain wy where
    s: "Writer_getOpticsGroupNumber w mic =
          Inr (PInt (int (index_of (ogName_of mic) (od_keys (self_optics wy))) + 1), wy)"
    and i: "optics_inv (self_optics wy)" and p: "pixel_label_ok wy"
    and k: "od_keys (self_optics wy) =
              (if ogName_of mic \<in> set (od_keys (self_optics w)) then od_keys (self_optics w)
               else od_keys (self_optics w) @ [ogName_of mic])"
    by blast
  from s g have eq: "w' = wy" "n = PInt (int (index_of (ogName_of mic) (od_keys (self_optics wy))) + 1)"
    by simp_all
  have fr: "w' = w\<lparr>self_optics := self_optics w'\<rparr>"
    using getOpticsGroupNumber_frame[OF g] .
  have pp: "self_postprocessImageRow w' = self_postprocessImageRow w"
    by (subst fr) simp
  have "od_get row' ''rlnOpticsGroup''
             = Some (PInt (int (index_of (ogName_of mic) (od_keys (self_optics w'))) + 1))"
    using r eq by (simp add: od_get_od_set)
  then show ?thesis using i p k eq pp by simp
qed

lemma first_seen_member: "x \<in> set acc \<Longrightarrow> x \<in> set (first_seen acc xs)"
  using first_seen_mono[of acc xs] by blast

lemma write_particle_rows_optics:
  assumes "write_particle_rows ext w r parts = Inr (out, r', w')"
      and "optics_inv (self_optics w)" and "pixel_label_ok w"
      and "self_postprocessImageRow w = None"
  shows "\<exists>rows. out = map (\<lambda>row. RowValues (od_values row)) rows
          \<and> length rows = length parts
          \<and> optics_inv (self_optics w') \<and> pixel_label_ok w'
          \<and> od_keys (self_optics w') = first_seen (od_keys (self_optics w)) (map ogName_of parts)
          \<and> (\<forall>i < length parts.
                od_get (rows ! i) ''rlnOpticsGroup''
                  = Some (PInt (int (index_of (ogName_of (parts ! i)) (od_keys (self_optics w'))) + 1)))"
  using assms
proof (induction parts arbitrary: w r out)
  case Nil
  then show ?case by simp
next
  case (Cons part parts)
  from Cons.prems(1) obtain row w1 where
    a: "Writer_partToRow ext w part r = Inr (row, w1)"
    by (auto simp: bind_err_Inr)
  note p1 = partToRow_optics[OF a Cons.prems(2,3)]
  have pp1: "self_postprocessImageRow w1 = None" using p1 Cons.prems(4) by simp
  have post: "postprocess w1 part row = row" using pp1 by (simp add: postprocess_def)
  from Cons.prems(1) a post obtain out1 where
    b: "write_particle_rows ext w1 row parts = Inr (out1, r', w')"
    and c: "out = RowValues (od_values row) # out1"
    by (auto simp: bind_err_Inr Let_def)
  from p1 have i1: "optics_inv (self_optics w1)" and l1: "pixel_label_ok w1" by simp_all
  from Cons.IH[OF b i1 l1 pp1] obtain rows where
    o: "out1 = map (\<lambda>row. RowValues (od_values row)) rows"
    and len: "length rows = length parts"
    and i2: "optics_inv (self_optics w')" and l2: "pixel_label_ok w'"
    and k2: "od_keys (self_optics w') = first_seen (od_keys (self_optics w1)) (map ogName_of parts)"
    and ids: "\<forall>i < length parts.
                od_get (rows ! i) ''rlnOpticsGroup''
                  = Some (PInt (int (index_of (ogName_of (parts ! i)) (od_keys (self_optics w'))) + 1))"
    by blast
  have k1: "od_keys (self_optics w1) =
             (if ogName_of part \<in> set (od_keys (self_optics w)) then od_keys (self_optics w)
              else od_keys (self_optics w) @ [ogName_of part])"
    using p1 by simp
  have mem: "ogName_of part \<in> set (od_keys (self_optics w1))" using k1 by auto
  have idx: "index_of (ogName_of part) (od_keys (self_optics w'))
               = index_of (ogName_of part) (od_keys (self_optics w1))"
    using k2 index_of_first_seen[OF mem] by simp
  have id0: "od_get row ''rlnOpticsGroup''
               = Some (PInt (int (index_of (ogName_of part) (od_keys (self_optics w'))) + 1))"
    using p1 idx by simp
  have k: "od_keys (self_optics w') = first_seen (od_keys (self_optics w)) (map ogName_of (part # parts))"
    using k1 k2 by simp
  have all: "\<forall>i < length (part # parts).
                od_get ((row # rows) ! i) ''rlnOpticsGroup''
                  = Some (PInt (int (index_of (ogName_of ((part # parts) ! i)) (od_keys (self_optics w'))) + 1))"
  proof (intro allI impI)
    fix i assume "i < length (part # parts)"
    then show "od_get ((row # rows) ! i) ''rlnOpticsGroup''
                  = Some (PInt (int (index_of (ogName_of ((part # parts) ! i)) (od_keys (self_optics w'))) + 1))"
      using id0 ids by (cases i) simp_all
  qed
  show ?case
    apply (rule exI[of _ "row # rows"])
    using c o len i2 l2 k all by simp
qed

lemma add_mic_rows_optics:
  assumes "add_mic_rows ext w l r t mics = Inr (t', w')"
      and "optics_inv (self_optics w)" and "pixel_label_ok w"
      and "self_postprocessImageRow w = None"
  shows "\<exists>rows. getRows t' = getRows t @ rows
          \<and> length rows = length mics
          \<and> optics_inv (self_optics w') \<and> pixel_label_ok w'
          \<and> od_keys (self_optics w') = first_seen (od_keys (self_optics w)) (map ogName_of mics)
          \<and> (\<forall>i < length mics.
                od_get (rows ! i) ''rlnOpticsGroup''
                  = Some (PInt (int (index_of (ogName_of (mics ! i)) (od_keys (self_optics w'))) + 1)))"
  using assms
proof (induction mics arbitrary: w r t)
  case Nil
  then show ?case by simp
next
  case (Cons mic mics)
  from Cons.prems(1) obtain row w1 where
    a: "Writer_micToRow ext w mic (od_set l (WriterBase_convert ext mic) r) = Inr (row, w1)"
    by (auto simp: bind_err_Inr Let_def)
  note p1 = micToRow_optics[OF a Cons.prems(2,3)]
  have pp1: "self_postprocessImageRow w1 = None" using p1 Cons.prems(4) by simp
  have post: "postprocess w1 mic row = row" using pp1 by (simp add: postprocess_def)
  from Cons.prems(1) a post obtain t1 where
    b: "addRow t row = Inr t1"
    and c: "add_mic_rows ext w1 l row t1 mics = Inr (t', w')"
    by (auto simp: bind_err_Inr Let_def)
  from p1 have i1: "optics_inv (self_optics w1)" and l1: "pixel_label_ok w1" by simp_all
  from Cons.IH[OF c i1 l1 pp1] obtain rows where
    o: "getRows t' = getRows t1 @ rows"
    and len: "length rows = length mics"
    and i2: "optics_inv (self_optics w')" and l2: "pixel_label_ok w'"
    and k2: "od_keys (self_optics w') = first_seen (od_keys (self_optics w1)) (map ogName_of mics)"
    and ids: "\<forall>i < length mics.
                od_get (rows ! i) ''rlnOpticsGroup''
                  = Some (PInt (int (index_of (ogName_of (mics ! i)) (od_keys (self_optics w'))) + 1))"
    by blast
  have t1: "getRows t1 = getRows t @ [row]" using addRow_Inr[OF b] by simp
  have k1: "od_keys (self_optics w1) =
             (if ogName_of mic \<in> set (od_keys (self_optics w)) then od_keys (self_optics w)
              else od_keys (self_optics w) @ [ogName_of mic])"
    using p1 by simp
  have mem: "ogName_of mic \<in> set (od_keys (self_optics w1))" using k1 by auto
  have idx: "index_of (ogName_of mic) (od_keys (self_optics w'))
               = index_of (ogName_of mic) (od_keys (self_optics w1))"
    using k2 index_of_first_seen[OF mem] by simp
  have id0: "od_get row ''rlnOpticsGroup''
               = Some (PInt (int (index_of (ogName_of mic) (od_keys (self_optics w'))) + 1))"
    using p1 idx by simp
  have k: "od_keys (self_optics w') = first_seen (od_keys (self_optics w)) (map ogName_of (mic # mics))"
    using k1 k2 by simp
  have all: "\<forall>i < length (mic # mics).
                od_get ((row # rows) ! i) ''rlnOpticsGroup''
                  = Some (PInt (int (index_of (ogName_of ((mic # mics) ! i)) (od_keys (self_optics w'))) + 1))"
  proof (intro allI impI)
    fix i assume "i < length (mic # mics)"
    then show "od_get ((row # rows) ! i) ''rlnOpticsGroup''
                  = Some (PInt (int (index_of (ogName_of ((mic # mics) ! i)) (od_keys (self_optics w'))) + 1))"
      using id0 ids by (cases i) simp_all
  qed
  show ?case
    apply (rule exI[of _ "row # rows"])
    using o t1 len i2 l2 k all by simp
qed


lemma binaries_step:
  assumes "(case od of
              None \<Rightarrow> Inr w3
            | Some outputDir \<Rightarrow>
                bind_err (m outputDir) (\<lambda>(d, fs). Inr (w3\<lparr>self_filesDict := d, self_fs := fs\<rparr>)))
           = Inr w4"
  shows "\<exists>d fs. w4 = w3\<lparr>self_filesDict := d, self_fs := fs\<rparr>"
proof (cases od)
  case None
  with assms have "w4 = w3" by simp
  then have "w4 = w3\<lparr>self_filesDict := self_filesDict w3, self_fs := self_fs w3\<rparr>" by simp
  then show ?thesis by blast
next
  case (Some a)
  with assms show ?thesis by (auto simp: bind_err_Inr)
qed

lemma particles_pass:
  assumes "Writer_writeSetOfParticles ext w partsSet starFile kw = Inr (out, w')"
  shows "\<exists>first rest w6 row w7 rows r opticsTable.
     items partsSet = first # rest
   \<and> Writer_partToRow ext w6 (first\<lparr>getAcquisition := set_getAcquisition partsSet\<rparr>) []
         = Inr (row, w7)
   \<and> write_particle_rows ext w7
         (postprocess w7 (first\<lparr>getAcquisition := set_getAcquisition partsSet\<rparr>) row)
         (items partsSet) = Inr (rows, r, w')
   \<and> out = [Text ''# Star file generated with Scipion\<newline>'',
             Text ''# version 30001\<newline>'',
             TableName ''particles'',
             Header (od_keys (postprocess w7
                       (first\<lparr>getAcquisition := set_getAcquisition partsSet\<rparr>) row))] @
            rows @ [Text ''\<newline># version 30001\<newline>''] @ writeStar opticsTable ''optics''
   \<and> getRows opticsTable = od_values (self_optics w')
   \<and> self_optics w6 = []
   \<and> self_imgLabelPixelSize w6
        = self_imgLabelPixelSize
            (WriterBase_update ext kw (w\<lparr>self_imgLabelPixelSize := ''rlnImagePixelSize''\<rparr>))
   \<and> self_postprocessImageRow w6 = kw_postprocessImageRow kw"
  using assms unfolding Writer_writeSetOfParticles_def
  apply (clarsimp simp: bind_err_Inr Let_def createTableFromDict_def
           simp del: write_particle_rows.simps split: list.splits
           dest!: addRows_Inr addRow_Inr first_optics_table_Inr binaries_step)
  apply (intro exI conjI, assumption, assumption, simp_all)
  done


lemma mics_pass:
  assumes "Writer_writeSetOfMoviesOrMics ext w imgIterable starFile tableName imgLabelName kw
             = Inr (out, w')"
  shows "\<exists>mic rest w2 row w3 micsTable opticsTable.
     imgIterable = mic # rest
   \<and> Writer_micToRow ext w2 mic [(imgLabelName, PStr [])] = Inr (row, w3)
   \<and> add_mic_rows ext w3 imgLabelName (postprocess w3 mic row)
         \<lparr>getColumns = od_keys (postprocess w3 mic row), getRows = []\<rparr> imgIterable
         = Inr (micsTable, w')
   \<and> out = [Text ''# Star file generated with Scipion\<newline>'',
             Text ''# version 30001\<newline>''] @ writeStar opticsTable ''optics'' @
            [Text ''# version 30001\<newline>''] @ writeStar micsTable tableName
   \<and> getRows opticsTable = od_values (self_optics w')
   \<and> self_optics w2 = []
   \<and> self_imgLabelPixelSize w2 = ''rlnMicrographPixelSize''
   \<and> self_postprocessImageRow w2 = kw_postprocessImageRow kw"
  using assms unfolding Writer_writeSetOfMoviesOrMics_def
  apply (clarsimp simp: bind_err_Inr Let_def createTableFromDict_def
           simp del: add_mic_rows.simps split: list.splits
           dest!: addRows_Inr first_optics_table_Inr)
  apply (intro exI conjI, assumption, assumption, simp_all)
  done

lemma particles_pass_optics:
  assumes run: "Writer_writeSetOfParticles ext w partsSet starFile kw = Inr (out, w')"
      and np: "kw_postprocessImageRow kw = None"
      and pl: "pixel_label_ok (WriterBase_update ext kw
                 (w\<lparr>self_imgLabelPixelSize := ''rlnImagePixelSize''\<rparr>))"
  shows "\<exists>cols rows opticsTable.
      out = [Text ''# Star file generated with Scipion\<newline>'',
             Text ''# version 30001\<newline>'',
             TableName ''particles'', Header cols] @
            map (\<lambda>row. RowValues (od_values row)) rows @
            [Text ''\<newline># version 30001\<newline>''] @ writeStar opticsTable ''optics''
    \<and> getRows opticsTable = od_values (self_optics w')
    \<and> length rows = length (items partsSet)
    \<and> od_keys (self_optics w')
         = first_seen [] (ogName_of (particle_seed partsSet) # map ogName_of (items partsSet))
    \<and> (\<forall>i < length (self_optics w').
          od_get (snd (self_optics w' ! i)) ''rlnOpticsGroup'' = Some (PInt (int i + 1)))
    \<and> (\<forall>i < length (items partsSet).
          od_get (rows ! i) ''rlnOpticsGroup''
            = Some (PInt (int (index_of (ogName_of (items partsSet ! i))
                                 (od_keys (self_optics w'))) + 1)))"
proof -
  from particles_pass[OF run] obtain first rest w6 row w7 rws r opticsTable where
    it: "items partsSet = first # rest"
    and s: "Writer_partToRow ext w6 (first\<lparr>getAcquisition := set_getAcquisition partsSet\<rparr>) []
              = Inr (row, w7)"
    and l: "write_particle_rows ext w7
              (postprocess w7 (first\<lparr>getAcquisition := set_getAcquisition partsSet\<rparr>) row)
              (items partsSet) = Inr (rws, r, w')"
    and o: "out = [Text ''# Star file generated with Scipion\<newline>'',
             Text ''# version 30001\<newline>'',
             TableName ''particles'',
             Header (od_keys (postprocess w7
                       (first\<lparr>getAcquisition := set_getAcquisition partsSet\<rparr>) row))] @
            rws @ [Text ''\<newline># version 30001\<newline>''] @ writeStar opticsTable ''optics''"
    and g: "getRows opticsTable = od_values (self_optics w')"
    and e: "self_optics w6 = []"
    and lab: "self_imgLabelPixelSize w6
        = self_imgLabelPixelSize
            (WriterBase_update ext kw (w\<lparr>self_imgLabelPixelSize := ''rlnImagePixelSize''\<rparr>))"
    and pp: "self_postprocessImageRow w6 = kw_postprocessImageRow kw"
    by blast
  have seed: "particle_seed partsSet = first\<lparr>getAcquisition := set_getAcquisition partsSet\<rparr>"
    using it by (simp add: particle_seed_def)
  have i6: "optics_inv (self_optics w6)" using e by (simp add: optics_inv_Nil)
  have l6: "pixel_label_ok w6" using pl lab by (simp add: pixel_label_ok_def)
  note p7 = partToRow_optics[OF s i6 l6]
  have i7: "optics_inv (self_optics w7)" and l7: "pixel_label_ok w7"
    and pp7: "self_postprocessImageRow w7 = None"
    and k7: "od_keys (self_optics w7) = [ogName_of (particle_seed partsSet)]"
    using p7 e pp np seed by (simp_all add: od_keys_def)
  from write_particle_rows_optics[OF l i7 l7 pp7] obtain rows where
    r1: "rws = map (\<lambda>row. RowValues (od_values row)) rows"
    and r2: "length rows = length (items partsSet)"
    and r3: "optics_inv (self_optics w')"
    and r4: "od_keys (self_optics w') = first_seen (od_keys (self_optics w7)) (map ogName_of (items partsSet))"
    and r5: "\<forall>i < length (items partsSet).
          od_get (rows ! i) ''rlnOpticsGroup''
            = Some (PInt (int (index_of (ogName_of (items partsSet ! i))
                                 (od_keys (self_optics w'))) + 1))"
    by blast
  have k: "od_keys (self_optics w')
         = first_seen [] (ogName_of (particle_seed partsSet) # map ogName_of (items partsSet))"
    using r4 k7 by simp
  have ids: "\<forall>i < length (self_optics w').
          od_get (snd (self_optics w' ! i)) ''rlnOpticsGroup'' = Some (PInt (int i + 1))"
    using r3 by (simp add: optics_inv_def)
  show ?thesis
    apply (intro exI conjI)
         apply (rule o[unfolded r1])
    using g r2 k ids r5 by simp_all
qed

lemma mics_pass_optics:
  assumes run: "Writer_writeSetOfMoviesOrMics ext w imgIterable starFile tableName imgLabelName kw
                  = Inr (out, w')"
      and np: "kw_postprocessImageRow kw = None"
  shows "\<exists>opticsTable micsTable.
      out = [Text ''# Star file generated with Scipion\<newline>'',
             Text ''# version 30001\<newline>''] @ writeStar opticsTable ''optics'' @
            [Text ''# version 30001\<newline>''] @ writeStar micsTable tableName
    \<and> getRows opticsTable = od_values (self_optics w')
    \<and> length (getRows micsTable) = length imgIterable
    \<and> od_keys (self_optics w') = first_seen [] (map ogName_of imgIterable)
    \<and> (\<forall>i < length (self_optics w').
          od_get (snd (self_optics w' ! i)) ''rlnOpticsGroup'' = Some (PInt (int i + 1)))
    \<and> (\<forall>i < length imgIterable.
          od_get (getRows micsTable ! i) ''rlnOpticsGroup''
            = Some (PInt (int (index_of (ogName_of (imgIterable ! i))
                                 (od_keys (self_optics w'))) + 1)))"
proof -
  from mics_pass[OF run] obtain mic rest w2 row w3 micsTable opticsTable where
    it: "imgIterable = mic # rest"
    and s: "Writer_micToRow ext w2 mic [(imgLabelName, PStr [])] = Inr (row, w3)"
    and l: "add_mic_rows ext w3 imgLabelName (postprocess w3 mic row)
         \<lparr>getColumns = od_keys (postprocess w3 mic row), getRows = []\<rparr> imgIterable
         = Inr (micsTable, w')"
    and o: "out = [Text ''# Star file generated with Scipion\<newline>'',
             Text ''# version 30001\<newline>''] @ writeStar opticsTable ''optics'' @
            [Text ''# version 30001\<newline>''] @ writeStar micsTable tableName"
    and g: "getRows opticsTable = od_values (self_optics w')"
    and e: "self_optics w2 = []"
    and lab: "self_imgLabelPixelSize w2 = ''rlnMicrographPixelSize''"
    and pp: "self_postprocessImageRow w2 = kw_postprocessImageRow kw"
    by blast
  have i2: "optics_inv (self_optics w2)" using e by (simp add: optics_inv_Nil)
  have l2: "pixel_label_ok w2" using lab by (simp add: pixel_label_ok_def)
  note p3 = micToRow_optics[OF s i2 l2]
  have i3: "optics_inv (self_optics w3)" and l3: "pixel_label_ok w3"
    and pp3: "self_postprocessImageRow w3 = None"
    and k3: "od_keys (self_optics w3) = [ogName_of mic]"
    using p3 e pp np by (simp_all add: od_keys_def)
  from add_mic_rows_optics[OF l i3 l3 pp3] obtain rows where
    r1: "getRows micsTable = rows"
    and r2: "length rows = length imgIterable"
    and r3: "optics_inv (self_optics w')"
    and r4: "od_keys (self_optics w') = first_seen (od_keys (self_optics w3)) (map ogName_of imgIterable)"
    and r5: "\<forall>i < length imgIterable.
          od_get (rows ! i) ''rlnOpticsGroup''
            = Some (PInt (int (index_of (ogName_of (imgIterable ! i))
                                 (od_keys (self_optics w'))) + 1))"
    by auto
  have k: "od_keys (self_optics w') = first_seen [] (map ogName_of imgIterable)"
    using r4 k3 it by simp
  have ids: "\<forall>i < length (self_optics w').
          od_get (snd (self_optics w' ! i)) ''rlnOpticsGroup'' = Some (PInt (int i + 1))"
    using r3 by (simp add: optics_inv_def)
  show ?thesis
    apply (intro exI conjI)
         apply (rule o)
    using g r1 r2 k ids r5 by simp_all
qed

lemma example_og2_written:
  "\<not> isl (Writer_writeSetOfParticles example_externals example_writer example_set_og2
             ''particles.star'' example_kwargs)"
  by (simp add: Writer_writeSetOfParticles_def example_externals_def example_writer_def
        example_set_og2_def example_kwargs_def example_particle_def example_particle_og2_def
        example_acquisition_def example_filesys_def bind_err_def Let_def is_set_def
        setAlign_of_def Writer_partToRow_def coordToRow_def locationToRelion_def
        Writer_setAttributes_def py_str_list_def py_repr_str_def py_repr_char_def
        Writer_getOpticsGroupNumber_def ogName_of_def of_str_def of_float_def py_or_def
        truthy_def od_keys_def od_get_def od_values_def new_optics_entry_def od_of_list_def
        postprocess_def first_optics_table_def createTableFromDict_def addRow_def)

lemma example_og2_mics_written:
  "\<not> isl (Writer_writeSetOfMoviesOrMics example_externals example_writer
             [example_particle_og2, example_particle, example_particle_og2] ''micrographs.star''
             ''micrographs'' ''rlnMicrographName'' example_kwargs)"
  by (simp add: Writer_writeSetOfMoviesOrMics_def example_externals_def example_writer_def
        example_kwargs_def example_particle_def example_particle_og2_def
        example_acquisition_def example_filesys_def bind_err_def Let_def
        Writer_micToRow_def
        Writer_setAttributes_def py_str_list_def py_repr_str_def py_repr_char_def
        Writer_getOpticsGroupNumber_def ogName_of_def of_str_def of_float_def py_or_def
        truthy_def od_keys_def od_get_def od_values_def new_optics_entry_def od_of_list_def
        postprocess_def first_optics_table_def createTableFromDict_def addRow_def)

lemma example_pass_ok [simp]:
  "kw_postprocessImageRow example_kwargs = None"
  "pixel_label_ok (WriterBase_update example_externals example_kwargs
     (example_writer\<lparr>self_imgLabelPixelSize := ''rlnImagePixelSize''\<rparr>))"
  by (simp_all add: example_kwargs_def example_externals_def pixel_label_ok_def)

lemma particle_seed_example [simp]:
  "ogName_of (particle_seed example_set_og2) = ''DefaultOpticsGroup''"
  "ogName_of (particle_seed example_set) = ''DefaultOpticsGroup''"
  "items example_set_og2 = [example_particle_og2, example_particle_og2, example_particle_og2]"
  "items example_set = [example_particle, example_particle_200kV]"
  by (simp_all add: particle_seed_def example_set_og2_def example_set_def ogName_of_def
        example_acquisition_def of_str_def py_or_def truthy_def)

lemma same_name_same_index:
  assumes "\<forall>i < n. od_get (rows ! i) k = Some (PInt (int (index_of (nm (xs ! i)) ks) + 1))"
      and "i < n" and "j < n" and "nm (xs ! i) = nm (xs ! j)"
  shows "od_get (rows ! i) k = od_get (rows ! j) k"
  using assms by simp

lemma fingerprint_name: "fingerprint a = fingerprint b \<Longrightarrow> ogName_of a = ogName_of b"
  by (simp add: fingerprint_def ogName_of_def)

lemma first_seen_const:
  "xs \<noteq> [] \<Longrightarrow> \<forall>x \<in> set xs. f x = g \<Longrightarrow> first_seen [] (map f xs) = [g]"
  by (rule first_seen_all_same) auto

lemma first_seen_const_seed:
  "\<forall>x \<in> set xs. f x = g \<Longrightarrow> first_seen [] (g # map f xs) = [g]"
  by (rule first_seen_all_same) auto

lemma one_key: "od_keys d = [g] \<Longrightarrow> length d = 1"
  by (auto simp: od_keys_def)

text \<open>
  Claim C4, as amended. The optics groups of a pass are keyed by the group name of the
  records alone (the default name standing for an absent or empty one). When
  \<^verbatim>\<open>writeSetOfParticles\<close> returns, without a callback on the rows, the names of the optics
  table are the distinct names, in the order of their first appearance, of the first
  particle under the acquisition of the set followed by all the particles; the entry at
  position \<open>i\<close> holds the number \<open>i + 1\<close>; the file has one line of values for each
  particle, and the line of a particle holds the number of the entry of its name. So
  particles with one fingerprint are on lines with one number, and there is one entry
  when every particle has the name that the first particle has under the acquisition of
  the set. When \<^verbatim>\<open>_writeSetOfMoviesOrMics\<close> returns, the same holds with the names of the
  records alone, and records that all share the fingerprint of the first record give one
  entry.
\<close>

theorem optics_groups_of_write_pass:
  "(Writer_writeSetOfParticles ext w partsSet starFile kw = Inr (out, w')
      \<and> kw_postprocessImageRow kw = None
      \<and> pixel_label_ok (WriterBase_update ext kw
           (w\<lparr>self_imgLabelPixelSize := ''rlnImagePixelSize''\<rparr>))
    \<longrightarrow> (\<exists>cols rows opticsTable.
        out = [Text ''# Star file generated with Scipion\<newline>'',
               Text ''# version 30001\<newline>'',
               TableName ''particles'', Header cols] @
              map (\<lambda>row. RowValues (od_values row)) rows @
              [Text ''\<newline># version 30001\<newline>''] @ writeStar opticsTable ''optics''
      \<and> getRows opticsTable = od_values (self_optics w')
      \<and> length rows = length (items partsSet)
      \<and> od_keys (self_optics w')
           = first_seen [] (ogName_of (particle_seed partsSet) # map ogName_of (items partsSet))
      \<and> (\<forall>i < length (self_optics w').
            od_get (snd (self_optics w' ! i)) ''rlnOpticsGroup'' = Some (PInt (int i + 1)))
      \<and> (\<forall>i < length (items partsSet).
            od_get (rows ! i) ''rlnOpticsGroup''
              = Some (PInt (int (index_of (ogName_of (items partsSet ! i))
                                   (od_keys (self_optics w'))) + 1)))
      \<and> (\<forall>i < length (items partsSet). \<forall>j < length (items partsSet).
            fingerprint (items partsSet ! i) = fingerprint (items partsSet ! j) \<longrightarrow>
            od_get (rows ! i) ''rlnOpticsGroup'' = od_get (rows ! j) ''rlnOpticsGroup'')
      \<and> ((\<forall>p \<in> set (items partsSet). ogName_of p = ogName_of (particle_seed partsSet)) \<longrightarrow>
            length (self_optics w') = 1)))
   \<and> (Writer_writeSetOfMoviesOrMics ext mw imgIterable micStarFile tableName imgLabelName mkw
         = Inr (mout, mw')
      \<and> kw_postprocessImageRow mkw = None
    \<longrightarrow> (\<exists>opticsTable micsTable.
        mout = [Text ''# Star file generated with Scipion\<newline>'',
                Text ''# version 30001\<newline>''] @ writeStar opticsTable ''optics'' @
               [Text ''# version 30001\<newline>''] @ writeStar micsTable tableName
      \<and> getRows opticsTable = od_values (self_optics mw')
      \<and> length (getRows micsTable) = length imgIterable
      \<and> od_keys (self_optics mw') = first_seen [] (map ogName_of imgIterable)
      \<and> (\<forall>i < length (self_optics mw').
            od_get (snd (self_optics mw' ! i)) ''rlnOpticsGroup'' = Some (PInt (int i + 1)))
      \<and> (\<forall>i < length imgIterable.
            od_get (getRows micsTable ! i) ''rlnOpticsGroup''
              = Some (PInt (int (index_of (ogName_of (imgIterable ! i))
                                   (od_keys (self_optics mw'))) + 1)))
      \<and> (\<forall>i < length imgIterable. \<forall>j < length imgIterable.
            fingerprint (imgIterable ! i) = fingerprint (imgIterable ! j) \<longrightarrow>
            od_get (getRows micsTable ! i) ''rlnOpticsGroup''
              = od_get (getRows micsTable ! j) ''rlnOpticsGroup'')
      \<and> ((\<forall>m \<in> set imgIterable. fingerprint m = fingerprint (hd imgIterable)) \<longrightarrow>
            length (self_optics mw') = 1)))"
proof (intro conjI impI)
  assume h: "Writer_writeSetOfParticles ext w partsSet starFile kw = Inr (out, w')
      \<and> kw_postprocessImageRow kw = None
      \<and> pixel_label_ok (WriterBase_update ext kw
           (w\<lparr>self_imgLabelPixelSize := ''rlnImagePixelSize''\<rparr>))"
  from h have h1: "Writer_writeSetOfParticles ext w partsSet starFile kw = Inr (out, w')"
    and h2: "kw_postprocessImageRow kw = None"
    and h3: "pixel_label_ok (WriterBase_update ext kw
           (w\<lparr>self_imgLabelPixelSize := ''rlnImagePixelSize''\<rparr>))"
    by simp_all
  from particles_pass_optics[OF h1 h2 h3]
  obtain cols rows opticsTable where
    o: "out = [Text ''# Star file generated with Scipion\<newline>'',
               Text ''# version 30001\<newline>'',
               TableName ''particles'', Header cols] @
              map (\<lambda>row. RowValues (od_values row)) rows @
              [Text ''\<newline># version 30001\<newline>''] @ writeStar opticsTable ''optics''"
    and g: "getRows opticsTable = od_values (self_optics w')"
    and n: "length rows = length (items partsSet)"
    and k: "od_keys (self_optics w')
           = first_seen [] (ogName_of (particle_seed partsSet) # map ogName_of (items partsSet))"
    and ids: "\<forall>i < length (self_optics w').
            od_get (snd (self_optics w' ! i)) ''rlnOpticsGroup'' = Some (PInt (int i + 1))"
    and r: "\<forall>i < length (items partsSet).
            od_get (rows ! i) ''rlnOpticsGroup''
              = Some (PInt (int (index_of (ogName_of (items partsSet ! i))
                                   (od_keys (self_optics w'))) + 1))"
    by blast
  have f: "\<forall>i < length (items partsSet). \<forall>j < length (items partsSet).
            fingerprint (items partsSet ! i) = fingerprint (items partsSet ! j) \<longrightarrow>
            od_get (rows ! i) ''rlnOpticsGroup'' = od_get (rows ! j) ''rlnOpticsGroup''"
  proof (intro allI impI)
    fix i j
    assume i: "i < length (items partsSet)" and j: "j < length (items partsSet)"
      and e: "fingerprint (items partsSet ! i) = fingerprint (items partsSet ! j)"
    from fingerprint_name[OF e]
    have "ogName_of (items partsSet ! i) = ogName_of (items partsSet ! j)" .
    from same_name_same_index[of "length (items partsSet)" rows "''rlnOpticsGroup''"
           ogName_of "items partsSet" "od_keys (self_optics w')" i j, OF r i j this]
    show "od_get (rows ! i) ''rlnOpticsGroup'' = od_get (rows ! j) ''rlnOpticsGroup''" .
  qed
  have one: "(\<forall>p \<in> set (items partsSet). ogName_of p = ogName_of (particle_seed partsSet)) \<longrightarrow>
            length (self_optics w') = 1"
  proof
    assume a: "\<forall>p \<in> set (items partsSet). ogName_of p = ogName_of (particle_seed partsSet)"
    have "od_keys (self_optics w') = [ogName_of (particle_seed partsSet)]"
      by (rule trans[OF k first_seen_const_seed[OF a]])
    then show "length (self_optics w') = 1" by (rule one_key)
  qed
  show "\<exists>cols rows opticsTable.
        out = [Text ''# Star file generated with Scipion\<newline>'',
               Text ''# version 30001\<newline>'',
               TableName ''particles'', Header cols] @
              map (\<lambda>row. RowValues (od_values row)) rows @
              [Text ''\<newline># version 30001\<newline>''] @ writeStar opticsTable ''optics''
      \<and> getRows opticsTable = od_values (self_optics w')
      \<and> length rows = length (items partsSet)
      \<and> od_keys (self_optics w')
           = first_seen [] (ogName_of (particle_seed partsSet) # map ogName_of (items partsSet))
      \<and> (\<forall>i < length (self_optics w').
            od_get (snd (self_optics w' ! i)) ''rlnOpticsGroup'' = Some (PInt (int i + 1)))
      \<and> (\<forall>i < length (items partsSet).
            od_get (rows ! i) ''rlnOpticsGroup''
              = Some (PInt (int (index_of (ogName_of (items partsSet ! i))
                                   (od_keys (self_optics w'))) + 1)))
      \<and> (\<forall>i < length (items partsSet). \<forall>j < length (items partsSet).
            fingerprint (items partsSet ! i) = fingerprint (items partsSet ! j) \<longrightarrow>
            od_get (rows ! i) ''rlnOpticsGroup'' = od_get (rows ! j) ''rlnOpticsGroup'')
      \<and> ((\<forall>p \<in> set (items partsSet). ogName_of p = ogName_of (particle_seed partsSet)) \<longrightarrow>
            length (self_optics w') = 1)"
    apply (rule exI[of _ cols], rule exI[of _ rows], rule exI[of _ opticsTable])
    apply (intro conjI)
    apply (rule o, rule g, rule n, rule k, rule ids, rule r, rule f, rule one)
    done
next
  assume h: "Writer_writeSetOfMoviesOrMics ext mw imgIterable micStarFile tableName imgLabelName mkw
         = Inr (mout, mw')
      \<and> kw_postprocessImageRow mkw = None"
  from h have h1: "Writer_writeSetOfMoviesOrMics ext mw imgIterable micStarFile tableName
         imgLabelName mkw = Inr (mout, mw')"
    and h2: "kw_postprocessImageRow mkw = None"
    by simp_all
  from mics_pass_optics[OF h1 h2]
  obtain opticsTable micsTable where
    o: "mout = [Text ''# Star file generated with Scipion\<newline>'',
                Text ''# version 30001\<newline>''] @ writeStar opticsTable ''optics'' @
               [Text ''# version 30001\<newline>''] @ writeStar micsTable tableName"
    and g: "getRows opticsTable = od_values (self_optics mw')"
    and n: "length (getRows micsTable) = length imgIterable"
    and k: "od_keys (self_optics mw') = first_seen [] (map ogName_of imgIterable)"
    and ids: "\<forall>i < length (self_optics mw').
            od_get (snd (self_optics mw' ! i)) ''rlnOpticsGroup'' = Some (PInt (int i + 1))"
    and r: "\<forall>i < length imgIterable.
            od_get (getRows micsTable ! i) ''rlnOpticsGroup''
              = Some (PInt (int (index_of (ogName_of (imgIterable ! i))
                                   (od_keys (self_optics mw'))) + 1))"
    by blast
  have ne: "imgIterable \<noteq> []"
    using mics_pass[OF h1] by blast
  have f: "\<forall>i < length imgIterable. \<forall>j < length imgIterable.
            fingerprint (imgIterable ! i) = fingerprint (imgIterable ! j) \<longrightarrow>
            od_get (getRows micsTable ! i) ''rlnOpticsGroup''
              = od_get (getRows micsTable ! j) ''rlnOpticsGroup''"
  proof (intro allI impI)
    fix i j
    assume i: "i < length imgIterable" and j: "j < length imgIterable"
      and e: "fingerprint (imgIterable ! i) = fingerprint (imgIterable ! j)"
    from fingerprint_name[OF e]
    have "ogName_of (imgIterable ! i) = ogName_of (imgIterable ! j)" .
    from same_name_same_index[of "length imgIterable" "getRows micsTable" "''rlnOpticsGroup''"
           ogName_of imgIterable "od_keys (self_optics mw')" i j, OF r i j this]
    show "od_get (getRows micsTable ! i) ''rlnOpticsGroup''
              = od_get (getRows micsTable ! j) ''rlnOpticsGroup''" .
  qed
  have one: "(\<forall>m \<in> set imgIterable. fingerprint m = fingerprint (hd imgIterable)) \<longrightarrow>
            length (self_optics mw') = 1"
  proof
    assume a: "\<forall>m \<in> set imgIterable. fingerprint m = fingerprint (hd imgIterable)"
    have b: "\<forall>m \<in> set imgIterable. ogName_of m = ogName_of (hd imgIterable)"
    proof
      fix m assume "m \<in> set imgIterable"
      with a have "fingerprint m = fingerprint (hd imgIterable)" by blast
      then show "ogName_of m = ogName_of (hd imgIterable)" by (rule fingerprint_name)
    qed
    have "od_keys (self_optics mw') = [ogName_of (hd imgIterable)]"
      by (rule trans[OF k first_seen_const[OF ne b]])
    then show "length (self_optics mw') = 1" by (rule one_key)
  qed
  show "\<exists>opticsTable micsTable.
        mout = [Text ''# Star file generated with Scipion\<newline>'',
                Text ''# version 30001\<newline>''] @ writeStar opticsTable ''optics'' @
               [Text ''# version 30001\<newline>''] @ writeStar micsTable tableName
      \<and> getRows opticsTable = od_values (self_optics mw')
      \<and> length (getRows micsTable) = length imgIterable
      \<and> od_keys (self_optics mw') = first_seen [] (map ogName_of imgIterable)
      \<and> (\<forall>i < length (self_optics mw').
            od_get (snd (self_optics mw' ! i)) ''rlnOpticsGroup'' = Some (PInt (int i + 1)))
      \<and> (\<forall>i < length imgIterable.
            od_get (getRows micsTable ! i) ''rlnOpticsGroup''
              = Some (PInt (int (index_of (ogName_of (imgIterable ! i))
                                   (od_keys (self_optics mw'))) + 1)))
      \<and> (\<forall>i < length imgIterable. \<forall>j < length imgIterable.
            fingerprint (imgIterable ! i) = fingerprint (imgIterable ! j) \<longrightarrow>
            od_get (getRows micsTable ! i) ''rlnOpticsGroup''
              = od_get (getRows micsTable ! j) ''rlnOpticsGroup'')
      \<and> ((\<forall>m \<in> set imgIterable. fingerprint m = fingerprint (hd imgIterable)) \<longrightarrow>
            length (self_optics mw') = 1)"
    apply (rule exI[of _ opticsTable], rule exI[of _ micsTable])
    apply (intro conjI)
    apply (rule o, rule g, rule n, rule k, rule ids, rule r, rule f, rule one)
    done
qed

text \<open>
  Three particles of the group \<open>og2\<close> in a set whose acquisition names no group: the
  first conversion makes the default group, so the table has two entries and the three
  lines hold the number 2. Three micrographs of the groups \<open>og2\<close>, default and \<open>og2\<close>:
  two entries, and the numbers 1, 2, 1.
\<close>

theorem optics_groups_of_write_pass_witness:
  "(\<exists>out w' cols rows opticsTable.
      Writer_writeSetOfParticles example_externals example_writer example_set_og2
        ''particles.star'' example_kwargs = Inr (out, w')
    \<and> out = [Text ''# Star file generated with Scipion\<newline>'',
             Text ''# version 30001\<newline>'',
             TableName ''particles'', Header cols] @
            map (\<lambda>row. RowValues (od_values row)) rows @
            [Text ''\<newline># version 30001\<newline>''] @ writeStar opticsTable ''optics''
    \<and> getRows opticsTable = od_values (self_optics w')
    \<and> od_keys (self_optics w') = [''DefaultOpticsGroup'', ''og2'']
    \<and> length rows = 3
    \<and> od_get (rows ! 0) ''rlnOpticsGroup'' = Some (PInt 2)
    \<and> od_get (rows ! 1) ''rlnOpticsGroup'' = Some (PInt 2)
    \<and> od_get (rows ! 2) ''rlnOpticsGroup'' = Some (PInt 2))
   \<and> (\<exists>mout mw' opticsTable micsTable.
      Writer_writeSetOfMoviesOrMics example_externals example_writer
        [example_particle_og2, example_particle, example_particle_og2] ''micrographs.star''
        ''micrographs'' ''rlnMicrographName'' example_kwargs = Inr (mout, mw')
    \<and> mout = [Text ''# Star file generated with Scipion\<newline>'',
              Text ''# version 30001\<newline>''] @ writeStar opticsTable ''optics'' @
             [Text ''# version 30001\<newline>''] @ writeStar micsTable ''micrographs''
    \<and> getRows opticsTable = od_values (self_optics mw')
    \<and> od_keys (self_optics mw') = [''og2'', ''DefaultOpticsGroup'']
    \<and> length (getRows micsTable) = 3
    \<and> od_get (getRows micsTable ! 0) ''rlnOpticsGroup'' = Some (PInt 1)
    \<and> od_get (getRows micsTable ! 1) ''rlnOpticsGroup'' = Some (PInt 2)
    \<and> od_get (getRows micsTable ! 2) ''rlnOpticsGroup'' = Some (PInt 1))"
proof -
  obtain out w' where
    r: "Writer_writeSetOfParticles example_externals example_writer example_set_og2
             ''particles.star'' example_kwargs = Inr (out, w')"
    using example_og2_written
    by (cases "Writer_writeSetOfParticles example_externals example_writer example_set_og2
             ''particles.star'' example_kwargs") auto
  obtain mout mw' where
    m: "Writer_writeSetOfMoviesOrMics example_externals example_writer
          [example_particle_og2, example_particle, example_particle_og2] ''micrographs.star''
          ''micrographs'' ''rlnMicrographName'' example_kwargs = Inr (mout, mw')"
    using example_og2_mics_written
    by (cases "Writer_writeSetOfMoviesOrMics example_externals example_writer
          [example_particle_og2, example_particle, example_particle_og2] ''micrographs.star''
          ''micrographs'' ''rlnMicrographName'' example_kwargs") auto
  note t = optics_groups_of_write_pass [of example_externals example_writer example_set_og2
      "''particles.star''" example_kwargs out w' example_writer
      "[example_particle_og2, example_particle, example_particle_og2]" "''micrographs.star''"
      "''micrographs''" "''rlnMicrographName''" example_kwargs mout mw']
  from t r obtain cols rows opticsTable where
    o: "out = [Text ''# Star file generated with Scipion\<newline>'',
               Text ''# version 30001\<newline>'',
               TableName ''particles'', Header cols] @
              map (\<lambda>row. RowValues (od_values row)) rows @
              [Text ''\<newline># version 30001\<newline>''] @ writeStar opticsTable ''optics''"
    and g: "getRows opticsTable = od_values (self_optics w')"
    and n: "length rows = length (items example_set_og2)"
    and k: "od_keys (self_optics w')
           = first_seen [] (ogName_of (particle_seed example_set_og2)
                            # map ogName_of (items example_set_og2))"
    and rw: "\<forall>i < length (items example_set_og2).
            od_get (rows ! i) ''rlnOpticsGroup''
              = Some (PInt (int (index_of (ogName_of (items example_set_og2 ! i))
                                   (od_keys (self_optics w'))) + 1))"
    using example_pass_ok by blast
  have k': "od_keys (self_optics w') = [''DefaultOpticsGroup'', ''og2'']"
    unfolding k by simp
  have n': "length rows = 3" using n by simp
  have r0: "od_get (rows ! 0) ''rlnOpticsGroup'' = Some (PInt 2)"
    using rw[rule_format, of 0] by (simp add: k')
  have r1: "od_get (rows ! 1) ''rlnOpticsGroup'' = Some (PInt 2)"
    using rw[rule_format, of 1] by (simp add: k')
  have r2: "od_get (rows ! 2) ''rlnOpticsGroup'' = Some (PInt 2)"
    using rw[rule_format, of 2] by (simp add: k')
  from t m obtain mopticsTable micsTable where
    mo: "mout = [Text ''# Star file generated with Scipion\<newline>'',
                Text ''# version 30001\<newline>''] @ writeStar mopticsTable ''optics'' @
               [Text ''# version 30001\<newline>''] @ writeStar micsTable ''micrographs''"
    and mg: "getRows mopticsTable = od_values (self_optics mw')"
    and mn: "length (getRows micsTable)
               = length [example_particle_og2, example_particle, example_particle_og2]"
    and mk: "od_keys (self_optics mw')
           = first_seen [] (map ogName_of [example_particle_og2, example_particle, example_particle_og2])"
    and mrw: "\<forall>i < length [example_particle_og2, example_particle, example_particle_og2].
            od_get (getRows micsTable ! i) ''rlnOpticsGroup''
              = Some (PInt (int (index_of (ogName_of ([example_particle_og2, example_particle, example_particle_og2] ! i))
                                   (od_keys (self_optics mw'))) + 1))"
    using example_pass_ok by blast
  have mk': "od_keys (self_optics mw') = [''og2'', ''DefaultOpticsGroup'']"
    unfolding mk by simp
  have mn': "length (getRows micsTable) = 3" using mn by simp
  have m0: "od_get (getRows micsTable ! 0) ''rlnOpticsGroup'' = Some (PInt 1)"
    using mrw[rule_format, of 0] by (simp add: mk')
  have m1: "od_get (getRows micsTable ! 1) ''rlnOpticsGroup'' = Some (PInt 2)"
    using mrw[rule_format, of 1] by (simp add: mk')
  have m2: "od_get (getRows micsTable ! 2) ''rlnOpticsGroup'' = Some (PInt 1)"
    using mrw[rule_format, of 2] by (simp add: mk')
  have A: "\<exists>out w' cols rows opticsTable.
      Writer_writeSetOfParticles example_externals example_writer example_set_og2
        ''particles.star'' example_kwargs = Inr (out, w')
    \<and> out = [Text ''# Star file generated with Scipion\<newline>'',
             Text ''# version 30001\<newline>'',
             TableName ''particles'', Header cols] @
            map (\<lambda>row. RowValues (od_values row)) rows @
            [Text ''\<newline># version 30001\<newline>''] @ writeStar opticsTable ''optics''
    \<and> getRows opticsTable = od_values (self_optics w')
    \<and> od_keys (self_optics w') = [''DefaultOpticsGroup'', ''og2'']
    \<and> length rows = 3
    \<and> od_get (rows ! 0) ''rlnOpticsGroup'' = Some (PInt 2)
    \<and> od_get (rows ! 1) ''rlnOpticsGroup'' = Some (PInt 2)
    \<and> od_get (rows ! 2) ''rlnOpticsGroup'' = Some (PInt 2)"
    apply (rule exI[of _ out], rule exI[of _ w'], rule exI[of _ cols], rule exI[of _ rows],
           rule exI[of _ opticsTable])
    apply (intro conjI)
    apply (rule r, rule o, rule g, rule k', rule n', rule r0, rule r1, rule r2)
    done
  have B: "\<exists>mout mw' opticsTable micsTable.
      Writer_writeSetOfMoviesOrMics example_externals example_writer
        [example_particle_og2, example_particle, example_particle_og2] ''micrographs.star''
        ''micrographs'' ''rlnMicrographName'' example_kwargs = Inr (mout, mw')
    \<and> mout = [Text ''# Star file generated with Scipion\<newline>'',
              Text ''# version 30001\<newline>''] @ writeStar opticsTable ''optics'' @
             [Text ''# version 30001\<newline>''] @ writeStar micsTable ''micrographs''
    \<and> getRows opticsTable = od_values (self_optics mw')
    \<and> od_keys (self_optics mw') = [''og2'', ''DefaultOpticsGroup'']
    \<and> length (getRows micsTable) = 3
    \<and> od_get (getRows micsTable ! 0) ''rlnOpticsGroup'' = Some (PInt 1)
    \<and> od_get (getRows micsTable ! 1) ''rlnOpticsGroup'' = Some (PInt 2)
    \<and> od_get (getRows micsTable ! 2) ''rlnOpticsGroup'' = Some (PInt 1)"
    apply (rule exI[of _ mout], rule exI[of _ mw'], rule exI[of _ mopticsTable],
           rule exI[of _ micsTable])
    apply (intro conjI)
    apply (rule m, rule mo, rule mg, rule mk', rule mn', rule m0, rule m1, rule m2)
    done
  from A B show ?thesis by (rule conjI)
qed

text \<open>
  Claim C4 as stated fails: the second particle differs from the first in its voltage and
  its pixel size, so its fingerprint differs, yet it carries no group name either; the
  written file has one optics group, and both lines hold the number 1.
\<close>

theorem optics_fingerprint_counterexample:
  "fingerprint example_particle \<noteq> fingerprint example_particle_200kV
   \<and> (\<exists>out w' cols rows opticsTable.
      Writer_writeSetOfParticles example_externals example_writer example_set
        ''particles.star'' example_kwargs = Inr (out, w')
    \<and> items example_set = [example_particle, example_particle_200kV]
    \<and> out = [Text ''# Star file generated with Scipion\<newline>'',
             Text ''# version 30001\<newline>'',
             TableName ''particles'', Header cols] @
            map (\<lambda>row. RowValues (od_values row)) rows @
            [Text ''\<newline># version 30001\<newline>''] @ writeStar opticsTable ''optics''
    \<and> getRows opticsTable = od_values (self_optics w')
    \<and> od_keys (self_optics w') = [''DefaultOpticsGroup'']
    \<and> length rows = 2
    \<and> od_get (rows ! 0) ''rlnOpticsGroup'' = Some (PInt 1)
    \<and> od_get (rows ! 1) ''rlnOpticsGroup'' = Some (PInt 1))"
proof -
  have f: "fingerprint example_particle \<noteq> fingerprint example_particle_200kV"
    by (simp add: fingerprint_def example_particle_def example_particle_200kV_def
          example_acquisition_def)
  obtain out w' where
    r: "Writer_writeSetOfParticles example_externals example_writer example_set
             ''particles.star'' example_kwargs = Inr (out, w')"
    using example_particles_written
    by (cases "Writer_writeSetOfParticles example_externals example_writer example_set
             ''particles.star'' example_kwargs") auto
  from particles_pass_optics[OF r example_pass_ok] obtain cols rows opticsTable where
    o: "out = [Text ''# Star file generated with Scipion\<newline>'',
               Text ''# version 30001\<newline>'',
               TableName ''particles'', Header cols] @
              map (\<lambda>row. RowValues (od_values row)) rows @
              [Text ''\<newline># version 30001\<newline>''] @ writeStar opticsTable ''optics''"
    and g: "getRows opticsTable = od_values (self_optics w')"
    and n: "length rows = length (items example_set)"
    and k: "od_keys (self_optics w')
           = first_seen [] (ogName_of (particle_seed example_set)
                            # map ogName_of (items example_set))"
    and rw: "\<forall>i < length (items example_set).
            od_get (rows ! i) ''rlnOpticsGroup''
              = Some (PInt (int (index_of (ogName_of (items example_set ! i))
                                   (od_keys (self_optics w'))) + 1))"
    by blast
  have k': "od_keys (self_optics w') = [''DefaultOpticsGroup'']"
    unfolding k by simp
  have n': "length rows = 2" using n by simp
  have r0: "od_get (rows ! 0) ''rlnOpticsGroup'' = Some (PInt 1)"
    using rw[rule_format, of 0] by (simp add: k')
  have r1: "od_get (rows ! 1) ''rlnOpticsGroup'' = Some (PInt 1)"
    using rw[rule_format, of 1] by (simp add: k')
  have i: "items example_set = [example_particle, example_particle_200kV]" by simp
  have A: "\<exists>out w' cols rows opticsTable.
      Writer_writeSetOfParticles example_externals example_writer example_set
        ''particles.star'' example_kwargs = Inr (out, w')
    \<and> items example_set = [example_particle, example_particle_200kV]
    \<and> out = [Text ''# Star file generated with Scipion\<newline>'',
             Text ''# version 30001\<newline>'',
             TableName ''particles'', Header cols] @
            map (\<lambda>row. RowValues (od_values row)) rows @
            [Text ''\<newline># version 30001\<newline>''] @ writeStar opticsTable ''optics''
    \<and> getRows opticsTable = od_values (self_optics w')
    \<and> od_keys (self_optics w') = [''DefaultOpticsGroup'']
    \<and> length rows = 2
    \<and> od_get (rows ! 0) ''rlnOpticsGroup'' = Some (PInt 1)
    \<and> od_get (rows ! 1) ''rlnOpticsGroup'' = Some (PInt 1)"
    apply (rule exI[of _ out], rule exI[of _ w'], rule exI[of _ cols], rule exI[of _ rows],
           rule exI[of _ opticsTable])
    apply (intro conjI)
    apply (rule r, rule i, rule o, rule g, rule k', rule n', rule r0, rule r1)
    done
  from f A show ?thesis by (rule conjI)
qed

subsection \<open>Alignment parameters\<close>

lemma deg2rad_30: "deg2rad 30 = pi / 6"
  by (simp add: deg2rad_def)

lemma rad2deg_30: "rad2deg (pi / 6) = 30"
  by (simp add: rad2deg_def)

lemma arctan_30: "arctan (1 / sqrt 3) = pi / 6"
  by (rule arctan_unique) (simp_all add: tan_30)

lemma EPS_pos: "0 < EPS"
  by (simp add: EPS_def)

lemma elem_simps:
  "elem ((a0, a1, a2, a3), r1, r2, r3) 0 0 = a0"
  "elem ((a0, a1, a2, a3), r1, r2, r3) 0 3 = a3"
  "elem (r0, (b0, b1, b2, b3), r2, r3) 1 0 = b0"
  "elem (r0, (b0, b1, b2, b3), r2, r3) 1 1 = b1"
  "elem (r0, (b0, b1, b2, b3), r2, r3) 1 2 = b2"
  "elem (r0, (b0, b1, b2, b3), r2, r3) 1 3 = b3"
  "elem (r0, r1, (c0, c1, c2, c3), r3) 2 0 = c0"
  "elem (r0, r1, (c0, c1, c2, c3), r3) 2 1 = c1"
  "elem (r0, r1, (c0, c1, c2, c3), r3) 2 2 = c2"
  "elem (r0, r1, (c0, c1, c2, c3), r3) 2 3 = c3"
  "elem (r0, (b0, b1, b2, b3), r2, r3) (Suc 0) 0 = b0"
  "elem (r0, (b0, b1, b2, b3), r2, r3) (Suc 0) (Suc 0) = b1"
  "elem (r0, (b0, b1, b2, b3), r2, r3) (Suc 0) 2 = b2"
  "elem (r0, (b0, b1, b2, b3), r2, r3) (Suc 0) 3 = b3"
  "elem (r0, r1, (c0, c1, c2, c3), r3) 2 (Suc 0) = c1"
  "elem ((a0, a1, a2, a3), r1, r2, r3) 0 (Suc 0) = a1"
  "elem ((a0, a1, a2, a3), r1, r2, r3) 0 2 = a2"
  by (simp_all add: elem_def)

lemma euler_inplane_30:
  "euler_from_matrix_szyz (inplane_matrix 30 x y) = (pi / 6, 0, 0)"
proof -
  have a: "atan2 (- (1 / 2)) (sqrt 3 / 2) = - (pi / 6)"
  proof -
    have "(0::real) < sqrt 3 / 2" by simp
    then have "atan2 (- (1 / 2)) (sqrt 3 / 2) = arctan (- (1 / 2) / (sqrt 3 / 2))"
      by (simp add: atan2_def)
    also have "- (1 / 2) / (sqrt 3 / 2) = - (1 / sqrt 3)" by simp
    also have "arctan (- (1 / sqrt 3)) = - (pi / 6)" by (simp only: arctan_minus arctan_30)
    finally show ?thesis .
  qed
  have b: "atan2 0 1 = 0" by (simp add: atan2_def)
  show ?thesis
    using EPS_pos
    by (simp add: euler_from_matrix_szyz_def inplane_matrix_def Let_def elem_simps
          deg2rad_30 sin_30 cos_30 a b)
qed

lemma euler_matrix_inplane:
  "euler_matrix_szyz 0 0 (deg2rad a) = inplane_matrix a 0 0"
  by (simp add: euler_matrix_szyz_def inplane_matrix_def Let_def)

text \<open>
  Claim C2, as amended. In the in-plane mode the writer stores as \<^verbatim>\<open>rlnAnglePsi\<close> the
  sum of the first and the third Euler angle of the matrix, in degrees (the angles are
  negated, and their sum is negated again), and stores the first two components of the
  translation multiplied by the pixel size of the writer. For the rotation by 30 degrees
  with the shift (2, 3) and the pixel size 1 the row has \<^verbatim>\<open>rlnOriginXAngst\<close> 2,
  \<^verbatim>\<open>rlnOriginYAngst\<close> 3 and \<^verbatim>\<open>rlnAnglePsi\<close> 30.
\<close>

theorem align2D_row:
  "(case efm matrix of
      (e0, e1, e2) \<Rightarrow>
        Writer_align2DToRow efm w (Some matrix) row =
          Inr (od_set ''rlnAnglePsi'' (PFloat (rad2deg e0 + rad2deg e2))
                (od_set ''rlnOriginYAngst'' (PFloat (elem matrix 1 3 * self_pixelSize w))
                  (od_set ''rlnOriginXAngst'' (PFloat (elem matrix 0 3 * self_pixelSize w)) row))))
   \<and> Writer_align2DToRow euler_from_matrix_szyz (w\<lparr>self_pixelSize := 1\<rparr>)
        (Some (inplane_matrix 30 2 3)) []
       = Inr [(''rlnOriginXAngst'', PFloat 2), (''rlnOriginYAngst'', PFloat 3),
              (''rlnAnglePsi'', PFloat 30)]"
proof -
  have A: "case efm matrix of
      (e0, e1, e2) \<Rightarrow>
        Writer_align2DToRow efm w (Some matrix) row =
          Inr (od_set ''rlnAnglePsi'' (PFloat (rad2deg e0 + rad2deg e2))
                (od_set ''rlnOriginYAngst'' (PFloat (elem matrix 1 3 * self_pixelSize w))
                  (od_set ''rlnOriginXAngst'' (PFloat (elem matrix 0 3 * self_pixelSize w)) row)))"
    by (cases "efm matrix")
       (simp add: Writer_align2DToRow_def translation_from_matrix_def Let_def)
  have B: "Writer_align2DToRow euler_from_matrix_szyz (w\<lparr>self_pixelSize := 1\<rparr>)
        (Some (inplane_matrix 30 2 3)) []
       = Inr [(''rlnOriginXAngst'', PFloat 2), (''rlnOriginYAngst'', PFloat 3),
              (''rlnAnglePsi'', PFloat 30)]"
    by (simp add: Writer_align2DToRow_def translation_from_matrix_def Let_def
          euler_inplane_30 rad2deg_30)
       (simp add: inplane_matrix_def elem_simps rad2deg_def)
  from A B show ?thesis by blast
qed

text \<open>
  Claim C2 as stated fails: the Euler angles of the rotation by 30 degrees are
  \<open>(\<pi>/6, 0, 0)\<close>, and the stored angle is 30, which is neither the negation of the sum
  of the first and the third angle nor \<open>-30\<close>.
\<close>

theorem align2D_psi_not_negated:
  "euler_from_matrix_szyz (inplane_matrix 30 2 3) = (pi / 6, 0, 0)
   \<and> map_sum id (\<lambda>row. od_get row ''rlnAnglePsi'')
        (Writer_align2DToRow euler_from_matrix_szyz (example_writer\<lparr>self_pixelSize := 1\<rparr>)
           (Some (inplane_matrix 30 2 3)) [])
       = Inr (Some (PFloat 30))
   \<and> PFloat 30 \<noteq> PFloat (- (rad2deg (pi / 6) + rad2deg 0))
   \<and> PFloat 30 \<noteq> PFloat (- 30)"
proof -
  have B: "Writer_align2DToRow euler_from_matrix_szyz (example_writer\<lparr>self_pixelSize := 1\<rparr>)
        (Some (inplane_matrix 30 2 3)) []
       = Inr [(''rlnOriginXAngst'', PFloat 2), (''rlnOriginYAngst'', PFloat 3),
              (''rlnAnglePsi'', PFloat 30)]"
    by (simp add: Writer_align2DToRow_def translation_from_matrix_def Let_def
          euler_inplane_30 rad2deg_30)
       (simp add: inplane_matrix_def elem_simps rad2deg_def)
  have C: "map_sum id (\<lambda>row. od_get row ''rlnAnglePsi'')
        (Writer_align2DToRow euler_from_matrix_szyz (example_writer\<lparr>self_pixelSize := 1\<rparr>)
           (Some (inplane_matrix 30 2 3)) [])
       = Inr (Some (PFloat 30))"
    unfolding B by (simp add: od_get_def)
  have D: "PFloat 30 \<noteq> PFloat (- (rad2deg (pi / 6) + rad2deg 0))"
    by (simp add: rad2deg_def)
  show ?thesis using euler_inplane_30 C D by simp
qed

lemma row_get_float: "od_get row l = Some (PFloat x) \<Longrightarrow> row_get sf row l = Inr x"
  by (simp add: row_get_def py_float_def)

lemma row_get_absent: "od_get row l = None \<Longrightarrow> row_get sf row l = Inr 0"
  by (simp add: row_get_def py_float_def)

lemma bind_err_Inr_simp: "bind_err (Inr a) f = f a"
  by (simp add: bind_err_def)

lemma reader_proj_values:
  assumes "row_get sf row ''rlnOriginXAngst'' = Inr x"
      and "row_get sf row ''rlnOriginYAngst'' = Inr y"
      and "row_get sf row ''rlnOriginZAngst'' = Inr z"
      and "row_get sf row ''rlnAngleRot'' = Inr rot"
      and "row_get sf row ''rlnAngleTilt'' = Inr tilt"
      and "row_get sf row ''rlnAnglePsi'' = Inr psi"
  shows "Reader_setParticleTransformProj linv em sf r row =
           (case alignProj_read_spec linv em (self_invPixelSize r) (x, y, z) (rot, tilt, psi) of
              None \<Rightarrow> Inl LinAlgError
            | Some M \<Rightarrow>
                Inr (M, r\<lparr>self_angles := (rot, tilt, psi),
                          self_shifts := (x * self_invPixelSize r, y * self_invPixelSize r,
                                          z * self_invPixelSize r)\<rparr>))"
  using assms
  by (simp add: Reader_setParticleTransformProj_def alignProj_read_spec_def Let_def
        bind_err_Inr_simp deg2rad_def)

text \<open>
  Claim C3. In the projection mode the row that the writer makes is the one the
  specification describes: the matrix is inverted (a matrix without inverse is an
  error), the translation of the inverse is negated and scaled by the pixel size, and the
  Euler angles of the inverse are negated. The matrix that the reader sets is the one the
  specification describes: the matrix built from the three negated angles, with the
  negated stored translation scaled by the inverse pixel size in its last column,
  inverted; a row without alignment labels is read as zeros.
\<close>

theorem alignProj_codec:
  "Writer_alignProjToRow linv efm w (Some m) row =
     (case alignProj_write_spec linv efm (self_pixelSize w) m of
        None \<Rightarrow> Inl LinAlgError
      | Some ((sx, sy, sz), (rot, tilt, psi)) \<Rightarrow>
          Inr (od_set ''rlnAnglePsi'' (PFloat psi)
                (od_set ''rlnAngleTilt'' (PFloat tilt)
                  (od_set ''rlnAngleRot'' (PFloat rot)
                    (od_set ''rlnOriginZAngst'' (PFloat sz)
                      (od_set ''rlnOriginYAngst'' (PFloat sy)
                        (od_set ''rlnOriginXAngst'' (PFloat sx) row)))))))
   \<and> (od_get row' ''rlnOriginXAngst'' = Some (PFloat x)
        \<and> od_get row' ''rlnOriginYAngst'' = Some (PFloat y)
        \<and> od_get row' ''rlnOriginZAngst'' = Some (PFloat z)
        \<and> od_get row' ''rlnAngleRot'' = Some (PFloat rot)
        \<and> od_get row' ''rlnAngleTilt'' = Some (PFloat tilt)
        \<and> od_get row' ''rlnAnglePsi'' = Some (PFloat psi)
      \<longrightarrow> Reader_setParticleTransformProj linv em sf r row' =
           (case alignProj_read_spec linv em (self_invPixelSize r) (x, y, z) (rot, tilt, psi) of
              None \<Rightarrow> Inl LinAlgError
            | Some M \<Rightarrow>
                Inr (M, r\<lparr>self_angles := (rot, tilt, psi),
                          self_shifts := (x * self_invPixelSize r, y * self_invPixelSize r,
                                          z * self_invPixelSize r)\<rparr>)))
   \<and> Reader_setParticleTransformProj linv em sf r [] =
           (case alignProj_read_spec linv em (self_invPixelSize r) (0, 0, 0) (0, 0, 0) of
              None \<Rightarrow> Inl LinAlgError
            | Some M \<Rightarrow> Inr (M, r\<lparr>self_angles := (0, 0, 0), self_shifts := (0, 0, 0)\<rparr>))"
proof -
  have A: "Writer_alignProjToRow linv efm w (Some m) row =
     (case alignProj_write_spec linv efm (self_pixelSize w) m of
        None \<Rightarrow> Inl LinAlgError
      | Some ((sx, sy, sz), (rot, tilt, psi)) \<Rightarrow>
          Inr (od_set ''rlnAnglePsi'' (PFloat psi)
                (od_set ''rlnAngleTilt'' (PFloat tilt)
                  (od_set ''rlnAngleRot'' (PFloat rot)
                    (od_set ''rlnOriginZAngst'' (PFloat sz)
                      (od_set ''rlnOriginYAngst'' (PFloat sy)
                        (od_set ''rlnOriginXAngst'' (PFloat sx) row)))))))"
  proof (cases "linv m")
    case None
    then show ?thesis by (simp add: Writer_alignProjToRow_def alignProj_write_spec_def)
  next
    case (Some mi)
    obtain tx ty tz where t: "translation_from_matrix mi = (tx, ty, tz)"
      by (cases "translation_from_matrix mi")
    obtain e0 e1 e2 where e: "efm mi = (e0, e1, e2)" by (cases "efm mi")
    show ?thesis
      by (simp add: Writer_alignProjToRow_def alignProj_write_spec_def Some t e Let_def)
  qed
  have B: "od_get row' ''rlnOriginXAngst'' = Some (PFloat x)
        \<and> od_get row' ''rlnOriginYAngst'' = Some (PFloat y)
        \<and> od_get row' ''rlnOriginZAngst'' = Some (PFloat z)
        \<and> od_get row' ''rlnAngleRot'' = Some (PFloat rot)
        \<and> od_get row' ''rlnAngleTilt'' = Some (PFloat tilt)
        \<and> od_get row' ''rlnAnglePsi'' = Some (PFloat psi)
      \<longrightarrow> Reader_setParticleTransformProj linv em sf r row' =
           (case alignProj_read_spec linv em (self_invPixelSize r) (x, y, z) (rot, tilt, psi) of
              None \<Rightarrow> Inl LinAlgError
            | Some M \<Rightarrow>
                Inr (M, r\<lparr>self_angles := (rot, tilt, psi),
                          self_shifts := (x * self_invPixelSize r, y * self_invPixelSize r,
                                          z * self_invPixelSize r)\<rparr>))"
    using reader_proj_values[of sf row' x y z rot tilt psi linv em r] row_get_float[of row' _ _ sf]
    by blast
  have z: "\<And>l. row_get sf [] l = Inr 0" by (simp add: row_get_absent od_get_def)
  have C: "Reader_setParticleTransformProj linv em sf r [] =
           (case alignProj_read_spec linv em (self_invPixelSize r) (0, 0, 0) (0, 0, 0) of
              None \<Rightarrow> Inl LinAlgError
            | Some M \<Rightarrow> Inr (M, r\<lparr>self_angles := (0, 0, 0), self_shifts := (0, 0, 0)\<rparr>))"
    using reader_proj_values[of sf "[]" 0 0 0 0 0 0 linv em r] z
    by (cases "alignProj_read_spec linv em (self_invPixelSize r) (0, 0, 0) (0, 0, 0)") simp_all
  from A B C show ?thesis by blast
qed

lemma euler_identity: "euler_from_matrix_szyz (translation_matrix x y z) = (0, 0, 0)"
  using EPS_pos
  by (simp add: euler_from_matrix_szyz_def translation_matrix_def Let_def elem_simps atan2_def)

lemma euler_matrix_zero: "euler_matrix_szyz 0 0 0 = translation_matrix 0 0 0"
  by (simp add: euler_matrix_szyz_def translation_matrix_def Let_def)

lemma rigid_inv_translation: "rigid_inv (translation_matrix x y z) = translation_matrix (- x) (- y) (- z)"
  by (simp add: rigid_inv_def translation_matrix_def Let_def elem_simps)

text \<open>
  A shift of (2, 3) pixels without rotation at the pixel size 2 is written as (4, 6, 0)
  with three zero angles, and that row is read back as the same shift.
\<close>

theorem alignProj_codec_witness:
  "Writer_alignProjToRow (\<lambda>m. Some (rigid_inv m)) euler_from_matrix_szyz
     (example_writer\<lparr>self_pixelSize := 2\<rparr>) (Some (translation_matrix 2 3 0)) []
     = Inr [(''rlnOriginXAngst'', PFloat 4), (''rlnOriginYAngst'', PFloat 6),
            (''rlnOriginZAngst'', PFloat 0), (''rlnAngleRot'', PFloat 0),
            (''rlnAngleTilt'', PFloat 0), (''rlnAnglePsi'', PFloat 0)]
   \<and> Reader_setParticleTransformProj (\<lambda>m. Some (rigid_inv m)) euler_matrix_szyz (\<lambda>s. None)
       (example_reader\<lparr>self_invPixelSize := 1 / 2\<rparr>)
       [(''rlnOriginXAngst'', PFloat 4), (''rlnOriginYAngst'', PFloat 6),
        (''rlnOriginZAngst'', PFloat 0), (''rlnAngleRot'', PFloat 0),
        (''rlnAngleTilt'', PFloat 0), (''rlnAnglePsi'', PFloat 0)]
     = Inr (translation_matrix 2 3 0,
            example_reader\<lparr>self_invPixelSize := 1 / 2, self_angles := (0, 0, 0),
                             self_shifts := (2, 3, 0)\<rparr>)"
proof -
  note t = alignProj_codec [of "\<lambda>m. Some (rigid_inv m)" euler_from_matrix_szyz
      "example_writer\<lparr>self_pixelSize := 2\<rparr>" "translation_matrix 2 3 0" "[]"
      "[(''rlnOriginXAngst'', PFloat 4), (''rlnOriginYAngst'', PFloat 6),
        (''rlnOriginZAngst'', PFloat 0), (''rlnAngleRot'', PFloat 0),
        (''rlnAngleTilt'', PFloat 0), (''rlnAnglePsi'', PFloat 0)]"
      4 6 0 0 0 0 euler_matrix_szyz "\<lambda>s. None" "example_reader\<lparr>self_invPixelSize := 1 / 2\<rparr>"]
  have w: "alignProj_write_spec (\<lambda>m. Some (rigid_inv m)) euler_from_matrix_szyz 2
             (translation_matrix 2 3 0) = Some ((4, 6, 0), (0, 0, 0))"
    by (simp add: alignProj_write_spec_def rigid_inv_translation euler_identity rad2deg_def)
       (simp add: translation_from_matrix_def translation_matrix_def elem_simps)
  have r: "alignProj_read_spec (\<lambda>m. Some (rigid_inv m)) euler_matrix_szyz (1 / 2)
             (4, 6, 0) (0, 0, 0) = Some (translation_matrix 2 3 0)"
    by (simp add: alignProj_read_spec_def deg2rad_def euler_matrix_zero)
       (simp add: translation_matrix_def rigid_inv_def Let_def elem_simps)
  from t have a: "Writer_alignProjToRow (\<lambda>m. Some (rigid_inv m)) euler_from_matrix_szyz
     (example_writer\<lparr>self_pixelSize := 2\<rparr>) (Some (translation_matrix 2 3 0)) []
     = Inr [(''rlnOriginXAngst'', PFloat 4), (''rlnOriginYAngst'', PFloat 6),
            (''rlnOriginZAngst'', PFloat 0), (''rlnAngleRot'', PFloat 0),
            (''rlnAngleTilt'', PFloat 0), (''rlnAnglePsi'', PFloat 0)]"
    by (simp add: w)
  have g: "od_get [(''rlnOriginXAngst'', PFloat 4), (''rlnOriginYAngst'', PFloat 6),
        (''rlnOriginZAngst'', PFloat 0), (''rlnAngleRot'', PFloat 0),
        (''rlnAngleTilt'', PFloat 0), (''rlnAnglePsi'', PFloat 0)] ''rlnOriginXAngst'' = Some (PFloat 4)
     \<and> od_get [(''rlnOriginXAngst'', PFloat 4), (''rlnOriginYAngst'', PFloat 6),
        (''rlnOriginZAngst'', PFloat 0), (''rlnAngleRot'', PFloat 0),
        (''rlnAngleTilt'', PFloat 0), (''rlnAnglePsi'', PFloat 0)] ''rlnOriginYAngst'' = Some (PFloat 6)
     \<and> od_get [(''rlnOriginXAngst'', PFloat 4), (''rlnOriginYAngst'', PFloat 6),
        (''rlnOriginZAngst'', PFloat 0), (''rlnAngleRot'', PFloat 0),
        (''rlnAngleTilt'', PFloat 0), (''rlnAnglePsi'', PFloat 0)] ''rlnOriginZAngst'' = Some (PFloat 0)
     \<and> od_get [(''rlnOriginXAngst'', PFloat 4), (''rlnOriginYAngst'', PFloat 6),
        (''rlnOriginZAngst'', PFloat 0), (''rlnAngleRot'', PFloat 0),
        (''rlnAngleTilt'', PFloat 0), (''rlnAnglePsi'', PFloat 0)] ''rlnAngleRot'' = Some (PFloat 0)
     \<and> od_get [(''rlnOriginXAngst'', PFloat 4), (''rlnOriginYAngst'', PFloat 6),
        (''rlnOriginZAngst'', PFloat 0), (''rlnAngleRot'', PFloat 0),
        (''rlnAngleTilt'', PFloat 0), (''rlnAnglePsi'', PFloat 0)] ''rlnAngleTilt'' = Some (PFloat 0)
     \<and> od_get [(''rlnOriginXAngst'', PFloat 4), (''rlnOriginYAngst'', PFloat 6),
        (''rlnOriginZAngst'', PFloat 0), (''rlnAngleRot'', PFloat 0),
        (''rlnAngleTilt'', PFloat 0), (''rlnAnglePsi'', PFloat 0)] ''rlnAnglePsi'' = Some (PFloat 0)"
    by (simp add: od_get_def)
  from t g have b: "Reader_setParticleTransformProj (\<lambda>m. Some (rigid_inv m)) euler_matrix_szyz (\<lambda>s. None)
       (example_reader\<lparr>self_invPixelSize := 1 / 2\<rparr>)
       [(''rlnOriginXAngst'', PFloat 4), (''rlnOriginYAngst'', PFloat 6),
        (''rlnOriginZAngst'', PFloat 0), (''rlnAngleRot'', PFloat 0),
        (''rlnAngleTilt'', PFloat 0), (''rlnAnglePsi'', PFloat 0)]
     = (case alignProj_read_spec (\<lambda>m. Some (rigid_inv m)) euler_matrix_szyz
               (self_invPixelSize (example_reader\<lparr>self_invPixelSize := 1 / 2\<rparr>))
               (4, 6, 0) (0, 0, 0) of
              None \<Rightarrow> Inl LinAlgError
            | Some M \<Rightarrow>
                Inr (M, example_reader\<lparr>self_invPixelSize := 1 / 2\<rparr>
                         \<lparr>self_angles := (0, 0, 0),
                          self_shifts := (4 * self_invPixelSize (example_reader\<lparr>self_invPixelSize := 1 / 2\<rparr>),
                                          6 * self_invPixelSize (example_reader\<lparr>self_invPixelSize := 1 / 2\<rparr>),
                                          0 * self_invPixelSize (example_reader\<lparr>self_invPixelSize := 1 / 2\<rparr>))\<rparr>))"
    by blast
  have b': "Reader_setParticleTransformProj (\<lambda>m. Some (rigid_inv m)) euler_matrix_szyz (\<lambda>s. None)
       (example_reader\<lparr>self_invPixelSize := 1 / 2\<rparr>)
       [(''rlnOriginXAngst'', PFloat 4), (''rlnOriginYAngst'', PFloat 6),
        (''rlnOriginZAngst'', PFloat 0), (''rlnAngleRot'', PFloat 0),
        (''rlnAngleTilt'', PFloat 0), (''rlnAnglePsi'', PFloat 0)]
     = Inr (translation_matrix 2 3 0,
            example_reader\<lparr>self_invPixelSize := 1 / 2, self_angles := (0, 0, 0),
                             self_shifts := (2, 3, 0)\<rparr>)"
    unfolding b by (simp add: r example_reader_def)
  from a b' show ?thesis by blast
qed

end
